(* ===== verification/Prelude.thy ===== *)
theory Prelude
  imports Main "HOL-Library.Sublist" "HOL-Library.List_Lexorder"
begin

text \<open>
  Shared vocabulary of the Guardian development. A Python \<open>str\<close> is a sequence of
  Unicode code points, modelled as a list of naturals (\<open>ustr\<close>); an ASCII literal of
  the source is written \<open>ustr ''...''\<close>, a non-ASCII code point by its number. The
  theory also fixes the Python exceptions the program raises or catches, the HTTP
  error value of the web handlers, and the list and option lemmas the component
  theories share (collected in \<open>guardian_simps\<close>).
\<close>

named_theorems guardian_simps "evaluation rules shared by the component theories"

type_synonym cp = nat
type_synonym ustr = "nat list"

definition ustr :: "string \<Rightarrow> ustr" where
  "ustr s = map of_char s"

lemma ustr_Nil [simp]: "ustr [] = []"
  and ustr_Cons [simp]: "ustr (c # s) = of_char c # ustr s"
  and ustr_append [simp]: "ustr (s @ t) = ustr s @ ustr t"
  by (simp_all add: ustr_def)

lemma length_ustr [simp]: "length (ustr s) = length s"
  by (simp add: ustr_def)

text \<open>Python exceptions that the modelled code raises, propagates or catches.\<close>

datatype py_error =
    KeyError ustr
  | JSONDecodeError
  | ValueError ustr
  | IntegrityError ustr
  | DataError ustr
  | ProviderError ustr
  | UnboundLocalError ustr
  | FileNotFoundError ustr
  | TypeError ustr
  | AttributeError ustr
  | OperationalError ustr
  | GroqError ustr
  | SyntaxError ustr

text \<open>\<open>HTTPException(status_code, detail)\<close> of FastAPI, and a handler's result.\<close>

datatype http_error = HTTPException nat ustr

type_synonym 'a http_result = "http_error + 'a"

text \<open>
  A Python loop over a list whose body may raise: the first exception ends it
  (\<open>Inl\<close>), otherwise the list of the body's results.
\<close>

fun sum_map :: "('a \<Rightarrow> 'e + 'b) \<Rightarrow> 'a list \<Rightarrow> 'e + 'b list" where
  "sum_map f [] = Inr []"
| "sum_map f (x # xs) =
     (case f x of Inl e \<Rightarrow> Inl e | Inr y \<Rightarrow> (case sum_map f xs of Inl e \<Rightarrow> Inl e | Inr ys \<Rightarrow> Inr (y # ys)))"

text \<open>\<open>str(n)\<close> of a natural number: its decimal digits.\<close>

fun py_str_nat :: "nat \<Rightarrow> ustr" where
  "py_str_nat n = (if n < 10 then [48 + n] else py_str_nat (n div 10) @ [48 + n mod 10])"

text \<open>\<open>str(e)\<close> of an exception: the message it was raised with.\<close>

fun py_error_msg :: "py_error \<Rightarrow> ustr" where
  "py_error_msg (KeyError k) = [39] @ k @ [39]"
| "py_error_msg JSONDecodeError = ustr ''Expecting value''"
| "py_error_msg (ValueError m) = m"
| "py_error_msg (IntegrityError m) = m"
| "py_error_msg (DataError m) = m"
| "py_error_msg (ProviderError m) = m"
| "py_error_msg (UnboundLocalError m) = m"
| "py_error_msg (FileNotFoundError p) = ustr ''[Errno 2] No such file or directory: '' @ [39] @ p @ [39]"
| "py_error_msg (TypeError m) = m"
| "py_error_msg (AttributeError m) = m"
| "py_error_msg (OperationalError m) = m"
| "py_error_msg (GroqError m) = m"
| "py_error_msg (SyntaxError m) = m"

text \<open>Python's \<open>x or y\<close> on an optional string: \<open>None\<close> and \<open>""\<close> are falsy.\<close>

definition py_or_str :: "ustr option \<Rightarrow> ustr \<Rightarrow> ustr" where
  "py_or_str x y = (case x of None \<Rightarrow> y | Some s \<Rightarrow> if s = [] then y else s)"

subsection \<open>List lemmas shared by the scanners\<close>

lemma takeWhile_dropWhile_append [guardian_simps]:
  "takeWhile P xs @ dropWhile P xs = xs"
  by simp

lemma dropWhile_append_all [guardian_simps]:
  "list_all P xs \<Longrightarrow> dropWhile P (xs @ ys) = dropWhile P ys"
  by (induction xs) auto

lemma takeWhile_append_all [guardian_simps]:
  "list_all P xs \<Longrightarrow> takeWhile P (xs @ ys) = xs @ takeWhile P ys"
  by (induction xs) auto

lemma takeWhile_stop [guardian_simps]:
  "\<not> P y \<Longrightarrow> takeWhile P (y # ys) = []"
  and dropWhile_stop [guardian_simps]:
  "\<not> P y \<Longrightarrow> dropWhile P (y # ys) = y # ys"
  by simp_all

lemma takeWhile_append_stop [guardian_simps]:
  "\<not> P y \<Longrightarrow> takeWhile P (xs @ y # ys) = takeWhile P xs"
  by (induction xs) auto

lemma dropWhile_append_stop [guardian_simps]:
  "\<not> P y \<Longrightarrow> dropWhile P (xs @ y # ys) = dropWhile P xs @ y # ys"
  by (induction xs) auto

lemma list_all_takeWhile_id [guardian_simps]: "list_all P xs \<Longrightarrow> takeWhile P xs = xs"
  and list_all_dropWhile_Nil [guardian_simps]: "list_all P xs \<Longrightarrow> dropWhile P xs = []"
  by (induction xs) auto

lemma length_dropWhile_le [guardian_simps]: "length (dropWhile P xs) \<le> length xs"
  by (induction xs) auto

lemma list_all_takeWhile [guardian_simps]: "list_all P (takeWhile P xs)"
  by (induction xs) auto

lemma sublist_takeWhile [guardian_simps]: "sublist (takeWhile P xs) xs"
  by (metis prefix_imp_sublist prefixI takeWhile_dropWhile_id)

end
