(* ===== verification/Python_Str.thy ===== *)
theory Python_Str
  imports Prelude
begin

text \<open>
  The part of the Python 3 runtime the program calls on strings: the character
  classes of the \<open>re\<close> module (\<open>\w\<close>, \<open>\d\<close>, \<open>\s\<close>, case-insensitive
  letters), \<open>str.lower\<close>, \<open>str.strip\<close>, \<open>in\<close>, \<open>str.join\<close>,
  \<open>str.startswith\<close>, \<open>str.endswith\<close>, \<open>str.split\<close> on one character, and a search and a
  findall driver over a matcher that knows the character before the current position
  (needed for \<open>\b\<close>). The tables are exact on ASCII and Latin-1 and on Unicode
  whitespace; above U+00FF they are the documented approximation stated in the root
  theory's header (Indic script blocks, Arabic-Indic digits, the dotted and dotless
  \<open>i\<close>, long \<open>s\<close> and the Kelvin sign).
\<close>

subsection \<open>Character classes\<close>

definition is_ascii_upper :: "cp \<Rightarrow> bool" where
  "is_ascii_upper c \<longleftrightarrow> 65 \<le> c \<and> c \<le> 90"

definition is_ascii_lower :: "cp \<Rightarrow> bool" where
  "is_ascii_lower c \<longleftrightarrow> 97 \<le> c \<and> c \<le> 122"

definition is_ascii_alpha :: "cp \<Rightarrow> bool" where
  "is_ascii_alpha c \<longleftrightarrow> is_ascii_upper c \<or> is_ascii_lower c"

definition is_ascii_digit :: "cp \<Rightarrow> bool" where
  "is_ascii_digit c \<longleftrightarrow> 48 \<le> c \<and> c \<le> 57"

text \<open>\<open>\s\<close> and \<open>str.isspace\<close>: the Unicode white space characters.\<close>

definition py_isspace :: "cp \<Rightarrow> bool" where
  "py_isspace c \<longleftrightarrow>
     (9 \<le> c \<and> c \<le> 13) \<or> (28 \<le> c \<and> c \<le> 32) \<or> c = 0x85 \<or> c = 0xA0 \<or> c = 0x1680 \<or>
     (0x2000 \<le> c \<and> c \<le> 0x200A) \<or> c = 0x2028 \<or> c = 0x2029 \<or> c = 0x202F \<or>
     c = 0x205F \<or> c = 0x3000"

text \<open>First code points of the decimal digit runs of the Indic scripts.\<close>

definition indic_digit_zeros :: "cp list" where
  "indic_digit_zeros = [0x966, 0x9E6, 0xA66, 0xAE6, 0xB66, 0xBE6, 0xC66, 0xCE6, 0xD66]"

text \<open>\<open>\d\<close> on a \<open>str\<close> pattern: Unicode decimal digits.\<close>

definition py_isdigit :: "cp \<Rightarrow> bool" where
  "py_isdigit c \<longleftrightarrow>
     is_ascii_digit c \<or> (0x660 \<le> c \<and> c \<le> 0x669) \<or> (0x6F0 \<le> c \<and> c \<le> 0x6F9) \<or>
     list_ex (\<lambda>z. z \<le> c \<and> c \<le> z + 9) indic_digit_zeros"

definition latin1_alnum :: "cp \<Rightarrow> bool" where
  "latin1_alnum c \<longleftrightarrow>
     c = 0xAA \<or> c = 0xB2 \<or> c = 0xB3 \<or> c = 0xB5 \<or> c = 0xB9 \<or> c = 0xBA \<or>
     (0xBC \<le> c \<and> c \<le> 0xBE) \<or> (0xC0 \<le> c \<and> c \<le> 0xFF \<and> c \<noteq> 0xD7 \<and> c \<noteq> 0xF7)"

definition indic_word :: "cp \<Rightarrow> bool" where
  "indic_word c \<longleftrightarrow> 0x900 \<le> c \<and> c \<le> 0xDFF \<and> c \<noteq> 0x964 \<and> c \<noteq> 0x965"

text \<open>\<open>\w\<close>: alphanumeric characters and the underscore.\<close>

definition py_isword :: "cp \<Rightarrow> bool" where
  "py_isword c \<longleftrightarrow>
     is_ascii_alpha c \<or> py_isdigit c \<or> c = 95 \<or> latin1_alnum c \<or> indic_word c"

text \<open>
  Under \<open>re.IGNORECASE\<close> a pattern letter \<open>p\<close> (always a lower-case ASCII letter
  here) matches itself, its upper case, and the extra case-fold partners of \<open>sre\<close>:
  U+017F for \<open>s\<close>, U+0130 and U+0131 for \<open>i\<close>, U+212A for \<open>k\<close>.
\<close>

definition re_ci_char :: "cp \<Rightarrow> cp \<Rightarrow> bool" where
  "re_ci_char p c \<longleftrightarrow>
     c = p \<or> c + 32 = p \<or> (p = 0x73 \<and> c = 0x17F) \<or> (p = 0x69 \<and> (c = 0x130 \<or> c = 0x131)) \<or>
     (p = 0x6B \<and> c = 0x212A)"

text \<open>The class \<open>[A-Za-z]\<close> under \<open>re.IGNORECASE\<close>.\<close>

definition re_ci_alpha :: "cp \<Rightarrow> bool" where
  "re_ci_alpha c \<longleftrightarrow> is_ascii_alpha c \<or> c = 0x130 \<or> c = 0x131 \<or> c = 0x17F \<or> c = 0x212A"

lemmas char_class_defs [guardian_simps] =
  is_ascii_upper_def is_ascii_lower_def is_ascii_alpha_def is_ascii_digit_def
  py_isspace_def py_isdigit_def indic_digit_zeros_def latin1_alnum_def indic_word_def
  py_isword_def re_ci_char_def re_ci_alpha_def

lemma py_isdigit_isword: "py_isdigit c \<Longrightarrow> py_isword c"
  by (simp add: py_isword_def)

lemma py_isspace_not_digit: "py_isspace c \<Longrightarrow> \<not> py_isdigit c"
  by (auto simp: py_isspace_def py_isdigit_def is_ascii_digit_def indic_digit_zeros_def)

lemma py_isspace_not_word: "py_isspace c \<Longrightarrow> \<not> py_isword c"
  by (auto simp: py_isspace_def py_isword_def py_isdigit_def is_ascii_digit_def
      is_ascii_alpha_def is_ascii_upper_def is_ascii_lower_def indic_digit_zeros_def
      latin1_alnum_def indic_word_def)

lemma re_ci_alpha_not_digit: "re_ci_alpha c \<Longrightarrow> \<not> py_isdigit c"
  by (auto simp: re_ci_alpha_def py_isdigit_def is_ascii_digit_def is_ascii_alpha_def
      is_ascii_upper_def is_ascii_lower_def indic_digit_zeros_def)

subsection \<open>\<open>str.lower\<close>\<close>

text \<open>Full lower-case mapping of one code point (U+0130 lowers to two).\<close>

definition py_lower_cp :: "cp \<Rightarrow> ustr" where
  "py_lower_cp c =
     (if is_ascii_upper c then [c + 32]
      else if 0xC0 \<le> c \<and> c \<le> 0xDE \<and> c \<noteq> 0xD7 then [c + 32]
      else if c = 0x130 then [0x69, 0x307]
      else if c = 0x212A then [0x6B]
      else [c])"

definition py_lower :: "ustr \<Rightarrow> ustr" where
  "py_lower s = concat (map py_lower_cp s)"

lemma py_lower_simps [simp]:
  "py_lower [] = []"
  "py_lower (c # s) = py_lower_cp c @ py_lower s"
  "py_lower (s @ t) = py_lower s @ py_lower t"
  by (simp_all add: py_lower_def)

subsection \<open>\<open>str.strip\<close>, \<open>in\<close>, \<open>str.startswith\<close>, \<open>str.join\<close>\<close>

definition py_strip :: "ustr \<Rightarrow> ustr" where
  "py_strip s = rev (dropWhile py_isspace (rev (dropWhile py_isspace s)))"

fun py_startswith :: "ustr \<Rightarrow> ustr \<Rightarrow> bool" where
  "py_startswith s [] = True"
| "py_startswith [] (p # ps) = False"
| "py_startswith (c # cs) (p # ps) = (c = p \<and> py_startswith cs ps)"

text \<open>\<open>needle in hay\<close> for strings.\<close>

fun py_in :: "ustr \<Rightarrow> ustr \<Rightarrow> bool" where
  "py_in n [] = (n = [])"
| "py_in n (c # cs) = (py_startswith (c # cs) n \<or> py_in n cs)"

lemma py_startswith_prefix: "py_startswith s p \<longleftrightarrow> prefix p s"
  by (induction s p rule: py_startswith.induct) auto

text \<open>The executable substring test is the library's \<open>sublist\<close>.\<close>

lemma py_in_sublist: "py_in n h \<longleftrightarrow> sublist n h"
  by (induction h) (auto simp: py_startswith_prefix sublist_Cons_right)

fun py_join :: "ustr \<Rightarrow> ustr list \<Rightarrow> ustr" where
  "py_join sep [] = []"
| "py_join sep [x] = x"
| "py_join sep (x # y # zs) = x @ sep @ py_join sep (y # zs)"

definition py_endswith :: "ustr \<Rightarrow> ustr \<Rightarrow> bool" where
  "py_endswith s suf \<longleftrightarrow> py_startswith (rev s) (rev suf)"

text \<open>\<open>s.split(c)\<close> for a one-character separator.\<close>

fun py_split_char :: "cp \<Rightarrow> ustr \<Rightarrow> ustr list" where
  "py_split_char c [] = [[]]"
| "py_split_char c (x # xs) =
     (if x = c then [] # py_split_char c xs
      else (case py_split_char c xs of [] \<Rightarrow> [[x]] | w # ws \<Rightarrow> (x # w) # ws))"

text \<open>\<open>s.split(sep)\<close> for a non-empty separator, scanning left to right.\<close>

fun py_split :: "ustr \<Rightarrow> ustr \<Rightarrow> ustr list" where
  "py_split sep [] = [[]]"
| "py_split sep (c # cs) =
     (if sep \<noteq> [] \<and> py_startswith (c # cs) sep then [] # py_split sep (drop (length sep - 1) cs)
      else (case py_split sep cs of [] \<Rightarrow> [[c]] | w # ws \<Rightarrow> (c # w) # ws))"

text \<open>\<open>s.replace(old, new)\<close> for a non-empty \<open>old\<close>.\<close>

fun py_replace :: "ustr \<Rightarrow> ustr \<Rightarrow> ustr \<Rightarrow> ustr" where
  "py_replace old new [] = []"
| "py_replace old new (c # cs) =
     (if old \<noteq> [] \<and> py_startswith (c # cs) old then new @ py_replace old new (drop (length old - 1) cs)
      else c # py_replace old new cs)"

text \<open>\<open>s.split(c, 1)\<close> for a one-character separator.\<close>

definition py_split1 :: "cp \<Rightarrow> ustr \<Rightarrow> ustr list" where
  "py_split1 c s =
     (if c \<in> set s then [takeWhile (\<lambda>x. x \<noteq> c) s, tl (dropWhile (\<lambda>x. x \<noteq> c) s)] else [s])"

subsection \<open>Regular-expression drivers\<close>

text \<open>
  A matcher gets the character before the current position (\<open>None\<close> at the start
  of the string) and the rest of the string. \<open>\b\<close> holds where exactly one of the
  two neighbouring characters is a word character.
\<close>

definition re_boundary :: "cp option \<Rightarrow> ustr \<Rightarrow> bool" where
  "re_boundary prev s \<longleftrightarrow>
     (case prev of None \<Rightarrow> False | Some c \<Rightarrow> py_isword c) \<noteq>
     (case s of [] \<Rightarrow> False | c # _ \<Rightarrow> py_isword c)"

text \<open>A literal, case-sensitive and under \<open>re.IGNORECASE\<close>: the rest after it.\<close>

fun re_lit :: "ustr \<Rightarrow> ustr \<Rightarrow> ustr option" where
  "re_lit [] s = Some s"
| "re_lit (p # ps) [] = None"
| "re_lit (p # ps) (c # cs) = (if c = p then re_lit ps cs else None)"

fun re_ci_lit :: "ustr \<Rightarrow> ustr \<Rightarrow> ustr option" where
  "re_ci_lit [] s = Some s"
| "re_ci_lit (p # ps) [] = None"
| "re_ci_lit (p # ps) (c # cs) = (if re_ci_char p c then re_ci_lit ps cs else None)"

text \<open>
  \<open>re.search\<close>: the first position, from left to right and including the end of the
  string, at which the matcher succeeds.
\<close>

fun re_search :: "(cp option \<Rightarrow> ustr \<Rightarrow> 'a option) \<Rightarrow> cp option \<Rightarrow> ustr \<Rightarrow> 'a option" where
  "re_search m prev [] = m prev []"
| "re_search m prev (c # cs) =
     (case m prev (c # cs) of Some v \<Rightarrow> Some v | None \<Rightarrow> re_search m (Some c) cs)"

text \<open>
  \<open>re.findall\<close> for patterns that never match the empty string: the matcher returns
  the group and \<open>n\<close> for a match of \<open>Suc n\<close> characters; scanning resumes after
  the match, with its last character as the one before.
\<close>

function (domintros) re_findall :: "(cp option \<Rightarrow> ustr \<Rightarrow> ('a \<times> nat) option) \<Rightarrow> cp option \<Rightarrow> ustr \<Rightarrow> 'a list" where
  "re_findall m prev [] = (case m prev [] of Some (v, _) \<Rightarrow> [v] | None \<Rightarrow> [])"
| "re_findall m prev (c # cs) =
     (case m prev (c # cs) of
        Some (v, n) \<Rightarrow> v # re_findall m (Some ((c # cs) ! min n (length cs))) (drop (Suc n) (c # cs))
      | None \<Rightarrow> re_findall m (Some c) cs)"
  by pat_completeness auto
termination
  by (relation "measure (\<lambda>(m, prev, s). length s)") auto

subsection \<open>Lemmas on the drivers\<close>

text \<open>The scan returns at most one match per character, plus one at the end.\<close>

lemma re_findall_length: "length (re_findall m prev s) \<le> Suc (length s)"
  by (induction m prev s rule: re_findall.induct)
     (auto split: option.split, meson Suc_le_mono diff_le_self order_trans)

text \<open>
  The scanning loop of \<open>re.findall\<close> terminates on every matcher, previous
  character and text: the call is in the domain of \<open>re_findall\<close>, since each
  iteration drops at least one character whether or not it matched, and the list it
  returns has at most one match per character plus one.
\<close>

theorem re_findall_terminates:
  "re_findall_dom (m, prev, s) \<and> length (re_findall m prev s) \<le> Suc (length s)"
proof -
  have "re_findall_dom (m, prev, s)"
  proof (induction s arbitrary: prev rule: length_induct)
    case (1 s)
    then show ?case by (cases s) (auto intro: re_findall.domintros)
  qed
  then show ?thesis using re_findall_length by blast
qed

text \<open>A match of \<open>w\<close> at the front: its group, then the scan of the rest.\<close>

lemma re_findall_step:
  assumes m: "m prev s = Some (v, n)" and s: "s = w @ r" and w: "length w = Suc n"
  shows "re_findall m prev s = v # re_findall m (Some (last w)) r"
proof -
  obtain c cs where cs: "s = c # cs"
    using s w by (cases w) auto
  then have cw: "c # cs = w @ r" using s by simp
  then have "length cs = n + length r" using w
    by (metis add_Suc diff_Suc_1 length_Cons length_append)
  then have n: "min n (length cs) = n" by simp
  have "(w @ r) ! n = last w" using w
    by (metis diff_Suc_1 last_conv_nth length_greater_0_conv lessI nth_append zero_less_Suc)
  then have last: "(c # cs) ! n = last w" using cw by simp
  have drop: "drop (Suc n) (c # cs) = r" using cw w by simp
  have "re_findall m prev (c # cs) =
      v # re_findall m (Some ((c # cs) ! min n (length cs))) (drop (Suc n) (c # cs))"
    using m cs by simp
  then show ?thesis using n last drop cs by simp
qed

text \<open>Every group findall returns is a match at some suffix of the string.\<close>

lemma re_findall_set:
  "v \<in> set (re_findall m prev s) \<Longrightarrow> \<exists>q t n. suffix t s \<and> m q t = Some (v, n)"
proof (induction m prev s rule: re_findall.induct)
  case (1 m prev)
  then obtain n where "m prev [] = Some (v, n)" by (auto split: option.splits dest: sym)
  then show ?case by blast
next
  case (2 m prev c cs)
  show ?case
  proof (cases "m prev (c # cs)")
    case None
    with "2.prems" have "v \<in> set (re_findall m (Some c) cs)" by simp
    with None "2.IH" obtain q t k where "suffix t cs" "m q t = Some (v, k)" by blast
    then show ?thesis by (meson suffix_ConsI)
  next
    case (Some a)
    obtain v' n where a: "a = (v', n)" by fastforce
    show ?thesis
    proof (cases "v = v'")
      case True
      with Some a show ?thesis by blast
    next
      case False
      with "2.prems" Some a have "v \<in> set (re_findall m (Some ((c # cs) ! min n (length cs))) (drop (Suc n) (c # cs)))"
        by simp
      with "2.IH" Some a obtain q t k where "suffix t (drop (Suc n) (c # cs))" "m q t = Some (v, k)"
        by blast
      then show ?thesis by (meson suffix_drop suffix_order.order_trans)
    qed
  qed
qed

lemma re_findall_Nil_iff_search:
  assumes "\<And>q t. m q t = None \<longleftrightarrow> m' q t = None"
  shows "re_findall m prev s = [] \<longleftrightarrow> re_search m' prev s = None"
proof (induction s arbitrary: prev)
  case Nil
  show ?case using assms[of prev "[]"] by (auto split: option.splits)
next
  case (Cons c cs)
  show ?case using assms[of prev "c # cs"] Cons.IH by (auto split: option.splits)
qed
text \<open>A search result is a match at some suffix of the string.\<close>

lemma re_search_suffix:
  "re_search m prev s = Some v \<Longrightarrow> \<exists>q t. suffix t s \<and> m q t = Some v"
proof (induction m prev s rule: re_search.induct)
  case (1 m prev)
  then show ?case by auto
next
  case (2 m prev c cs)
  then show ?case by (auto split: option.splits intro: suffix_ConsI)
qed


subsection \<open>Splitting and stripping\<close>

lemma py_in_single: "py_in [c] x \<longleftrightarrow> c \<in> set x"
  by (induction x) auto

lemma sublist_Cons_skip:
  assumes "c \<notin> set x" and "sublist (c # w) (x @ y)"
  shows "sublist (c # w) y"
proof -
  from assms(2) consider "sublist (c # w) x" | "sublist (c # w) y"
    | xs1 xs2 where "c # w = xs1 @ xs2" "suffix xs1 x" "prefix xs2 y"
    by (auto simp: sublist_append)
  then show ?thesis
  proof cases
    case 1
    then have "c \<in> set x" by (metis list.set_intros(1) set_mono_sublist subsetD)
    with assms(1) show ?thesis by simp
  next
    case 2
    then show ?thesis .
  next
    case 3
    show ?thesis
    proof (cases xs1)
      case Nil
      then show ?thesis using 3 by simp
    next
      case (Cons a as)
      then have "c \<in> set x" using 3 by (metis list.inject list.set_intros(1) append_Cons set_mono_suffix subsetD)
      with assms(1) show ?thesis by simp
    qed
  qed
qed

lemma py_split_ne: "py_split sep s \<noteq> []"
  by (induction sep s rule: py_split.induct) (auto split: list.split)

lemma py_join_Cons_Cons: "py_join sep ((c # w) # ws) = c # py_join sep (w # ws)"
  by (cases ws) auto

lemma py_join_Nil_Cons: "ws \<noteq> [] \<Longrightarrow> py_join sep ([] # ws) = sep @ py_join sep ws"
  by (cases ws) auto

lemma py_startswith_drop:
  "py_startswith s p \<Longrightarrow> p @ drop (length p) s = s"
  by (induction s p rule: py_startswith.induct) auto

text \<open>\<open>sep.join(s.split(sep))\<close> gives back \<open>s\<close>.\<close>

lemma py_join_split: "py_join sep (py_split sep s) = s"
proof (induction sep s rule: py_split.induct)
  case (2 sep c cs)
  show ?case
  proof (cases "sep \<noteq> [] \<and> py_startswith (c # cs) sep")
    case True
    then have "sep @ drop (length sep - 1) cs = c # cs"
      using py_startswith_drop[of "c # cs" sep] by (cases sep) auto
    then show ?thesis using True 2 py_split_ne by (simp add: py_join_Nil_Cons)
  next
    case False
    then show ?thesis
      using 2 py_split_ne[of sep cs] by (auto simp: neq_Nil_conv py_join_Cons_Cons split: list.split)
  qed
qed simp

lemma py_split_no_occ: "sep \<noteq> [] \<Longrightarrow> \<not> py_in sep s \<Longrightarrow> py_split sep s = [s]"
  by (induction sep s rule: py_split.induct) auto

lemma py_split_sep_prefix: "sep \<noteq> [] \<Longrightarrow> py_split sep (sep @ s) = [] # py_split sep s"
  by (cases sep) (auto simp: py_startswith_prefix)

lemma py_strip_spaces:
  assumes "list_all py_isspace ws1" "list_all py_isspace ws2"
  shows "py_strip (ws1 @ s @ ws2) = py_strip s"
proof (cases "list_all py_isspace s")
  case True
  then show ?thesis using assms by (simp add: py_strip_def dropWhile_append_all list_all_dropWhile_Nil)
next
  case False
  then have "dropWhile py_isspace (s @ ws2) = dropWhile py_isspace s @ ws2"
    by (induction s) auto
  then show ?thesis using assms
    by (simp add: py_strip_def dropWhile_append_all)
qed

lemma py_split_first:
  assumes "sep \<noteq> []" and "\<not> py_in sep (x @ butlast sep)"
  shows "py_split sep (x @ sep @ y) = x # py_split sep y"
  using assms
proof (induction x)
  case Nil
  then show ?case by (simp add: py_split_sep_prefix)
next
  case (Cons c cs)
  have no_here: "\<not> py_startswith (c # cs @ sep @ y) sep"
  proof
    assume "py_startswith (c # cs @ sep @ y) sep"
    then have "prefix sep (c # cs @ sep @ y)" by (simp add: py_startswith_prefix)
    moreover have "sep @ y = butlast sep @ last sep # y"
      using Cons.prems(1) by (metis append_butlast_last_id append.assoc append_Cons append_Nil)
    ultimately have "prefix sep ((c # cs @ butlast sep) @ [last sep] @ y)" by simp
    moreover have "length sep \<le> length (c # cs @ butlast sep)" using Cons.prems(1) by (cases sep) auto
    ultimately have "prefix sep (c # cs @ butlast sep)"
      by (metis prefix_length_prefix prefixI)
    then have "py_in sep (c # cs @ butlast sep)"
      by (metis py_in_sublist prefix_imp_sublist)
    with Cons.prems(2) show False by simp
  qed
  have "\<not> py_in sep (cs @ butlast sep)"
    using Cons.prems(2) by (auto simp: py_in_sublist sublist_Cons_right)
  then have "py_split sep (cs @ sep @ y) = cs # py_split sep y" using Cons.IH Cons.prems(1) by blast
  then show ?case using no_here by simp
qed

end
