(* ===== verification/Classifier.thy ===== *)
theory Classifier
  imports Python_Str
begin

text \<open>
  The law-type classifier of \<open>src/Chatbot/Other files/law_classifier.py\<close>:
  \<open>detect_law_type\<close> lower-cases the question and tests substring triggers in a fixed
  order; the first bucket whose trigger occurs wins, \<open>general_law\<close> otherwise. The
  returned strings are the constructors of \<open>law_type\<close>.
\<close>

datatype law_type =
    Posco | Sexual_harassment | Ipc | Crpc | Cpc | It_act | Constitution | Contract_act
  | General_law

text \<open>
  The contract of the spec: an ordered list of (triggers, label) pairs evaluated in
  sequence, the first pair with an occurring trigger giving the label.
\<close>

definition law_triggers :: "(ustr list \<times> law_type) list" where
  "law_triggers =
     [([ustr ''posco'', ustr ''child''], Posco),
      ([ustr ''sexual harassment'', ustr ''workplace''], Sexual_harassment),
      ([ustr ''ipc'', ustr ''offence'', ustr ''crime''], Ipc),
      ([ustr ''crpc'', ustr ''arrest'', ustr ''bail''], Crpc),
      ([ustr ''cpc'', ustr ''civil suit''], Cpc),
      ([ustr ''cyber'', ustr ''it act''], It_act),
      ([ustr ''constitution'', ustr ''article''], Constitution),
      ([ustr ''contract'', ustr ''agreement''], Contract_act)]"

fun first_trigger :: "ustr \<Rightarrow> (ustr list \<times> law_type) list \<Rightarrow> law_type" where
  "first_trigger q [] = General_law"
| "first_trigger q ((ws, t) # rest) =
     (if list_ex (\<lambda>w. py_in w q) ws then t else first_trigger q rest)"

text \<open>\<open>detect_law_type\<close>, the \<open>if\<close> chain of the source.\<close>

definition detect_law_type :: "ustr \<Rightarrow> law_type" where
  "detect_law_type question =
     (let q = py_lower question in
      if py_in (ustr ''posco'') q \<or> py_in (ustr ''child'') q then Posco
      else if py_in (ustr ''sexual harassment'') q \<or> py_in (ustr ''workplace'') q
        then Sexual_harassment
      else if py_in (ustr ''ipc'') q \<or> py_in (ustr ''offence'') q \<or> py_in (ustr ''crime'') q
        then Ipc
      else if py_in (ustr ''crpc'') q \<or> py_in (ustr ''arrest'') q \<or> py_in (ustr ''bail'') q
        then Crpc
      else if py_in (ustr ''cpc'') q \<or> py_in (ustr ''civil suit'') q then Cpc
      else if py_in (ustr ''cyber'') q \<or> py_in (ustr ''it act'') q then It_act
      else if py_in (ustr ''constitution'') q \<or> py_in (ustr ''article'') q then Constitution
      else if py_in (ustr ''contract'') q \<or> py_in (ustr ''agreement'') q then Contract_act
      else General_law)"


subsection \<open>Properties\<close>

lemma first_trigger_nth:
  assumes "i < length ts" and "list_ex (\<lambda>w. py_in w q) (fst (ts ! i))"
    and "\<forall>j<i. \<not> list_ex (\<lambda>w. py_in w q) (fst (ts ! j))"
  shows "first_trigger q ts = snd (ts ! i)"
  using assms
proof (induction q ts arbitrary: i rule: first_trigger.induct)
  case (1 q)
  then show ?case by simp
next
  case (2 q ws t rest)
  show ?case
  proof (cases i)
    case 0
    with "2.prems"(2) show ?thesis by simp
  next
    case (Suc k)
    with "2.prems"(3) have "\<not> list_ex (\<lambda>w. py_in w q) ws" by fastforce
    moreover have "first_trigger q rest = snd (rest ! k)"
      using "2.prems" Suc by (intro "2.IH") (auto simp: calculation)
    ultimately show ?thesis using Suc by simp
  qed
qed

lemma first_trigger_General_law:
  "list_all (\<lambda>(ws, t). t \<noteq> General_law) ts \<Longrightarrow>
   first_trigger q ts = General_law \<longleftrightarrow> \<not> list_ex (\<lambda>(ws, t). list_ex (\<lambda>w. py_in w q) ws) ts"
  by (induction q ts rule: first_trigger.induct) auto

lemma detect_law_type_eq_first_trigger:
  "detect_law_type q = first_trigger (py_lower q) law_triggers"
  by (simp add: detect_law_type_def law_triggers_def Let_def del: ustr_Cons)

text \<open>
  The \<open>if\<close> chain of \<open>detect_law_type\<close> is the ordered trigger table of the
  spec evaluated on the lower-cased question.
\<close>

theorem detect_law_type_table:
  "detect_law_type q = first_trigger (py_lower q) law_triggers"
  by (rule detect_law_type_eq_first_trigger)

text \<open>
  First match wins: when the first bucket of the table with an occurring trigger
  is the \<open>i\<close>-th, the classifier returns that bucket, whatever later triggers occur.
\<close>

theorem detect_law_type_first_match:
  assumes "i < length law_triggers"
    and "list_ex (\<lambda>w. py_in w (py_lower q)) (fst (law_triggers ! i))"
    and "\<forall>j<i. \<not> list_ex (\<lambda>w. py_in w (py_lower q)) (fst (law_triggers ! j))"
  shows "detect_law_type q = snd (law_triggers ! i)"
  using first_trigger_nth[OF assms] by (simp add: detect_law_type_eq_first_trigger)

theorem detect_law_type_first_match_witness:
  "detect_law_type (ustr ''Is breach of contract an IPC offence?'') = Ipc"
proof -
  have "detect_law_type (ustr ''Is breach of contract an IPC offence?'') = snd (law_triggers ! 2)"
    by (rule detect_law_type_first_match)
       (auto simp: law_triggers_def py_lower_cp_def is_ascii_upper_def less_Suc_eq numeral_2_eq_2)
  then show ?thesis by (simp add: law_triggers_def)
qed

text \<open>
  The classifier returns \<open>general_law\<close> exactly when no trigger of any bucket
  occurs in the lower-cased question.
\<close>

theorem detect_law_type_general:
  "detect_law_type q = General_law \<longleftrightarrow>
     \<not> list_ex (\<lambda>(ws, t). list_ex (\<lambda>w. py_in w (py_lower q)) ws) law_triggers"
  by (simp add: detect_law_type_eq_first_trigger first_trigger_General_law law_triggers_def del: ustr_Cons)

text \<open>
  The three classifications the spec lists: an IPC question, a bail question under
  the CrPC, and a contract question.
\<close>

theorem detect_law_type_examples:
  "detect_law_type (ustr ''Tell me about IPC 302'') = Ipc \<and>
   detect_law_type (ustr ''I want to file for bail under CrPC'') = Crpc \<and>
   detect_law_type (ustr ''what is a valid contract'') = Contract_act"
  by (simp add: detect_law_type_def py_lower_cp_def is_ascii_upper_def)

end
