(* ===== verification/Language.thy ===== *)
theory Language
  imports Python_Str
begin

text \<open>
  The language detector of \<open>src/Chatbot/Other files/language_utils.py\<close>.
  \<open>detect_language\<close> lower-cases the text, then tests eleven code-point ranges in
  order (first match wins, \<open>native_script\<close>); failing those it splits the text into
  the matches of \<open>\b\w+\b\<close>, counts the words of the three Romanized keyword lists,
  takes the first list with the largest count as Python's \<open>max\<close> does, and
  returns it when the count exceeds one, \<open>"en"\<close> otherwise.
\<close>

datatype lang_tag =
    Lang_hi | Lang_ta | Lang_te | Lang_kn | Lang_ml | Lang_bn | Lang_pa | Lang_mr | Lang_gu
  | Lang_or | Lang_as | Hinglish | Tanglish | TeluguRoman | Lang_en

text \<open>The string each tag stands for in the source.\<close>

fun lang_code :: "lang_tag \<Rightarrow> ustr" where
  "lang_code Lang_hi = ustr ''hi''"
| "lang_code Lang_ta = ustr ''ta''"
| "lang_code Lang_te = ustr ''te''"
| "lang_code Lang_kn = ustr ''kn''"
| "lang_code Lang_ml = ustr ''ml''"
| "lang_code Lang_bn = ustr ''bn''"
| "lang_code Lang_pa = ustr ''pa''"
| "lang_code Lang_mr = ustr ''mr''"
| "lang_code Lang_gu = ustr ''gu''"
| "lang_code Lang_or = ustr ''or''"
| "lang_code Lang_as = ustr ''as''"
| "lang_code Hinglish = ustr ''Hinglish''"
| "lang_code Tanglish = ustr ''Tanglish''"
| "lang_code TeluguRoman = ustr ''TeluguRoman''"
| "lang_code Lang_en = ustr ''en''"

definition HINGLISH_WORDS :: "ustr list" where
  "HINGLISH_WORDS = map ustr [''kya'', ''hai'', ''tum'', ''main'', ''mera'', ''nahi'', ''kaise'',
     ''kahan'', ''kyun'', ''ho'', ''raha'', ''gaya'']"

definition TANGLISH_WORDS :: "ustr list" where
  "TANGLISH_WORDS = map ustr [''enna'', ''irukku'', ''vaanga'', ''sollu'', ''poi'', ''adi'',
     ''vandhu'', ''kanna'', ''thaan'', ''pudi'']"

definition TELUGU_ROMAN_WORDS :: "ustr list" where
  "TELUGU_ROMAN_WORDS = map ustr [''emi'', ''cheppu'', ''vachindi'', ''chusara'', ''nenu'',
     ''meeru'', ''ledu'']"

text \<open>\<open>re.search(r'[\uLO-\uHI]', text)\<close>.\<close>

definition has_cp_in :: "cp \<Rightarrow> cp \<Rightarrow> ustr \<Rightarrow> bool" where
  "has_cp_in lo hi s = list_ex (\<lambda>c. lo \<le> c \<and> c \<le> hi) s"

text \<open>The native-script checks, in the order of the source.\<close>

definition native_script :: "ustr \<Rightarrow> lang_tag option" where
  "native_script text =
     (if has_cp_in 0x900 0x97F text then Some Lang_hi
      else if has_cp_in 0xB80 0xBFF text then Some Lang_ta
      else if has_cp_in 0xC00 0xC7F text then Some Lang_te
      else if has_cp_in 0xC80 0xCFF text then Some Lang_kn
      else if has_cp_in 0xD00 0xD7F text then Some Lang_ml
      else if has_cp_in 0x980 0x9FF text then Some Lang_bn
      else if has_cp_in 0xA00 0xA7F text then Some Lang_pa
      else if has_cp_in 0x900 0x97F text then Some Lang_mr
      else if has_cp_in 0xA80 0xAFF text then Some Lang_gu
      else if has_cp_in 0xB00 0xB7F text then Some Lang_or
      else if has_cp_in 0x980 0x98F text then Some Lang_as
      else None)"

text \<open>
  The matcher of \<open>\b\w+\b\<close>: a boundary, the longest run of word characters, and a
  boundary after it (a shorter run would end between two word characters, where
  \<open>\b\<close> fails, so backtracking finds nothing else).
\<close>

definition word_match :: "cp option \<Rightarrow> ustr \<Rightarrow> (ustr \<times> nat) option" where
  "word_match prev s =
     (let w = takeWhile py_isword s; rest = dropWhile py_isword s in
      if re_boundary prev s \<and> w \<noteq> [] \<and> re_boundary (Some (last w)) rest
      then Some (w, length w - 1) else None)"

definition re_words :: "ustr \<Rightarrow> ustr list" where
  "re_words text = re_findall word_match None text"

definition count_in :: "ustr list \<Rightarrow> ustr list \<Rightarrow> nat" where
  "count_in words vocab = length (filter (\<lambda>w. w \<in> set vocab) words)"

text \<open>\<open>max(counts, key=counts.get)\<close>: the first key of largest value.\<close>

fun py_max_key :: "'k \<times> nat \<Rightarrow> ('k \<times> nat) list \<Rightarrow> 'k \<times> nat" where
  "py_max_key best [] = best"
| "py_max_key best (x # xs) = py_max_key (if snd best < snd x then x else best) xs"

definition romanized_counts :: "ustr \<Rightarrow> (lang_tag \<times> nat) list" where
  "romanized_counts text =
     (let words = re_words text in
      [(Hinglish, count_in words HINGLISH_WORDS),
       (Tanglish, count_in words TANGLISH_WORDS),
       (TeluguRoman, count_in words TELUGU_ROMAN_WORDS)])"

definition detect_language :: "ustr \<Rightarrow> lang_tag" where
  "detect_language text0 =
     (let text = py_lower text0 in
      case native_script text of
        Some l \<Rightarrow> l
      | None \<Rightarrow>
          (let counts = romanized_counts text;
               (max_lang, c) = py_max_key (hd counts) (tl counts)
           in if c > 1 then max_lang else Lang_en))"

subsection \<open>Properties\<close>

lemma has_cp_in_as_bn: "has_cp_in 0x980 0x98F s \<Longrightarrow> has_cp_in 0x980 0x9FF s"
  by (auto simp: has_cp_in_def list_ex_iff)

lemma native_script_not_mr_as:
  "native_script s \<noteq> Some Lang_mr \<and> native_script s \<noteq> Some Lang_as"
  using has_cp_in_as_bn[of s] by (auto simp: native_script_def)

lemma py_max_key_in: "py_max_key b xs \<in> insert b (set xs)"
  by (induction b xs rule: py_max_key.induct) auto

lemma py_lower_cp_high:
  "0x900 \<le> lo \<Longrightarrow> hi < 0x2000 \<Longrightarrow>
   list_ex (\<lambda>x. lo \<le> x \<and> x \<le> hi) (py_lower_cp c) \<longleftrightarrow> lo \<le> c \<and> c \<le> hi"
  by (auto simp: py_lower_cp_def is_ascii_upper_def)

lemma has_cp_in_py_lower:
  "0x900 \<le> lo \<Longrightarrow> hi < 0x2000 \<Longrightarrow> has_cp_in lo hi (py_lower s) \<longleftrightarrow> has_cp_in lo hi s"
  by (induction s) (simp_all add: has_cp_in_def py_lower_cp_high)

text \<open>Lower-casing never adds or removes a code point of the Indic script blocks.\<close>

lemma native_script_py_lower: "native_script (py_lower s) = native_script s"
  by (simp add: native_script_def has_cp_in_py_lower)

lemmas language_eval [guardian_simps] =
  detect_language_def native_script_def has_cp_in_def py_lower_cp_def romanized_counts_def
  re_words_def word_match_def re_boundary_def char_class_defs count_in_def HINGLISH_WORDS_def
  TANGLISH_WORDS_def TELUGU_ROMAN_WORDS_def

text \<open>
  Any text containing a Devanagari code point (U+0900 to U+097F) is reported as
  Hindi, \<open>"hi"\<close>, whatever else it contains; Marathi text is therefore reported as
  Hindi too.
\<close>

theorem detect_language_devanagari:
  "has_cp_in 0x900 0x97F s \<Longrightarrow> detect_language s = Lang_hi"
proof -
  assume "has_cp_in 0x900 0x97F s"
  then have "native_script s = Some Lang_hi" by (simp add: native_script_def)
  then show ?thesis by (simp add: detect_language_def native_script_py_lower)
qed

theorem detect_language_devanagari_witness:
  "has_cp_in 0x900 0x97F ([0x915, 0x94D, 0x92F, 0x93E] @ ustr '' IPC 302?'') \<and>
   detect_language ([0x915, 0x94D, 0x92F, 0x93E] @ ustr '' IPC 302?'') = Lang_hi"
proof -
  have h: "has_cp_in 0x900 0x97F ([0x915, 0x94D, 0x92F, 0x93E] @ ustr '' IPC 302?'')"
    by (simp add: has_cp_in_def)
  show ?thesis using h detect_language_devanagari[OF h] by simp
qed

text \<open>
  C34. The Marathi (\<open>"mr"\<close>) and Assamese (\<open>"as"\<close>) branches are dead: the Marathi
  range is the Devanagari range tested first, and the Assamese range lies inside the
  Bengali range tested earlier, so neither tag is ever returned.
\<close>

theorem detect_language_never_mr_as:
  "detect_language s \<noteq> Lang_mr \<and> detect_language s \<noteq> Lang_as"
proof -
  have k: "fst (py_max_key (hd (romanized_counts t)) (tl (romanized_counts t)))
             \<in> {Hinglish, Tanglish, TeluguRoman}" for t
    using py_max_key_in[of "hd (romanized_counts t)" "tl (romanized_counts t)"]
    by (auto simp: romanized_counts_def Let_def)
  show ?thesis
    using native_script_not_mr_as[of "py_lower s"] k[of "py_lower s"]
    by (auto simp: detect_language_def Let_def split: option.splits prod.splits)
qed

text \<open>
  Text with no Indic-script code point, at least two Hinglish keyword tokens, and no
  more Tanglish or Telugu-Romanized tokens than Hinglish ones is reported as
  \<open>"Hinglish"\<close> (ties go to the first list, as Python's \<open>max\<close> keeps the first
  maximum).
\<close>

theorem detect_language_hinglish:
  assumes "native_script s = None"
    and "2 \<le> count_in (re_words (py_lower s)) HINGLISH_WORDS"
    and "count_in (re_words (py_lower s)) TANGLISH_WORDS
           \<le> count_in (re_words (py_lower s)) HINGLISH_WORDS"
    and "count_in (re_words (py_lower s)) TELUGU_ROMAN_WORDS
           \<le> count_in (re_words (py_lower s)) HINGLISH_WORDS"
  shows "detect_language s = Hinglish"
  using assms by (simp add: detect_language_def native_script_py_lower romanized_counts_def Let_def)

theorem detect_language_hinglish_witness:
  "detect_language (ustr ''Kya hai, bhai? Enna irukku?'') = Hinglish"
  by (rule detect_language_hinglish) (simp_all add: language_eval)

end
