(* ===== verification/Extractor.thy ===== *)
theory Extractor
  imports Python_Str
begin

text \<open>
  The statute-reference extractors. \<open>extract_ipc_sections\<close> is the helper of
  \<open>src/Chatbot/Other files/llm.py\<close> used by the router;
  \<open>mentions_section_number\<close> is the regular expression of the router's case-study
  safety filter in the same file; \<open>extract_ipc_section\<close> is the single-result
  variant of \<open>src/Chatbot/Other files/section_extractor.py\<close>. Each regular
  expression is a matcher for the drivers of \<open>Python_Str\<close>; where a pattern could
  backtrack, the comment says why the greedy reading is the only match.
\<close>

subsection \<open>\<open>extract_ipc_sections\<close>\<close>

text \<open>
  After the keyword: \<open>\s*(\d+[A-Za-z]*)\<close> under \<open>re.IGNORECASE\<close>. White space,
  digits and letters are disjoint classes and \<open>[A-Za-z]*\<close> cannot fail, so the
  greedy runs are the match. The result is the group and one less than the length
  of the match.
\<close>

definition ref_tail :: "ustr \<Rightarrow> ustr \<Rightarrow> (ustr \<times> nat) option" where
  "ref_tail kw s =
     (case re_ci_lit kw s of
        None \<Rightarrow> None
      | Some r1 \<Rightarrow>
          (let r2 = dropWhile py_isspace r1;
               ds = takeWhile py_isdigit r2; r3 = dropWhile py_isdigit r2;
               ls = takeWhile re_ci_alpha r3; rest = dropWhile re_ci_alpha r3
           in if ds = [] then None else Some (ds @ ls, length s - length rest - 1)))"

text \<open>\<open>\b(?:section|ipc)\s*(\d+[A-Za-z]*)\<close>: the alternatives in order.\<close>

definition ipc_ref_match :: "cp option \<Rightarrow> ustr \<Rightarrow> (ustr \<times> nat) option" where
  "ipc_ref_match prev s =
     (if re_boundary prev s
      then (case ref_tail (ustr ''section'') s of
              Some r \<Rightarrow> Some r
            | None \<Rightarrow> ref_tail (ustr ''ipc'') s)
      else None)"

definition extract_ipc_sections :: "ustr \<Rightarrow> ustr list" where
  "extract_ipc_sections question = re_findall ipc_ref_match None question"

subsection \<open>The safety filter's pattern\<close>

text \<open>\<open>re.search(r'\b(section|ipc)\s*\d+', output, re.IGNORECASE)\<close>.\<close>

definition digits_tail :: "ustr \<Rightarrow> ustr \<Rightarrow> ustr option" where
  "digits_tail kw s =
     (case re_ci_lit kw s of
        None \<Rightarrow> None
      | Some r1 \<Rightarrow>
          (let ds = takeWhile py_isdigit (dropWhile py_isspace r1)
           in if ds = [] then None else Some ds))"

definition section_number_match :: "cp option \<Rightarrow> ustr \<Rightarrow> ustr option" where
  "section_number_match prev s =
     (if re_boundary prev s
      then (case digits_tail (ustr ''section'') s of
              Some d \<Rightarrow> Some d
            | None \<Rightarrow> digits_tail (ustr ''ipc'') s)
      else None)"

definition mentions_section_number :: "ustr \<Rightarrow> bool" where
  "mentions_section_number output = (re_search section_number_match None output \<noteq> None)"

subsection \<open>\<open>extract_ipc_section\<close>\<close>

text \<open>
  Pattern 1, \<open>\b(section|ipc)\s*(\w+)\<close> on the lower-cased query (no
  \<open>re.IGNORECASE\<close>); group 2. White space and word characters are disjoint, so the
  greedy runs are the match.
\<close>

definition word_tail :: "ustr \<Rightarrow> ustr \<Rightarrow> ustr option" where
  "word_tail kw s =
     (case re_lit kw s of
        None \<Rightarrow> None
      | Some r1 \<Rightarrow>
          (let w = takeWhile py_isword (dropWhile py_isspace r1)
           in if w = [] then None else Some w))"

definition keyword_word_match :: "cp option \<Rightarrow> ustr \<Rightarrow> ustr option" where
  "keyword_word_match prev s =
     (if re_boundary prev s
      then (case word_tail (ustr ''section'') s of
              Some w \<Rightarrow> Some w
            | None \<Rightarrow> word_tail (ustr ''ipc'') s)
      else None)"

text \<open>Pattern 2, \<open>re.fullmatch(r'\d+[a-zA-Z]*', query)\<close>.\<close>

definition is_bare_section :: "ustr \<Rightarrow> bool" where
  "is_bare_section q \<longleftrightarrow>
     takeWhile py_isdigit q \<noteq> [] \<and> list_all is_ascii_alpha (dropWhile py_isdigit q)"

text \<open>
  Pattern 3, \<open>\b(\d+[a-zA-Z]*)\b\<close>. Giving back a letter or a digit would put the
  closing \<open>\b\<close> between two word characters, so the match exists exactly when the
  greedy run is followed by a boundary.
\<close>

definition number_token_match :: "cp option \<Rightarrow> ustr \<Rightarrow> ustr option" where
  "number_token_match prev s =
     (let ds = takeWhile py_isdigit s; r = dropWhile py_isdigit s;
          ls = takeWhile is_ascii_alpha r; rest = dropWhile is_ascii_alpha r
      in if re_boundary prev s \<and> ds \<noteq> [] \<and> re_boundary (Some (last (ds @ ls))) rest
         then Some (ds @ ls) else None)"

definition extract_ipc_section :: "ustr \<Rightarrow> ustr option" where
  "extract_ipc_section query0 =
     (let query = py_strip (py_lower query0) in
      case re_search keyword_word_match None query of
        Some w \<Rightarrow> Some w
      | None \<Rightarrow>
          if is_bare_section query then Some query
          else (case re_search number_token_match None query of
                  Some g \<Rightarrow>
                    if py_in (ustr ''tell'') query \<or> py_in (ustr ''about'') query \<or>
                       py_in (ustr ''punishment'') query
                    then Some g else None
                | None \<Rightarrow> None))"

subsection \<open>Section identifiers\<close>

text \<open>The shape of what the router's extractor returns: digits, then letters.\<close>

definition section_id_ok :: "ustr \<Rightarrow> bool" where
  "section_id_ok sec \<longleftrightarrow>
     takeWhile py_isdigit sec \<noteq> [] \<and> list_all re_ci_alpha (dropWhile py_isdigit sec)"

subsection \<open>Properties\<close>

lemma ref_tail_None_iff: "ref_tail kw s = None \<longleftrightarrow> digits_tail kw s = None"
  by (simp add: ref_tail_def digits_tail_def Let_def split: option.splits)

lemma ipc_ref_match_None_iff: "ipc_ref_match q t = None \<longleftrightarrow> section_number_match q t = None"
  using ref_tail_None_iff[of "ustr ''section''" t] ref_tail_None_iff[of "ustr ''ipc''" t]
  by (auto simp: ipc_ref_match_def section_number_match_def split: option.splits)

text \<open>
  C5. The safety filter's pattern \<open>\b(section|ipc)\s*\d+\<close> fires on a text exactly when the
  router's extractor finds at least one section reference in it.
\<close>

theorem mentions_iff_extract:
  "mentions_section_number s \<longleftrightarrow> extract_ipc_sections s \<noteq> []"
  using re_findall_Nil_iff_search[of ipc_ref_match section_number_match, OF ipc_ref_match_None_iff]
  by (simp add: mentions_section_number_def extract_ipc_sections_def)

lemma section_id_ok_append:
  assumes "ds \<noteq> []" "list_all py_isdigit ds" "list_all re_ci_alpha ls"
  shows "section_id_ok (ds @ ls)"
proof -
  have "takeWhile py_isdigit ls = []" "dropWhile py_isdigit ls = ls"
    using assms(3) re_ci_alpha_not_digit by (cases ls; simp)+
  then show ?thesis using assms by (simp add: section_id_ok_def takeWhile_append_all dropWhile_append_all)
qed

lemma ref_tail_Some:
  assumes "ref_tail kw t = Some (v, n)"
  shows "section_id_ok v \<and> sublist v t"
proof -
  obtain r1 where r1: "re_ci_lit kw t = Some r1" using assms by (auto simp: ref_tail_def split: option.splits)
  have suf: "suffix r1 t" using r1
    by (induction kw t rule: re_ci_lit.induct) (auto split: if_splits intro: suffix_ConsI)
  define r2 where "r2 = dropWhile py_isspace r1"
  define ds where "ds = takeWhile py_isdigit r2"
  define r3 where "r3 = dropWhile py_isdigit r2"
  define ls where "ls = takeWhile re_ci_alpha r3"
  have v: "v = ds @ ls" and ne: "ds \<noteq> []" using assms r1
    by (auto simp: ref_tail_def Let_def r2_def ds_def r3_def ls_def split: if_splits)
  have "section_id_ok v" unfolding v
    by (rule section_id_ok_append[OF ne]) (simp_all add: ds_def ls_def list_all_takeWhile)
  moreover have "prefix (ds @ ls) r2"
  proof -
    have "prefix ls r3" by (metis ls_def prefixI takeWhile_dropWhile_id)
    then have "prefix (ds @ ls) (ds @ r3)" by simp
    then show ?thesis by (simp add: ds_def r3_def)
  qed
  then have "sublist v r2" using v by (simp add: prefix_imp_sublist)
  moreover have "suffix r2 r1" by (simp add: r2_def suffix_dropWhile)
  ultimately show ?thesis using suf
    by (meson sublist_order.dual_order.trans suffix_imp_sublist)
qed

lemma extract_ipc_sections_member:
  "v \<in> set (extract_ipc_sections s) \<Longrightarrow> section_id_ok v \<and> sublist v s"
proof -
  assume "v \<in> set (extract_ipc_sections s)"
  then obtain q t n where t: "suffix t s" and m: "ipc_ref_match q t = Some (v, n)"
    unfolding extract_ipc_sections_def by (blast dest: re_findall_set)
  then have "ref_tail (ustr ''section'') t = Some (v, n) \<or> ref_tail (ustr ''ipc'') t = Some (v, n)"
    by (auto simp: ipc_ref_match_def split: if_splits option.splits)
  then have "section_id_ok v \<and> sublist v t" using ref_tail_Some by blast
  with t show ?thesis by (meson sublist_order.dual_order.trans suffix_imp_sublist)
qed

text \<open>
  C4. The extractor never fabricates an identifier: every section id it returns is a
  run of digits followed by letters and occurs verbatim in the question.
\<close>

theorem extract_ipc_sections_sound:
  "v \<in> set (extract_ipc_sections s) \<Longrightarrow> section_id_ok v \<and> sublist v s"
  by (rule extract_ipc_sections_member)


theorem extract_ipc_sections_sound_witness:
  "ustr ''124A'' \<in> set (extract_ipc_sections (ustr ''Is IPC 124A still law?'')) \<and>
   section_id_ok (ustr ''124A'') \<and> sublist (ustr ''124A'') (ustr ''Is IPC 124A still law?'')"
proof -
  have h: "ustr ''124A'' \<in> set (extract_ipc_sections (ustr ''Is IPC 124A still law?''))"
    by (simp add: extract_ipc_sections_def ipc_ref_match_def ref_tail_def re_boundary_def char_class_defs)
  show ?thesis using h extract_ipc_sections_sound[OF h] by blast
qed

text \<open>A text the filter fires on contains a digit.\<close>

lemma digits_tail_Some: "digits_tail kw t = Some ds \<Longrightarrow> \<exists>c\<in>set t. py_isdigit c"
proof -
  assume a: "digits_tail kw t = Some ds"
  then obtain r1 where r1: "re_ci_lit kw t = Some r1" by (auto simp: digits_tail_def split: option.splits)
  have suf: "suffix r1 t" using r1
    by (induction kw t rule: re_ci_lit.induct) (auto split: if_splits intro: suffix_ConsI)
  have "takeWhile py_isdigit (dropWhile py_isspace r1) \<noteq> []" using a r1 by (auto simp: digits_tail_def Let_def)
  then obtain c where "c \<in> set (dropWhile py_isspace r1)" "py_isdigit c"
    by (metis hd_in_set takeWhile_eq_Nil_iff)
  then show ?thesis using suf set_dropWhileD by (metis set_mono_suffix subsetD)
qed

lemma mentions_section_number_digit:
  "mentions_section_number s \<Longrightarrow> \<exists>c\<in>set s. py_isdigit c"
proof -
  assume "mentions_section_number s"
  then obtain v where "re_search section_number_match None s = Some v"
    by (auto simp: mentions_section_number_def)
  then obtain q t where t: "suffix t s" "section_number_match q t = Some v"
    by (blast dest: re_search_suffix)
  then have "digits_tail (ustr ''section'') t = Some v \<or> digits_tail (ustr ''ipc'') t = Some v"
    by (auto simp: section_number_match_def split: if_splits option.splits)
  then have "\<exists>c\<in>set t. py_isdigit c" by (blast dest: digits_tail_Some)
  with t(1) show ?thesis by (meson set_mono_suffix subsetD)
qed

text \<open>A well-formed identifier after \<open>Section \<close> is matched whole.\<close>

lemma section_id_ok_split:
  assumes "section_id_ok sec"
  obtains x xs where "sec = x # xs" "py_isdigit x"
  using assms by (cases sec) (auto simp: section_id_ok_def split: if_splits)

lemma ref_tail_section_id:
  assumes ok: "section_id_ok sec" and c: "\<not> py_isdigit c" "\<not> re_ci_alpha c"
    and r1: "re_ci_lit kw s = Some (sp @ sec @ c # t)" and sp: "list_all py_isspace sp"
  shows "ref_tail kw s = Some (sec, length s - length t - 2)"
proof -
  obtain x xs where x: "sec = x # xs" "py_isdigit x" using ok by (rule section_id_ok_split)
  then have nsp: "\<not> py_isspace x" using py_isspace_not_digit by blast
  have d1: "dropWhile py_isspace (sp @ sec @ c # t) = sec @ c # t"
    using sp x nsp by (simp add: dropWhile_append_all)
  have d2: "takeWhile py_isdigit (sec @ c # t) = takeWhile py_isdigit sec"
    "dropWhile py_isdigit (sec @ c # t) = dropWhile py_isdigit sec @ c # t"
    using c by (simp_all add: takeWhile_append_stop dropWhile_append_stop)
  have la: "list_all re_ci_alpha (dropWhile py_isdigit sec)" using ok by (simp add: section_id_ok_def)
  have d3: "takeWhile re_ci_alpha (dropWhile py_isdigit sec @ c # t) = dropWhile py_isdigit sec"
    "dropWhile re_ci_alpha (dropWhile py_isdigit sec @ c # t) = c # t"
    using c la by (simp_all add: takeWhile_append_stop dropWhile_append_stop list_all_takeWhile_id
        list_all_dropWhile_Nil)
  have ne: "takeWhile py_isdigit sec \<noteq> []" using ok by (simp add: section_id_ok_def)
  have "length s - length (c # t) - 1 = length s - length t - 2" by simp
  then show ?thesis using r1 d1 d2 d3 ne by (simp add: ref_tail_def Let_def)
qed

lemma ipc_ref_match_Section:
  assumes ok: "section_id_ok sec" and c: "\<not> py_isdigit c" "\<not> re_ci_alpha c"
    and prev: "\<not> (case prev of None \<Rightarrow> False | Some p \<Rightarrow> py_isword p)"
  shows "ipc_ref_match prev (ustr ''Section '' @ sec @ c # t) = Some (sec, 7 + length sec)"
proof -
  have r1: "re_ci_lit (ustr ''section'') (ustr ''Section '' @ sec @ c # t) = Some ([32] @ sec @ c # t)"
    by (simp add: re_ci_char_def)
  have sp: "list_all py_isspace [32]" by (simp add: py_isspace_def)
  have "ref_tail (ustr ''section'') (ustr ''Section '' @ sec @ c # t)
      = Some (sec, length (ustr ''Section '' @ sec @ c # t) - length t - 2)"
    by (rule ref_tail_section_id[OF ok c r1 sp])
  moreover have "re_boundary prev (ustr ''Section '' @ sec @ c # t)"
    using prev by (simp add: re_boundary_def char_class_defs)
  ultimately show ?thesis by (simp add: ipc_ref_match_def)
qed

text \<open>
  The spec's example: \<open>extract_sections("Section 302 and IPC 124A apply")\<close> is
  \<open>["302", "124A"]\<close>, in that order; a keyword glued to the number and a
  lower-case suffix are accepted as well.
\<close>

theorem extract_ipc_sections_examples:
  "extract_ipc_sections (ustr ''Section 302 and IPC 124A apply'') = [ustr ''302'', ustr ''124A''] \<and>
   extract_ipc_sections (ustr ''ipc302, sectionc 5, section 304b'') = [ustr ''302'', ustr ''304b'']"
  by (simp add: extract_ipc_sections_def ipc_ref_match_def ref_tail_def re_boundary_def char_class_defs)

text \<open>
  The single-result extractor of \<open>section_extractor.py\<close>: \<open>"IPC Section 302"\<close>
  gives \<open>"section"\<close> and \<open>"Sections 302 and 304"\<close> gives \<open>"s"\<close>, because
  its first pattern takes any word after the keyword; a bare number and a number
  after \<open>"tell me about"\<close> give the number, and a number with none of the
  keywords gives nothing.
\<close>

theorem extract_ipc_section_examples:
  "extract_ipc_section (ustr ''IPC Section 302'') = Some (ustr ''section'') \<and>
   extract_ipc_section (ustr ''Sections 302 and 304'') = Some (ustr ''s'') \<and>
   extract_ipc_section (ustr '' 124A '') = Some (ustr ''124a'') \<and>
   extract_ipc_section (ustr ''Tell me about 302'') = Some (ustr ''302'') \<and>
   extract_ipc_section (ustr ''what is 302?'') = None"
  by (simp add: extract_ipc_section_def keyword_word_match_def word_tail_def re_boundary_def py_strip_def
      py_lower_cp_def char_class_defs is_bare_section_def number_token_match_def)

end
