(* ===== verification/Statute.thy ===== *)
theory Statute
  imports Python_Str
begin

text \<open>
  The statute store. A section entry of an act's JSON file is the record
  \<open>statute\<close>: each key the renderer reads is a field, \<open>None\<close> when the key is
  absent, and \<open>other_keys\<close> lists the keys it does not read (they matter only for
  the truthiness of the dictionary). The files under \<open>acts/\<close> are a map from path to
  content, a content being a parsed act or a file \<open>json.load\<close> rejects.
  \<open>load_section\<close> is \<open>src/Chatbot/Other files/law_retriever.py\<close>;
  \<open>format_ipc_context\<close> renders an entry as \<open>src/Chatbot/Other files/llm.py\<close>
  does.
\<close>

record overlap =
  ov_section :: "ustr option"
  ov_description :: "ustr option"

record statute =
  title :: "ustr option"
  legal_text :: "ustr option"
  punishment :: "ustr option"
  nature :: "ustr option"
  practical_explanation :: "ustr option"
  example :: "ustr option"
  overlaps :: "overlap list option"
  legal_risk_level :: "ustr option"
  next_steps :: "ustr list option"
  conclusion :: "ustr option"
  disclaimer :: "ustr option"
  other_keys :: "ustr list"

text \<open>\<open>bool(section_data)\<close>: a dictionary is true when it has a key.\<close>

definition statute_truthy :: "statute \<Rightarrow> bool" where
  "statute_truthy d \<longleftrightarrow>
     title d \<noteq> None \<or> legal_text d \<noteq> None \<or> punishment d \<noteq> None \<or> nature d \<noteq> None \<or>
     practical_explanation d \<noteq> None \<or> example d \<noteq> None \<or> overlaps d \<noteq> None \<or>
     legal_risk_level d \<noteq> None \<or> next_steps d \<noteq> None \<or> conclusion d \<noteq> None \<or>
     disclaimer d \<noteq> None \<or> other_keys d \<noteq> []"

datatype act_file = Act_json "ustr \<rightharpoonup> statute" | Malformed_json

type_synonym act_files = "ustr \<rightharpoonup> act_file"

text \<open>\<open>load_section(act_name, section_number)\<close>.\<close>

definition act_path :: "ustr \<Rightarrow> ustr" where
  "act_path act_name = ustr ''acts/'' @ act_name @ ustr ''.json''"

definition load_section :: "act_files \<Rightarrow> ustr \<Rightarrow> ustr \<Rightarrow> py_error + statute option" where
  "load_section fs act_name section_number =
     (case fs (act_path act_name) of
        None \<Rightarrow> Inr None
      | Some Malformed_json \<Rightarrow> Inl JSONDecodeError
      | Some (Act_json act_data) \<Rightarrow> Inr (act_data section_number))"

text \<open>\<open>f"{x}"\<close> of a value read with \<open>.get\<close>: a missing key prints as \<open>None\<close>.\<close>

definition py_str_opt :: "ustr option \<Rightarrow> ustr" where
  "py_str_opt v = (case v of None \<Rightarrow> ustr ''None'' | Some s \<Rightarrow> s)"

text \<open>\<open>f"{o['section']} ({o['description']})"\<close>; a missing key raises.\<close>

definition render_overlap :: "overlap \<Rightarrow> py_error + ustr" where
  "render_overlap ov =
     (case ov_section ov of
        None \<Rightarrow> Inl (KeyError (ustr ''section''))
      | Some s \<Rightarrow>
          (case ov_description ov of
             None \<Rightarrow> Inl (KeyError (ustr ''description''))
           | Some d \<Rightarrow> Inr (s @ ustr '' ('' @ d @ ustr '')'')))"

definition linked_sections_text :: "statute \<Rightarrow> py_error + ustr" where
  "linked_sections_text d =
     (let ovs = (case overlaps d of None \<Rightarrow> [] | Some xs \<Rightarrow> xs) in
      if ovs = [] then Inr (ustr ''None'')
      else (case sum_map render_overlap ovs of
              Inl e \<Rightarrow> Inl e
            | Inr linked_details \<Rightarrow> Inr (py_join (ustr '', '') linked_details)))"

definition format_ipc_context :: "ustr \<Rightarrow> statute \<Rightarrow> py_error + ustr" where
  "format_ipc_context section_number d =
     (case linked_sections_text d of
        Inl e \<Rightarrow> Inl e
      | Inr linked \<Rightarrow> Inr (
          ustr ''\<newline>VERIFIED IPC DATA (DO NOT ALTER):\<newline>\<newline>IPC Section: '' @ section_number @
          ustr ''\<newline>Title: '' @ py_str_opt (title d) @
          ustr ''\<newline>Legal Text: '' @ py_str_opt (legal_text d) @
          ustr ''\<newline>Punishment: '' @ py_str_opt (punishment d) @
          ustr ''\<newline>Nature of Offence: '' @ py_str_opt (nature d) @
          ustr ''\<newline>Practical Explanation: '' @ py_str_opt (practical_explanation d) @
          ustr ''\<newline>Example: '' @ py_str_opt (example d) @
          ustr ''\<newline>Linked Sections: '' @ linked @
          ustr ''\<newline>Legal Risk Level: '' @ py_str_opt (legal_risk_level d) @
          ustr ''\<newline>What Should Be Done Next: '' @
            py_join (ustr '', '') (case next_steps d of None \<Rightarrow> [] | Some xs \<Rightarrow> xs) @
          ustr ''\<newline>Conclusion: '' @ py_str_opt (conclusion d) @
          ustr ''\<newline>Disclaimer: '' @ py_str_opt (disclaimer d) @ ustr ''\<newline>''))"

end
