(* ===== verification/Guardian.thy ===== *)
theory Guardian
  imports Classifier Language Extractor Statute
begin

text \<open>
  The router \<open>guardian_llm\<close> of \<open>src/Chatbot/Other files/llm.py\<close>: it classifies
  the question, detects its language, extracts the referenced IPC sections, assembles
  a context (the case-study rules when an IPC question names no section; one verified
  block or one not-found sentence per referenced section otherwise), sends the system
  prompt and one user message to the model, and replaces a case-study reply that
  mentions a section number by a fixed safe response. The model is the parameter
  \<open>chat\<close> (\<open>ollama.chat\<close>), which may fail; the act files are the parameter
  \<open>fs\<close>. The FastAPI endpoint of \<open>src/Chatbot/Other files/main.py\<close> wraps it.
\<close>

datatype role = System | User | Assistant

type_synonym message = "role \<times> ustr"

type_synonym chat_model = "message list \<Rightarrow> py_error + ustr"

text \<open>
  \<open>SYSTEM_PROMPT\<close>, the text of \<open>src/Chatbot/Other files/prompts.py\<close> (the file holds
  the prompt itself, not an assignment of it).
\<close>

definition SYSTEM_PROMPT :: ustr where
  "SYSTEM_PROMPT =
     ustr ''You are GUARDIAN '' @ [0x2014] @
     ustr '' a Senior Indian Criminal Lawyer and Legal Triage AI.\<newline>\<newline>PRIMARY '' @
     ustr ''OBJECTIVE:\<newline>Provide legally accurate, concise, and '' @
     ustr ''practical information strictly based on Indian law.\<newline>\<newline>'' @
     replicate 36 0x2500 @
     ustr ''\<newline>STRICT LEGAL RULES (NON-NEGOTIABLE)\<newline>'' @
     replicate 36 0x2500 @
     ustr ''\<newline>- Use the local '' @ [34] @ ustr ''acts'' @ [34] @
     ustr '' database as the PRIMARY source of truth.\<newline>- If '' @
     ustr ''the requested Act or Section exists in the local database:\<newline> '' @
     ustr '' '' @ [0x2192] @
     ustr '' You MUST answer ONLY using the provided verified data.\<newline>- '' @
     ustr ''NEVER guess, infer, or fabricate sections.\<newline>- If '' @
     ustr ''the Act or Section is NOT found in the local database:\<newline> '' @
     ustr '' '' @ [0x2192] @
     ustr '' Use authoritative general legal knowledge (Gemini fallback).\<newline> '' @
     ustr '' '' @ [0x2192] @ ustr '' Clearly state:\<newline>    '' @ [34] @
     ustr ''This response is generated from general legal knowledge '' @
     ustr ''as the specific provision is not available in the verified '' @
     ustr ''local database.'' @ [34] @
     ustr ''\<newline>- Do NOT mix up Acts or sections under any circumstances.\<newline>- '' @
     ustr ''Do NOT provide legal advice beyond informational guidance.\<newline>\<newline>'' @
     replicate 36 0x2500 @
     ustr ''\<newline>LAW IDENTIFICATION RULE\<newline>'' @
     replicate 36 0x2500 @
     ustr ''\<newline>- Proceed ONLY if the user specifies:\<newline> '' @
     ustr '' '' @ [0x2022] @ ustr '' An Act name\<newline>  '' @ [0x2022] @
     ustr '' A section number\<newline>  '' @ [0x2022] @
     ustr '' A clear legal scenario\<newline>- If not specified, ask:\<newline> '' @
     ustr '' '' @ [34] @
     ustr ''Please specify the Act or section you are referring to.'' @
     [34] @ ustr ''\<newline>\<newline>'' @
     replicate 36 0x2500 @
     ustr ''\<newline>LANGUAGE RULE (MANDATORY)\<newline>'' @
     replicate 36 0x2500 @
     ustr ''\<newline>- Always respond in the SAME language or mixed '' @
     ustr ''style used by the user.\<newline>- Support all Indian languages, '' @
     ustr ''Hinglish, and Tanglish.\<newline>- Never switch languages '' @
     ustr ''or ask for language preference.\<newline>\<newline>'' @
     replicate 36 0x2500 @
     ustr ''\<newline>CASE-STUDY HANDLING\<newline>'' @
     replicate 36 0x2500 @
     ustr ''\<newline>- Analyse facts under Indian law principles.\<newline>- '' @
     ustr ''Do NOT invent sections or punishments.\<newline>- State '' @
     ustr ''clearly when exact classification is not possible.\<newline>\<newline>'' @
     replicate 36 0x2500 @
     ustr ''\<newline>RESPONSE STYLE\<newline>'' @
     replicate 36 0x2500 @
     ustr ''\<newline>- Senior Advocate tone\<newline>- Clear, practical, '' @
     ustr ''professional\<newline>- Bullet points where useful\<newline>- '' @
     ustr ''No moral judgments\<newline>\<newline>'' @
     replicate 36 0x2500 @
     ustr ''\<newline>RESPONSE STRUCTURE (CONDITIONAL)\<newline>'' @
     replicate 36 0x2500 @
     ustr ''\<newline>Include only what is applicable:\<newline>\<newline>1. '' @
     ustr ''Applicable Act / Section (or '' @ [34] @
     ustr ''No specific section provided'' @ [34] @
     ustr '')\<newline>2. Legal Provision (Exact text if available)\<newline>3. '' @
     ustr ''Punishment (If applicable)\<newline>4. Nature of Offence '' @
     ustr ''/ Legal Issue\<newline>5. Practical Explanation\<newline>6. '' @
     ustr ''Example (Optional)\<newline>7. Linked Provisions (If any)\<newline>8. '' @
     ustr ''Legal Risk Level\<newline>9. What Should Be Done Next\<newline>10. '' @
     ustr ''Conclusion\<newline>11. Disclaimer\<newline>\<newline>'' @
     replicate 36 0x2500 @
     ustr ''\<newline>LEGAL RISK LEVEL (MANDATORY WHEN OFFENCE EXISTS)\<newline>'' @
     replicate 36 0x2500 @
     ustr ''\<newline>- '' @ [0x1F7E2] @ ustr '' Low Risk\<newline>- '' @
     [0x1F7E1] @ ustr '' Medium Risk\<newline>- '' @ [0x1F534] @
     ustr '' High Risk\<newline>(Explain in ONE line)\<newline>\<newline>'' @
     replicate 36 0x2500 @
     ustr ''\<newline>WHAT SHOULD BE DONE NEXT (MANDATORY)\<newline>'' @
     replicate 36 0x2500 @
     ustr ''\<newline>- 2'' @ [0x2013] @
     ustr ''3 lawful, practical steps\<newline>- Recommend lawyer consultation '' @
     ustr ''for '' @ [0x1F534] @ ustr '' High Risk\<newline>\<newline>'' @
     replicate 36 0x2500 @
     ustr ''\<newline>DISCLAIMER (MANDATORY)\<newline>'' @
     replicate 36 0x2500 @
     ustr ''\<newline>'' @ [34] @
     ustr ''This response is for informational purposes only and does '' @
     ustr ''not constitute legal advice.'' @ [34] @
     ustr ''\<newline>\<newline>''"

definition CASE_STUDY_RULES :: ustr where
  "CASE_STUDY_RULES =
     ustr ''\<newline>CASE STUDY MODE '' @ [0x2013] @
     ustr '' STRICT RULES APPLY\<newline>\<newline>INSTRUCTIONS:\<newline>- '' @
     ustr ''DO NOT mention IPC section numbers\<newline>- DO NOT quote '' @
     ustr ''legal provisions\<newline>- DO NOT state punishments\<newline>- '' @
     ustr ''DO NOT guess sections\<newline>- Focus on legal nature, '' @
     ustr ''seriousness, and risk\<newline>- Use plain language\<newline>''"

definition SAFE_CASE_STUDY_RESPONSE :: ustr where
  "SAFE_CASE_STUDY_RESPONSE =
     ustr ''\<newline>IPC Section Overview\<newline>No IPC section has '' @
     ustr ''been specified.\<newline>\<newline>Practical Explanation\<newline>The '' @
     ustr ''facts indicate an act of criminal conduct, such as threats '' @
     ustr ''and/or physical assault, under Indian law. \<newline>Exact '' @
     ustr ''statutory classification cannot be determined without specific '' @
     ustr ''IPC references, but criminal liability exists.\<newline>\<newline>Legal '' @
     ustr ''Risk Level\<newline>'' @ [0x1F7E1] @ ustr '' Medium Risk '' @
     [0x2014] @
     ustr '' The acts involve threats and/or bodily harm; imprisonment '' @
     ustr ''is possible depending on severity.\<newline>\<newline>What '' @
     ustr ''Should Be Done Next\<newline>'' @ [0x2022] @
     ustr '' Report the incident to the police immediately\<newline>'' @
     [0x2022] @
     ustr '' Seek medical attention and preserve evidence\<newline>'' @
     [0x2022] @ ustr '' Cooperate with the investigation\<newline>'' @
     [0x2022] @
     ustr '' Consult a qualified criminal lawyer\<newline>\<newline>Conclusion\<newline>The '' @
     ustr ''actions described are criminal offences under Indian law. '' @
     ustr ''Prompt legal action and evidence preservation are essential.\<newline>\<newline>Disclaimer\<newline>This '' @
     ustr ''response is for informational purposes only and not legal '' @
     ustr ''advice.\<newline>''"

text \<open>The sentence for a referenced section the store does not have.\<close>

definition not_in_db_msg :: "ustr \<Rightarrow> ustr" where
  "not_in_db_msg sec =
     ustr ''IPC Section '' @ sec @
     ustr '' is not in the verified database. Please use your internal '' @
     ustr ''knowledge base to answer, but explicitly state that this '' @
     ustr ''is a general generation.\<newline>''"

text \<open>The loop over the referenced sections, appending to \<open>context\<close>.\<close>

fun section_context :: "act_files \<Rightarrow> ustr \<Rightarrow> ustr list \<Rightarrow> py_error + ustr" where
  "section_context fs context [] = Inr context"
| "section_context fs context (sec # secs) =
     (case load_section fs (ustr ''ipc'') sec of
        Inl e \<Rightarrow> Inl e
      | Inr section_data \<Rightarrow>
          (case section_data of
             Some d \<Rightarrow>
               if statute_truthy d
               then (case format_ipc_context sec d of
                       Inl e \<Rightarrow> Inl e
                     | Inr block \<Rightarrow> section_context fs (context @ block) secs)
               else section_context fs (context @ not_in_db_msg sec) secs
           | None \<Rightarrow> section_context fs (context @ not_in_db_msg sec) secs))"

text \<open>The IPC handling block: the context and \<open>is_case_study\<close>.\<close>

definition assemble_context :: "act_files \<Rightarrow> law_type \<Rightarrow> ustr list \<Rightarrow> py_error + ustr \<times> bool" where
  "assemble_context fs law_type ipc_sections =
     (if law_type = Ipc
      then (if ipc_sections = [] then Inr (CASE_STUDY_RULES, True)
            else (case section_context fs [] ipc_sections of
                    Inl e \<Rightarrow> Inl e
                  | Inr context \<Rightarrow> Inr (context, False)))
      else Inr ([], False))"

definition final_prompt :: "ustr \<Rightarrow> ustr \<Rightarrow> ustr \<Rightarrow> ustr" where
  "final_prompt context document_context question =
     ustr ''\<newline>'' @ context @ ustr ''\<newline>\<newline>DOCUMENT CONTEXT:\<newline>'' @ document_context @
     ustr ''\<newline>\<newline>QUESTION:\<newline>'' @ question @ ustr ''\<newline>''"

definition user_content :: "lang_tag \<Rightarrow> ustr \<Rightarrow> ustr" where
  "user_content language fp =
     ustr ''\<newline>Respond in the language requested by the user '' @
     ustr ''or the language of the question.\<newline>If the detected '' @
     ustr ''language is '' @
     lang_code language @
     ustr '', give preference to it unless the user explicitly asks '' @
     ustr ''for another language.\<newline>\<newline>Follow the mandatory '' @
     ustr ''response structure exactly.\<newline>\<newline>'' @
     fp @ ustr ''\<newline>''"

definition guardian_messages :: "ustr \<Rightarrow> ustr \<Rightarrow> ustr \<Rightarrow> message list" where
  "guardian_messages context document_context question =
     [(System, SYSTEM_PROMPT),
      (User, user_content (detect_language question) (final_prompt context document_context question))]"

text \<open>\<open>guardian_llm(question, document_context)\<close>.\<close>

definition guardian_llm :: "act_files \<Rightarrow> chat_model \<Rightarrow> ustr \<Rightarrow> ustr \<Rightarrow> py_error + ustr" where
  "guardian_llm fs chat question document_context =
     (let law_type = detect_law_type question;
          ipc_sections = extract_ipc_sections question
      in case assemble_context fs law_type ipc_sections of
           Inl e \<Rightarrow> Inl e
         | Inr (context, is_case_study) \<Rightarrow>
             (case chat (guardian_messages context document_context question) of
                Inl e \<Rightarrow> Inl e
              | Inr output \<Rightarrow>
                  Inr (if is_case_study \<and> mentions_section_number output
                       then SAFE_CASE_STUDY_RESPONSE else output)))"

subsection \<open>Properties\<close>

lemma safe_response_clean: "\<not> mentions_section_number SAFE_CASE_STUDY_RESPONSE"
proof -
  have "list_all (\<lambda>c. \<not> py_isdigit c) SAFE_CASE_STUDY_RESPONSE"
    by (simp add: SAFE_CASE_STUDY_RESPONSE_def py_isdigit_def is_ascii_digit_def indic_digit_zeros_def)
  then show ?thesis by (auto dest: mentions_section_number_digit simp: list_all_iff)
qed

lemma findall_IPC_prefix:
  "re_findall ipc_ref_match prev (ustr ''IPC Section '' @ s) =
   re_findall ipc_ref_match (Some 32) (ustr ''Section '' @ s)"
  by (simp add: ipc_ref_match_def ref_tail_def re_boundary_def char_class_defs Let_def
      split: option.splits)

lemma findall_not_in_db_tail:
  "re_findall ipc_ref_match (Some x)
     (ustr '' is not in the verified database. Please use your internal knowledge base to answer, but explicitly state that this is a general generation.\<newline>'' @ rest)
   = re_findall ipc_ref_match (Some 10) rest"
  by (simp add: ipc_ref_match_def ref_tail_def re_boundary_def char_class_defs Let_def)

lemma findall_not_in_db_msgs:
  assumes "list_all section_id_ok secs"
    and "\<not> (case prev of None \<Rightarrow> False | Some p \<Rightarrow> py_isword p)"
  shows "re_findall ipc_ref_match prev (concat (map not_in_db_msg secs)) = secs"
  using assms
proof (induction secs arbitrary: prev)
  case Nil
  then show ?case by (simp add: ipc_ref_match_def ref_tail_def)
next
  case (Cons sec secs)
  let ?tail = "ustr '' is not in the verified database. Please use your internal knowledge base to answer, but explicitly state that this is a general generation.\<newline>''"
  let ?rest = "concat (map not_in_db_msg secs)"
  have ok: "section_id_ok sec" using Cons.prems by simp
  have m: "ipc_ref_match (Some 32) ((ustr ''Section '' @ sec) @ ?tail @ ?rest)
      = Some (sec, 7 + length sec)"
    using ipc_ref_match_Section[OF ok, of 32 "Some 32" "drop 1 ?tail @ ?rest"]
    by (simp add: char_class_defs)
  have "re_findall ipc_ref_match prev (concat (map not_in_db_msg (sec # secs)))
      = re_findall ipc_ref_match (Some 32) ((ustr ''Section '' @ sec) @ ?tail @ ?rest)"
    using findall_IPC_prefix by (simp add: not_in_db_msg_def)
  also have "\<dots> = sec # re_findall ipc_ref_match (Some (last (ustr ''Section '' @ sec))) (?tail @ ?rest)"
    by (rule re_findall_step[where m = ipc_ref_match and prev = "Some 32" and w = "ustr ''Section '' @ sec" and r = "?tail @ ?rest", OF m]) simp_all
  also have "\<dots> = sec # re_findall ipc_ref_match (Some 10) ?rest"
    by (simp only: findall_not_in_db_tail)
  also have "\<dots> = sec # secs" using Cons.IH Cons.prems by (simp add: char_class_defs)
  finally show ?case .
qed

lemma guardian_llm_cases:
  "guardian_llm fs chat q d =
     (case assemble_context fs (detect_law_type q) (extract_ipc_sections q) of
        Inl e \<Rightarrow> Inl e
      | Inr (ctx, cs) \<Rightarrow>
          (case chat (guardian_messages ctx d q) of
             Inl e \<Rightarrow> Inl e
           | Inr out \<Rightarrow> Inr (if cs \<and> mentions_section_number out then SAFE_CASE_STUDY_RESPONSE else out)))"
  by (simp add: guardian_llm_def Let_def)

lemma assemble_context_flag:
  "assemble_context fs lt secs = Inr (ctx, cs) \<Longrightarrow> cs \<longleftrightarrow> lt = Ipc \<and> secs = []"
  by (auto simp: assemble_context_def split: if_splits sum.splits)

text \<open>
  C1. Case-study safety: when the question is classified as IPC and names no section,
  whatever the model answers, the text \<open>guardian_llm\<close> returns never matches the
  filter pattern \<open>\b(section|ipc)\s*\d+\<close>: it is the model's reply only when that
  reply does not match, and the fixed safe response (which contains no digit)
  otherwise.
\<close>

theorem guardian_case_study_safe:
  assumes "detect_law_type q = Ipc" and "extract_ipc_sections q = []"
    and "guardian_llm fs chat q d = Inr out"
  shows "\<not> mentions_section_number out"
  using assms safe_response_clean
  by (auto simp: guardian_llm_cases assemble_context_def split: sum.splits if_splits)

theorem guardian_case_study_safe_witness:
  "guardian_llm Map.empty (\<lambda>_. Inr (ustr ''This is a serious offence.'')) (ustr ''Is this a crime?'') []
     = Inr (ustr ''This is a serious offence.'') \<and>
   \<not> mentions_section_number (ustr ''This is a serious offence.'')"
proof -
  have lt: "detect_law_type (ustr ''Is this a crime?'') = Ipc"
    by (simp add: detect_law_type_def py_lower_cp_def is_ascii_upper_def)
  have ex: "extract_ipc_sections (ustr ''Is this a crime?'') = []"
    by (simp add: extract_ipc_sections_def ipc_ref_match_def ref_tail_def re_boundary_def char_class_defs)
  have nm: "\<not> mentions_section_number (ustr ''This is a serious offence.'')"
    by (simp add: mentions_section_number_def section_number_match_def digits_tail_def re_boundary_def
        char_class_defs)
  have run: "guardian_llm Map.empty (\<lambda>_. Inr (ustr ''This is a serious offence.'')) (ustr ''Is this a crime?'') []
     = Inr (ustr ''This is a serious offence.'')"
    using lt ex nm by (simp add: guardian_llm_cases assemble_context_def del: ustr_Cons)
  show ?thesis using run guardian_case_study_safe[OF lt ex run] by simp
qed

text \<open>
  C2. The override: in case-study mode, a model reply that matches the filter pattern
  (for instance one citing \<open>Section 375\<close>) is discarded and the fixed safe
  response is returned verbatim; there is no retry.
\<close>

theorem guardian_case_study_override:
  assumes "detect_law_type q = Ipc" and "extract_ipc_sections q = []"
    and "chat (guardian_messages CASE_STUDY_RULES d q) = Inr out"
    and "mentions_section_number out"
  shows "guardian_llm fs chat q d = Inr SAFE_CASE_STUDY_RESPONSE"
  using assms by (simp add: guardian_llm_cases assemble_context_def)

theorem guardian_case_study_override_witness:
  "guardian_llm Map.empty (\<lambda>_. Inr (ustr ''Under Section 375 this is rape.'')) (ustr ''Is this a crime?'') []
     = Inr SAFE_CASE_STUDY_RESPONSE"
proof (rule guardian_case_study_override)
  show "detect_law_type (ustr ''Is this a crime?'') = Ipc"
    by (simp add: detect_law_type_def py_lower_cp_def is_ascii_upper_def)
  show "extract_ipc_sections (ustr ''Is this a crime?'') = []"
    by (simp add: extract_ipc_sections_def ipc_ref_match_def ref_tail_def re_boundary_def char_class_defs)
  show "mentions_section_number (ustr ''Under Section 375 this is rape.'')"
    by (simp add: mentions_section_number_def section_number_match_def digits_tail_def re_boundary_def
        char_class_defs)
qed simp

text \<open>
  C3. Outside case-study mode (a non-IPC question, or an IPC question naming a section),
  the model's reply is returned unmodified.
\<close>

theorem guardian_passthrough:
  assumes "\<not> (detect_law_type q = Ipc \<and> extract_ipc_sections q = [])"
    and "assemble_context fs (detect_law_type q) (extract_ipc_sections q) = Inr (ctx, cs)"
    and "chat (guardian_messages ctx d q) = Inr out"
  shows "guardian_llm fs chat q d = Inr out"
  using assms assemble_context_flag[OF assms(2)] by (auto simp: guardian_llm_cases)

theorem guardian_passthrough_witness:
  "guardian_llm Map.empty (\<lambda>_. Inr (ustr ''Section 10 of the Contract Act.'')) (ustr ''what is a valid contract'') []
     = Inr (ustr ''Section 10 of the Contract Act.'')"
proof (rule guardian_passthrough)
  have lt: "detect_law_type (ustr ''what is a valid contract'') = Contract_act"
    by (simp add: detect_law_type_def py_lower_cp_def is_ascii_upper_def)
  then show "\<not> (detect_law_type (ustr ''what is a valid contract'') = Ipc \<and>
      extract_ipc_sections (ustr ''what is a valid contract'') = [])" by simp
  show "assemble_context Map.empty (detect_law_type (ustr ''what is a valid contract''))
      (extract_ipc_sections (ustr ''what is a valid contract'')) = Inr ([], False)"
    using lt by (simp add: assemble_context_def)
qed simp

text \<open>
  A question not classified as IPC gets an empty context: the act files are not
  consulted and the model's answer (or failure) is the result, unfiltered.
\<close>

theorem guardian_non_ipc:
  "detect_law_type q \<noteq> Ipc \<Longrightarrow> guardian_llm fs chat q d = chat (guardian_messages [] d q)"
  by (simp add: guardian_llm_cases assemble_context_def split: sum.splits)

theorem guardian_non_ipc_witness:
  "guardian_llm [act_path (ustr ''ipc'') \<mapsto> Malformed_json] (\<lambda>_. Inr (ustr ''ok'')) (ustr ''Can I get bail?'') []
     = Inr (ustr ''ok'')"
proof -
  have "detect_law_type (ustr ''Can I get bail?'') \<noteq> Ipc"
    by (simp add: detect_law_type_def py_lower_cp_def is_ascii_upper_def)
  from guardian_non_ipc[OF this] show ?thesis by simp
qed

text \<open>
  A malformed act file is fatal for an IPC question that names a section: the
  router fails with the JSON error before the model is called.
\<close>

theorem guardian_store_error:
  assumes "detect_law_type q = Ipc" and "extract_ipc_sections q \<noteq> []"
    and "fs (act_path (ustr ''ipc'')) = Some Malformed_json"
  shows "guardian_llm fs chat q d = Inl JSONDecodeError"
proof -
  obtain sec secs where "extract_ipc_sections q = sec # secs" using assms(2) by (cases "extract_ipc_sections q") auto
  then show ?thesis using assms
    by (simp add: guardian_llm_cases assemble_context_def load_section_def del: ustr_Cons)
qed

theorem guardian_store_error_witness:
  "guardian_llm [act_path (ustr ''ipc'') \<mapsto> Malformed_json] (\<lambda>_. Inr (ustr ''ok'')) (ustr ''Punishment under IPC 302?'') []
     = Inl JSONDecodeError"
proof (rule guardian_store_error)
  show "detect_law_type (ustr ''Punishment under IPC 302?'') = Ipc"
    by (simp add: detect_law_type_def py_lower_cp_def is_ascii_upper_def)
  show "extract_ipc_sections (ustr ''Punishment under IPC 302?'') \<noteq> []"
    by (simp add: extract_ipc_sections_def ipc_ref_match_def ref_tail_def re_boundary_def char_class_defs)
qed simp

text \<open>
  A model failure propagates to the caller unchanged: no retry and no fallback.
\<close>

theorem guardian_model_error:
  assumes "assemble_context fs (detect_law_type q) (extract_ipc_sections q) = Inr (ctx, cs)"
    and "chat (guardian_messages ctx d q) = Inl e"
  shows "guardian_llm fs chat q d = Inl e"
  using assms by (simp add: guardian_llm_cases)

theorem guardian_model_error_witness:
  "guardian_llm Map.empty (\<lambda>_. Inl (ProviderError (ustr ''timeout''))) (ustr ''what is a valid contract'') []
     = Inl (ProviderError (ustr ''timeout''))"
proof (rule guardian_model_error)
  show "assemble_context Map.empty (detect_law_type (ustr ''what is a valid contract''))
      (extract_ipc_sections (ustr ''what is a valid contract'')) = Inr ([], False)"
    by (simp add: assemble_context_def detect_law_type_def py_lower_cp_def is_ascii_upper_def)
qed simp

lemma section_context_not_found:
  "list_all (\<lambda>sec. load_section fs (ustr ''ipc'') sec = Inr None) secs \<Longrightarrow>
   section_context fs acc secs = Inr (acc @ concat (map not_in_db_msg secs))"
  by (induction secs arbitrary: acc) (simp_all del: ustr_Cons)

text \<open>
  Sections missing from the store: for an IPC question whose referenced sections are
  all absent, the context is the not-in-database disclosure for each of them, in the
  order extracted, duplicates kept, and the reply is not in case-study mode.
\<close>

theorem assemble_context_not_found:
  assumes "secs \<noteq> []" and "list_all (\<lambda>sec. load_section fs (ustr ''ipc'') sec = Inr None) secs"
  shows "assemble_context fs Ipc secs = Inr (concat (map not_in_db_msg secs), False)"
  using assms section_context_not_found[OF assms(2), of "[]"] by (simp add: assemble_context_def)

theorem assemble_context_not_found_witness:
  "assemble_context Map.empty Ipc [ustr ''999'', ustr ''999''] =
     Inr (not_in_db_msg (ustr ''999'') @ not_in_db_msg (ustr ''999''), False)"
  using assemble_context_not_found[of "[ustr ''999'', ustr ''999'']" Map.empty]
  by (simp add: load_section_def del: ustr_Cons)

text \<open>
  Round trip through the context: when every section an IPC question references
  is missing from the store, extracting section references from the assembled
  context gives back exactly the question's sections, in order.
\<close>

theorem context_roundtrip:
  assumes "extract_ipc_sections q \<noteq> []"
    and "list_all (\<lambda>sec. load_section fs (ustr ''ipc'') sec = Inr None) (extract_ipc_sections q)"
  shows "\<exists>ctx. assemble_context fs Ipc (extract_ipc_sections q) = Inr (ctx, False) \<and>
               extract_ipc_sections ctx = extract_ipc_sections q"
proof -
  have "list_all section_id_ok (extract_ipc_sections q)"
    by (simp add: list_all_iff extract_ipc_sections_member)
  then have "extract_ipc_sections (concat (map not_in_db_msg (extract_ipc_sections q))) = extract_ipc_sections q"
    unfolding extract_ipc_sections_def[of "concat _"] by (rule findall_not_in_db_msgs) simp
  then show ?thesis using assemble_context_not_found[OF assms] by blast
qed

theorem context_roundtrip_witness:
  "\<exists>ctx. assemble_context Map.empty Ipc [ustr ''999'', ustr ''998A''] = Inr (ctx, False) \<and>
     extract_ipc_sections ctx = [ustr ''999'', ustr ''998A'']"
proof -
  have ex: "extract_ipc_sections (ustr ''Compare IPC 999 and section 998A'') = [ustr ''999'', ustr ''998A'']"
    by (simp add: extract_ipc_sections_def ipc_ref_match_def ref_tail_def re_boundary_def char_class_defs)
  have "\<exists>ctx. assemble_context Map.empty Ipc (extract_ipc_sections (ustr ''Compare IPC 999 and section 998A''))
      = Inr (ctx, False) \<and> extract_ipc_sections ctx = extract_ipc_sections (ustr ''Compare IPC 999 and section 998A'')"
    by (rule context_roundtrip) (simp_all add: ex load_section_def del: ustr_Cons)
  then show ?thesis by (simp only: ex)
qed

text \<open>
  Round trip of the disclosure sentences: extracting section references from the
  concatenated not-in-database sentences of well-formed section ids gives back the
  ids, in order.
\<close>

theorem not_in_db_roundtrip:
  "list_all section_id_ok secs \<Longrightarrow> extract_ipc_sections (concat (map not_in_db_msg secs)) = secs"
  unfolding extract_ipc_sections_def by (rule findall_not_in_db_msgs) simp_all

theorem not_in_db_roundtrip_witness:
  "extract_ipc_sections (not_in_db_msg (ustr ''302'') @ not_in_db_msg (ustr ''124A''))
     = [ustr ''302'', ustr ''124A'']"
  using not_in_db_roundtrip[of "[ustr ''302'', ustr ''124A'']"]
  by (simp add: section_id_ok_def char_class_defs)

text \<open>
  The verified-data block does not round-trip: its header line is
  \<open>IPC Section: 302\<close>, and the colon stops the extractor's pattern, so for an entry
  whose fields cite no section the extractor finds nothing in the rendered block.
\<close>

theorem verified_block_no_roundtrip:
  "\<exists>block. format_ipc_context (ustr ''302'')
     \<lparr>title = Some (ustr ''Punishment for murder''), legal_text = None,
      punishment = Some (ustr ''Death or imprisonment for life''), nature = None,
      practical_explanation = None, example = None, overlaps = None, legal_risk_level = None,
      next_steps = Some [ustr ''Contact a lawyer''], conclusion = None, disclaimer = None,
      other_keys = []\<rparr> = Inr block \<and>
   extract_ipc_sections block = []"
  by (simp add: format_ipc_context_def linked_sections_text_def py_str_opt_def extract_ipc_sections_def
      ipc_ref_match_def ref_tail_def re_boundary_def char_class_defs)

end
