(* ===== verification/Router_Api.thy ===== *)
theory Router_Api
  imports Guardian
begin

text \<open>
  The entry points around the router in \<open>src/Chatbot/Other files/\<close>: the FastAPI
  endpoint \<open>chat_endpoint\<close> of \<open>main.py\<close>; the Gemini call \<open>fast_response\<close> of
  \<open>google_gemini.py\<close> (the client library is the parameter \<open>gemini\<close>); the Flask
  app of \<open>app.py\<close>, whose per-browser \<open>session\<close> holds the chat history (a step
  relation over the handlers \<open>home\<close>, \<open>chat\<close> and \<open>clear_history\<close>);
  \<open>read_document\<close> of \<open>document_reader.py\<close>; and the merge performed by the
  script \<open>merge_ipc.py\<close>.
\<close>

subsection \<open>FastAPI endpoint\<close>

datatype endpoint_reply = Chat_response ustr | Chat_error ustr

text \<open>
  \<open>read_root\<close>: the page \<open>static/index.html\<close> read from the static files; a missing
  file raises \<open>FileNotFoundError\<close>, which no handler catches.
\<close>

definition read_root :: "(ustr \<rightharpoonup> ustr) \<Rightarrow> ustr http_result" where
  "read_root static = (case static (ustr ''static/index.html'') of
                         Some page \<Rightarrow> Inr page
                       | None \<Rightarrow> Inl (HTTPException 500 (ustr ''Internal Server Error'')))"

definition chat_endpoint :: "act_files \<Rightarrow> chat_model \<Rightarrow> ustr \<Rightarrow> endpoint_reply" where
  "chat_endpoint fs chat message =
     (case guardian_llm fs chat message [] of
        Inl e \<Rightarrow> Chat_error (py_error_msg e)
      | Inr response_text \<Rightarrow> Chat_response response_text)"

subsection \<open>Gemini fast mode\<close>

text \<open>Any exception of the client becomes a reply text; the function never raises.\<close>

definition fast_response :: "(ustr \<Rightarrow> ustr \<Rightarrow> py_error + ustr) \<Rightarrow> ustr \<Rightarrow> ustr \<Rightarrow> ustr" where
  "fast_response gemini prompt api_key =
     (case gemini prompt api_key of
        Inl e \<Rightarrow> ustr ''Error connecting to Google Gemini: '' @ py_error_msg e @
                 ustr ''\<newline>\<newline>(Falling back to local knowledge base...)''
      | Inr text \<Rightarrow> text)"

subsection \<open>Flask app\<close>

record hist_entry =
  he_summary :: ustr
  he_user :: ustr
  he_bot :: ustr

text \<open>The session cookie's \<open>history\<close> key; \<open>None\<close> when absent.\<close>

record flask_session =
  history :: "hist_entry list option"

text \<open>\<open>session['history'][-5:] if len(...) > 5 else session['history']\<close>.\<close>

definition recent_history :: "hist_entry list \<Rightarrow> hist_entry list" where
  "recent_history h = (if length h > 5 then drop (length h - 5) h else h)"

definition home :: "flask_session \<Rightarrow> flask_session \<times> hist_entry list" where
  "home s =
     (let s' = (case history s of None \<Rightarrow> s\<lparr>history := Some []\<rparr> | Some h \<Rightarrow> s);
          h = (case history s' of None \<Rightarrow> [] | Some h \<Rightarrow> h)
      in (s', recent_history h))"

text \<open>The JSON body: \<open>message\<close>, \<open>speed\<close> and \<open>api_key\<close>, \<open>None\<close> when absent.\<close>

record chat_form =
  cf_message :: "ustr option"
  cf_speed :: "ustr option"
  cf_api_key :: "ustr option"

definition GEMINI_PROMPT_HEAD :: ustr where
  "GEMINI_PROMPT_HEAD =
     ustr ''\<newline>            You are a Legal Assistant Chatbot '' @
     ustr ''for Indian Law (IPC). \<newline>            Response structure:\<newline> '' @
     ustr ''           1. IPC Section Overview\<newline>            '' @
     ustr ''2. Legal Provision\<newline>            3. Punishment\<newline> '' @
     ustr ''           4. Nature of Offence\<newline>            5. '' @
     ustr ''Practical Explanation\<newline>            6. Example\<newline> '' @
     ustr ''           7. Linked Sections\<newline>            8. Legal '' @
     ustr ''Risk Level\<newline>            9. What Should Be Done Next\<newline> '' @
     ustr ''           10. Conclusion\<newline>            11. Disclaimer: '' @
     [34] @ ustr ''This response is for informational purposes only...'' @
     [34] @
     ustr ''\<newline>            \<newline>            User Query: ''"

definition GEMINI_PROMPT_TAIL :: ustr where
  "GEMINI_PROMPT_TAIL =
     ustr ''\<newline>            ''"

definition FAST_MODE_WARNING :: ustr where
  "FAST_MODE_WARNING =
     [0x26A0, 0xFE0F] @
     ustr '' Fast Mode requires a Google API Key. Please provide it '' @
     ustr ''in Settings or switch to Detailed Mode.''"

definition history_summary :: "ustr \<Rightarrow> ustr" where
  "history_summary user_input =
     (if length user_input > 30 then take 30 user_input @ ustr ''...'' else user_input)"

text \<open>
  \<open>chat\<close>: \<open>server_key\<close> is \<open>os.environ.get("GOOGLE_API_KEY")\<close>. Detailed mode
  calls the router with the path \<open>"acts/ipc.json"\<close> as its document context; an
  exception of the router is not caught, Flask answers 500 and the session is
  unchanged.
\<close>

definition chat ::
  "act_files \<Rightarrow> chat_model \<Rightarrow> (ustr \<Rightarrow> ustr \<Rightarrow> py_error + ustr) \<Rightarrow> ustr option \<Rightarrow>
   flask_session \<Rightarrow> chat_form \<Rightarrow> flask_session \<times> ustr http_result" where
  "chat fs llm gemini server_key s data =
     (let user_input = (case cf_message data of None \<Rightarrow> [] | Some m \<Rightarrow> m);
          speed = (case cf_speed data of None \<Rightarrow> ustr ''Detailed'' | Some v \<Rightarrow> v);
          api_key = (case cf_api_key data of None \<Rightarrow> [] | Some k \<Rightarrow> k)
      in if user_input = [] then (s, Inr (ustr ''Please enter a question.''))
         else
           (let response =
              (if speed = ustr ''Fast''
               then (let effective_api_key = py_or_str (Some api_key) (py_or_str server_key []) in
                     if effective_api_key \<noteq> []
                     then Inr (fast_response gemini (GEMINI_PROMPT_HEAD @ user_input @ GEMINI_PROMPT_TAIL)
                                 effective_api_key)
                     else Inr FAST_MODE_WARNING)
               else guardian_llm fs llm user_input (ustr ''acts/ipc.json''))
            in case response of
                 Inl e \<Rightarrow> (s, Inl (HTTPException 500 (ustr ''Internal Server Error'')))
               | Inr response_text \<Rightarrow>
                   (let h = (case history s of None \<Rightarrow> [] | Some h \<Rightarrow> h);
                        entry = \<lparr>he_summary = history_summary user_input, he_user = user_input,
                                 he_bot = response_text\<rparr>
                    in (s\<lparr>history := Some (h @ [entry])\<rparr>, Inr response_text))))"

definition clear_history :: "flask_session \<Rightarrow> flask_session" where
  "clear_history s = s\<lparr>history := None\<rparr>"

text \<open>The session through a sequence of requests of one browser.\<close>

datatype flask_op = Op_home | Op_chat chat_form | Op_clear

fun flask_step ::
  "act_files \<Rightarrow> chat_model \<Rightarrow> (ustr \<Rightarrow> ustr \<Rightarrow> py_error + ustr) \<Rightarrow> ustr option \<Rightarrow>
   flask_session \<Rightarrow> flask_op \<Rightarrow> flask_session" where
  "flask_step fs llm gemini k s Op_home = fst (home s)"
| "flask_step fs llm gemini k s (Op_chat data) = fst (chat fs llm gemini k s data)"
| "flask_step fs llm gemini k s Op_clear = clear_history s"

inductive session_reachable ::
  "act_files \<Rightarrow> chat_model \<Rightarrow> (ustr \<Rightarrow> ustr \<Rightarrow> py_error + ustr) \<Rightarrow> ustr option \<Rightarrow> flask_session \<Rightarrow> bool"
  for fs llm gemini k where
  fresh: "session_reachable fs llm gemini k \<lparr>history = None\<rparr>"
| step: "session_reachable fs llm gemini k s \<Longrightarrow>
         session_reachable fs llm gemini k (flask_step fs llm gemini k s op)"

text \<open>Every stored entry has a non-empty question and its summary.\<close>

definition history_ok :: "flask_session \<Rightarrow> bool" where
  "history_ok s \<longleftrightarrow>
     (case history s of
        None \<Rightarrow> True
      | Some h \<Rightarrow> list_all (\<lambda>e. he_user e \<noteq> [] \<and> he_summary e = history_summary (he_user e)) h)"

subsection \<open>\<open>read_document\<close>\<close>

text \<open>
  The readers' outputs are parameters: the page texts of PyPDF2 (\<open>None\<close> for a page
  without text), the paragraph texts of python-docx, the decoded text file.
\<close>

datatype doc_content = Pdf_pages "ustr option list" | Docx_paragraphs "ustr list" | Text_file ustr

definition read_document :: "ustr \<Rightarrow> doc_content \<Rightarrow> ustr" where
  "read_document name content =
     take 3500
       (if py_endswith name (ustr ''.pdf'')
        then (case content of Pdf_pages ps \<Rightarrow> concat (map (\<lambda>p. case p of None \<Rightarrow> [] | Some t \<Rightarrow> t) ps) | _ \<Rightarrow> [])
        else if py_endswith name (ustr ''.docx'')
        then (case content of Docx_paragraphs ps \<Rightarrow> concat (map (\<lambda>p. p @ [10]) ps) | _ \<Rightarrow> [])
        else if py_endswith name (ustr ''.txt'')
        then (case content of Text_file t \<Rightarrow> t | _ \<Rightarrow> [])
        else [])"

subsection \<open>\<open>merge_ipc.py\<close>\<close>

text \<open>
  The merged act: the main file (empty when absent) updated by each extension part
  that exists, in order; \<open>dict.update\<close> lets a later part override a section.
\<close>

definition merge_parts :: "(ustr \<rightharpoonup> statute) option \<Rightarrow> (ustr \<rightharpoonup> statute) option list \<Rightarrow> ustr \<rightharpoonup> statute" where
  "merge_parts main parts =
     foldl (\<lambda>m p. case p of None \<Rightarrow> m | Some d \<Rightarrow> m ++ d)
       (case main of None \<Rightarrow> Map.empty | Some m \<Rightarrow> m) parts"


subsection \<open>SQLite chat log\<close>

text \<open>
  \<open>db.py\<close>: the \<open>chats\<close> table with its \<open>AUTOINCREMENT\<close> counter;
  \<open>get_chats\<close> reads the rows in rowid order. No module of the repository calls it.
\<close>

record chat_log_db =
  log_rows :: "(nat \<times> ustr \<times> ustr) list"
  log_seq :: nat

definition save_chat :: "chat_log_db \<Rightarrow> ustr \<Rightarrow> ustr \<Rightarrow> chat_log_db" where
  "save_chat db q a =
     db\<lparr>log_rows := log_rows db @ [(Suc (log_seq db), q, a)], log_seq := Suc (log_seq db)\<rparr>"

definition get_chats :: "chat_log_db \<Rightarrow> (ustr \<times> ustr) list" where
  "get_chats db = map (\<lambda>(i, q, a). (q, a)) (log_rows db)"

subsection \<open>Properties\<close>

lemma recent_history_last: "recent_history h = drop (length h - 5) h"
  by (simp add: recent_history_def)

lemma home_recent:
  "snd (home s) = drop (length (case history s of None \<Rightarrow> [] | Some h \<Rightarrow> h) - 5)
                       (case history s of None \<Rightarrow> [] | Some h \<Rightarrow> h) \<and>
   length (snd (home s)) \<le> 5"
  by (cases "history s") (auto simp: home_def recent_history_last)

lemma history_ok_chat: "history_ok s \<Longrightarrow> history_ok (fst (chat fs llm gemini k s data))"
  by (auto simp: chat_def history_ok_def Let_def split: option.splits sum.splits)

lemma history_ok_step:
  assumes "history_ok s" shows "history_ok (flask_step fs llm gemini k s op)"
proof (cases op)
  case (Op_chat data)
  then show ?thesis using history_ok_chat[OF \<open>history_ok s\<close>] by simp
qed (use \<open>history_ok s\<close> in \<open>auto simp: home_def clear_history_def history_ok_def split: option.splits\<close>)

text \<open>
  C29. Every session the Flask app can reach by any sequence of requests (home,
  chat in either mode, clear) stores only entries with a non-empty question whose
  summary is the question cut to 30 characters plus \<open>...\<close>, or the whole
  question when it is short.
\<close>

theorem session_history_ok: "session_reachable fs llm gemini k s \<Longrightarrow> history_ok s"
proof (induction rule: session_reachable.induct)
  case fresh
  then show ?case by (simp add: history_ok_def)
next
  case (step s op)
  show ?case using step.IH by (rule history_ok_step)
qed

text \<open>
  In detailed mode the Flask \<open>chat\<close> handler calls the router with the file
  path \<open>acts/ipc.json\<close> as the document context, so the model is shown that path as
  the user's document; a router exception becomes a bare 500.
\<close>

theorem flask_detailed_document_context:
  "cf_message data = Some q \<Longrightarrow> q \<noteq> [] \<Longrightarrow> cf_speed data \<noteq> Some (ustr ''Fast'') \<Longrightarrow>
   snd (chat fs llm gemini k s data) =
     (case guardian_llm fs llm q (ustr ''acts/ipc.json'') of
        Inl e \<Rightarrow> Inl (HTTPException 500 (ustr ''Internal Server Error''))
      | Inr r \<Rightarrow> Inr r)"
  by (auto simp: chat_def Let_def split: option.splits sum.splits)

lemma merge_parts_lookup:
  "merge_parts main ps k =
     foldl (\<lambda>r p. case p of None \<Rightarrow> r | Some d \<Rightarrow> (case d k of None \<Rightarrow> r | Some v \<Rightarrow> Some v))
       (case main of None \<Rightarrow> None | Some m \<Rightarrow> m k) ps"
proof -
  have "foldl (\<lambda>m p. case p of None \<Rightarrow> m | Some d \<Rightarrow> m ++ d) m0 ps k =
        foldl (\<lambda>r p. case p of None \<Rightarrow> r | Some d \<Rightarrow> (case d k of None \<Rightarrow> r | Some v \<Rightarrow> Some v)) (m0 k) ps"
    for m0 :: "ustr \<rightharpoonup> statute"
    by (induction ps arbitrary: m0) (auto simp: map_add_def split: option.splits)
  then show ?thesis by (simp add: merge_parts_def split: option.splits)
qed

theorem session_history_ok_witness:
  "history_ok (flask_step Map.empty (\<lambda>_. Inr []) (\<lambda>_ _. Inr []) None \<lparr>history = None\<rparr>
     (Op_chat \<lparr>cf_message = Some (ustr ''Is theft a crime under the Indian Penal Code?''),
               cf_speed = Some (ustr ''Fast''), cf_api_key = None\<rparr>))"
  by (rule session_history_ok, rule session_reachable.step, rule session_reachable.fresh)

theorem flask_detailed_document_context_witness:
  "snd (chat Map.empty (\<lambda>_. Inr (ustr ''ok'')) (\<lambda>_ _. Inr []) None \<lparr>history = None\<rparr>
     \<lparr>cf_message = Some (ustr ''What is bail?''), cf_speed = None, cf_api_key = None\<rparr>) =
   (case guardian_llm Map.empty (\<lambda>_. Inr (ustr ''ok'')) (ustr ''What is bail?'') (ustr ''acts/ipc.json'') of
      Inl e \<Rightarrow> Inl (HTTPException 500 (ustr ''Internal Server Error''))
    | Inr r \<Rightarrow> Inr r)"
  by (rule flask_detailed_document_context) simp_all

end
