(* ===== verification/Act_Scripts.thy ===== *)
theory Act_Scripts
  imports Router_Api "HOL-Library.AList"
begin

text \<open>
  The two scripts over the act files. \<open>src/Chatbot/Other files/merge_ipc.py\<close> as a program: it reads the
  act files of the \<open>acts\<close> directory, merges the three extension parts into the main
  IPC file with \<open>dict.update\<close>, writes the result back, and prints a report. A JSON
  object is an association list with distinct keys in file order (\<open>json.load\<close>
  keeps one value per key); \<open>act_view\<close> is the same directory as the router's
  \<open>load_section\<close> reads it. Printed text is the list of the strings passed to
  \<open>print\<close>. \<open>verify_ipc_format.py\<close> prints the raw entry of section 302 and its
  rendering by \<open>format_ipc_context\<close>; \<open>json.dumps\<close> is a parameter, since a
  statute record does not keep the key order of its file.
\<close>

datatype raw_act = Raw_act "(ustr \<times> statute) list" | Raw_malformed

type_synonym act_store = "ustr \<rightharpoonup> raw_act"

definition act_view :: "act_store \<Rightarrow> act_files" where
  "act_view st p =
     (case st p of
        None \<Rightarrow> None
      | Some (Raw_act xs) \<Rightarrow> Some (Act_json (map_of xs))
      | Some Raw_malformed \<Rightarrow> Some Malformed_json)"

text \<open>\<open>load_json\<close> and \<open>save_json\<close>.\<close>

definition load_json :: "act_store \<Rightarrow> ustr \<Rightarrow> py_error + (ustr \<times> statute) list" where
  "load_json st path =
     (case st path of
        None \<Rightarrow> Inl (FileNotFoundError path)
      | Some Raw_malformed \<Rightarrow> Inl JSONDecodeError
      | Some (Raw_act xs) \<Rightarrow> Inr xs)"

definition save_json :: "act_store \<Rightarrow> ustr \<Rightarrow> (ustr \<times> statute) list \<Rightarrow> act_store" where
  "save_json st path data = st(path \<mapsto> Raw_act data)"

text \<open>\<open>d.update(e)\<close>: each key of \<open>e\<close> in order, kept in place when present, appended otherwise.\<close>

definition dict_update :: "(ustr \<times> statute) list \<Rightarrow> (ustr \<times> statute) list \<Rightarrow> (ustr \<times> statute) list" where
  "dict_update d e = foldl (\<lambda>m (k, v). AList.update k v m) d e"

definition MAIN_IPC :: ustr where
  "MAIN_IPC = ustr ''acts/ipc.json''"

definition EXTENSION_PARTS :: "ustr list" where
  "EXTENSION_PARTS =
     [ustr ''acts/ipc_extension_part1.json'', ustr ''acts/ipc_extension_part2.json'',
      ustr ''acts/ipc_extension_part3.json'']"

definition CHECK_SECTIONS :: "ustr list" where
  "CHECK_SECTIONS = [ustr ''420'', ustr ''378'', ustr ''376'', ustr ''124A'', ustr ''304B'']"

text \<open>
  The loop over the parts: the lines it prints, and either the exception that ends it
  or the merged dictionary with \<open>total_added\<close>.
\<close>

fun merge_loop ::
  "act_store \<Rightarrow> ustr list \<Rightarrow> (ustr \<times> statute) list \<Rightarrow> nat \<Rightarrow>
   ustr list \<times> (py_error + (ustr \<times> statute) list \<times> nat)" where
  "merge_loop st [] m total_added = ([], Inr (m, total_added))"
| "merge_loop st (part # parts) m total_added =
     (if st part = None
      then (let (out, r) = merge_loop st parts m total_added
            in ((ustr ''Warning: '' @ part @ ustr '' not found'') # out, r))
      else (case load_json st part of
              Inl e \<Rightarrow> ([], Inl e)
            | Inr data \<Rightarrow>
                (let count = length data;
                     (out, r) = merge_loop st parts (dict_update m data) (total_added + count)
                 in ((ustr ''Loading '' @ part @ ustr '': '' @ py_str_nat count @ ustr '' sections'') # out, r))))"

text \<open>The check of the key sections; \<open>main_ipc[sec]['title']\<close> raises on an entry without title.\<close>

fun verify_loop :: "(ustr \<times> statute) list \<Rightarrow> ustr list \<Rightarrow> ustr list \<times> py_error option" where
  "verify_loop m [] = ([], None)"
| "verify_loop m (sec # secs) =
     (case map_of m sec of
        Some d \<Rightarrow>
          (case title d of
             None \<Rightarrow> ([], Some (KeyError (ustr ''title'')))
           | Some t \<Rightarrow> (let (out, r) = verify_loop m secs
                        in (([9989] @ ustr '' Section '' @ sec @ ustr '' found: '' @ t) # out, r)))
      | None \<Rightarrow> (let (out, r) = verify_loop m secs
                 in (([10060] @ ustr '' Section '' @ sec @ ustr '' NOT FOUND'') # out, r)))"

definition error_line :: "py_error \<Rightarrow> ustr" where
  "error_line e = ustr ''Error: '' @ py_error_msg e"

text \<open>The main file, or an empty dictionary when it does not exist.\<close>

definition load_main :: "act_store \<Rightarrow> py_error + (ustr \<times> statute) list" where
  "load_main st = (if st MAIN_IPC \<noteq> None then load_json st MAIN_IPC else Inr [])"

text \<open>The whole script: the final directory and the printed lines.\<close>

definition merge_ipc_script :: "act_store \<Rightarrow> act_store \<times> ustr list" where
  "merge_ipc_script st =
     (case load_main st of
        Inl e \<Rightarrow> (st, [error_line e])
      | Inr main_ipc \<Rightarrow>
          (let out1 = ustr ''Main IPC loaded: '' @ py_str_nat (length main_ipc) @ ustr '' sections'' in
           case merge_loop st EXTENSION_PARTS main_ipc 0 of
             (out2, Inl e) \<Rightarrow> (st, out1 # out2 @ [error_line e])
           | (out2, Inr (merged, total_added)) \<Rightarrow>
               (let st' = save_json st MAIN_IPC merged;
                    out3 = [ustr ''Successfully merged. Total sections now: '' @ py_str_nat (length merged),
                            [10] @ ustr ''Verifying key sections:'']
                in case verify_loop merged CHECK_SECTIONS of
                     (out4, None) \<Rightarrow> (st', out1 # out2 @ out3 @ out4)
                   | (out4, Some e) \<Rightarrow> (st', out1 # out2 @ out3 @ out4 @ [error_line e]))))"

text \<open>A directory whose JSON objects have distinct keys, as \<open>json.load\<close> returns them.\<close>

definition wf_store :: "act_store \<Rightarrow> bool" where
  "wf_store st \<longleftrightarrow> (\<forall>p xs. st p = Some (Raw_act xs) \<longrightarrow> distinct (map fst xs))"

text \<open>The router's view of a file of the directory before the merge.\<close>

definition raw_map :: "act_store \<Rightarrow> ustr \<Rightarrow> (ustr \<rightharpoonup> statute) option" where
  "raw_map st p = (case st p of Some (Raw_act xs) \<Rightarrow> Some (map_of xs) | _ \<Rightarrow> None)"

subsection \<open>\<open>verify_ipc_format.py\<close>\<close>

text \<open>
  The printed lines and the exception that ends the script, if any. A missing section
  makes \<open>section_data\<close> \<open>None\<close>: \<open>json.dumps\<close> prints \<open>null\<close> and
  \<open>format_ipc_context\<close> fails on \<open>None.get\<close>. The \<open>UnicodeEncodeError\<close> fallback
  prints the same text (encoding to UTF-8 and decoding back is the identity).
\<close>

definition NONE_GET_ERROR :: py_error where
  "NONE_GET_ERROR = AttributeError ([39] @ ustr ''NoneType'' @ [39] @ ustr '' object has no attribute '' @ [39] @ ustr ''get'' @ [39])"

definition verify_ipc_format :: "(statute \<Rightarrow> ustr) \<Rightarrow> act_files \<Rightarrow> ustr list \<times> py_error option" where
  "verify_ipc_format json_dumps fs =
     (case load_section fs (ustr ''ipc'') (ustr ''302'') of
        Inl e \<Rightarrow> ([], Some e)
      | Inr None \<Rightarrow> ([ustr ''--- RAW JSON DATA ---'', ustr ''null''], Some NONE_GET_ERROR)
      | Inr (Some d) \<Rightarrow>
          (case format_ipc_context (ustr ''302'') d of
             Inl e \<Rightarrow> ([ustr ''--- RAW JSON DATA ---'', json_dumps d], Some e)
           | Inr formatted \<Rightarrow>
               ([ustr ''--- RAW JSON DATA ---'', json_dumps d, [10] @ ustr ''--- FORMATTED CONTEXT ---'', formatted],
                None)))"

text \<open>A sample directory: the main file and the first extension, which revises section 420.\<close>

definition statute_titled :: "ustr \<Rightarrow> statute" where
  "statute_titled t =
     \<lparr>title = Some t, legal_text = None, punishment = None, nature = None, practical_explanation = None,
      example = None, overlaps = None, legal_risk_level = None, next_steps = None, conclusion = None,
      disclaimer = None, other_keys = []\<rparr>"

definition sample_store :: act_store where
  "sample_store =
     [MAIN_IPC \<mapsto> Raw_act [(ustr ''420'', statute_titled (ustr ''Cheating''))],
      ustr ''acts/ipc_extension_part1.json'' \<mapsto>
        Raw_act [(ustr ''420'', statute_titled (ustr ''Cheating and dishonestly inducing delivery of property'')),
                 (ustr ''124A'', statute_titled (ustr ''Sedition''))]]"

subsection \<open>Properties\<close>

lemma map_of_dict_update:
  "distinct (map fst e) \<Longrightarrow> map_of (dict_update d e) = map_of d ++ map_of e"
proof (induction e arbitrary: d)
  case (Cons kv e)
  obtain k v where kv: "kv = (k, v)" by (cases kv)
  have "k \<notin> dom (map_of e)" using Cons.prems kv by (auto simp: dom_map_of_conv_image_fst)
  then show ?case
    using Cons kv by (auto simp: dict_update_def update_conv' fun_eq_iff map_add_def split: option.split)
qed (simp add: dict_update_def)

lemma distinct_dict_update:
  "distinct (map fst d) \<Longrightarrow> distinct (map fst (dict_update d e))"
  unfolding dict_update_def by (induction e arbitrary: d) (auto simp: distinct_update)

lemma snd_merge_loop_Cons:
  "snd (merge_loop st (part # parts) m t) =
     (if st part = None then snd (merge_loop st parts m t)
      else (case load_json st part of
              Inl e \<Rightarrow> Inl e
            | Inr data \<Rightarrow> snd (merge_loop st parts (dict_update m data) (t + length data))))"
  by (simp add: Let_def split: prod.split sum.split del: py_str_nat.simps)

lemma merge_loop_ok:
  assumes "wf_store st" "\<forall>p\<in>set parts. st p \<noteq> Some Raw_malformed" "distinct (map fst m)"
  shows "\<exists>m' t'. snd (merge_loop st parts m t) = Inr (m', t') \<and> distinct (map fst m') \<and>
           map_of m' = foldl (\<lambda>r p. case p of None \<Rightarrow> r | Some d \<Rightarrow> r ++ d) (map_of m) (map (raw_map st) parts)"
  using assms
proof (induction st parts m t rule: merge_loop.induct)
  case (2 st part parts m t)
  show ?case
  proof (cases "st part")
    case None
    then show ?thesis using 2 by (simp add: snd_merge_loop_Cons raw_map_def del: merge_loop.simps(2))
  next
    case (Some a)
    then obtain xs where xs: "st part = Some (Raw_act xs)" using "2.prems"(2) by (cases a) auto
    then have d: "distinct (map fst xs)" using "2.prems"(1) by (auto simp: wf_store_def)
    have "\<exists>m' t'. snd (merge_loop st parts (dict_update m xs) (t + length xs)) = Inr (m', t') \<and>
            distinct (map fst m') \<and>
            map_of m' = foldl (\<lambda>r p. case p of None \<Rightarrow> r | Some d \<Rightarrow> r ++ d) (map_of (dict_update m xs))
                          (map (raw_map st) parts)"
      using "2.prems" xs by (intro "2.IH"(2)) (auto simp: load_json_def distinct_dict_update)
    moreover have "raw_map st part = Some (map_of xs)" using xs by (simp add: raw_map_def)
    ultimately show ?thesis
      using xs d by (simp add: snd_merge_loop_Cons load_json_def map_of_dict_update
                               del: merge_loop.simps(2))
  qed
qed simp

lemma merge_loop_malformed:
  "\<exists>p\<in>set parts. st p = Some Raw_malformed \<Longrightarrow> snd (merge_loop st parts m t) = Inl JSONDecodeError"
proof (induction parts arbitrary: m t)
  case (Cons part parts)
  show ?case
  proof (cases "st part = Some Raw_malformed")
    case True
    then show ?thesis by (simp add: snd_merge_loop_Cons load_json_def del: merge_loop.simps(2))
  next
    case False
    then have "\<exists>p\<in>set parts. st p = Some Raw_malformed" using Cons.prems by auto
    then have "\<And>m t. snd (merge_loop st parts m t) = Inl JSONDecodeError" by (rule Cons.IH)
    then show ?thesis
      by (simp add: snd_merge_loop_Cons load_json_def split: option.split raw_act.split sum.split
               del: merge_loop.simps(2))
  qed
qed simp

lemma merge_ipc_script_saves:
  assumes "load_main st = Inr main_ipc"
    and "snd (merge_loop st EXTENSION_PARTS main_ipc 0) = Inr (merged, t)"
  shows "fst (merge_ipc_script st) = save_json st MAIN_IPC merged"
proof -
  obtain out2 where "merge_loop st EXTENSION_PARTS main_ipc 0 = (out2, Inr (merged, t))"
    using assms(2) by (cases "merge_loop st EXTENSION_PARTS main_ipc 0") simp
  then show ?thesis
    using assms(1) by (simp add: merge_ipc_script_def Let_def split: prod.split option.split del: py_str_nat.simps)
qed

lemma merge_ipc_script_main:
  assumes "wf_store st" "st MAIN_IPC \<noteq> Some Raw_malformed"
  obtains main_ipc where "load_main st = Inr main_ipc"
    "distinct (map fst main_ipc)" "map_of main_ipc = (case raw_map st MAIN_IPC of None \<Rightarrow> Map.empty | Some m \<Rightarrow> m)"
proof (cases "st MAIN_IPC")
  case None
  then show thesis by (intro that[of "[]"]) (simp_all add: raw_map_def load_main_def)
next
  case (Some a)
  then obtain xs where "st MAIN_IPC = Some (Raw_act xs)" using assms(2) by (cases a) auto
  then show thesis
    using assms(1) by (intro that[of xs]) (auto simp: load_main_def load_json_def raw_map_def wf_store_def)
qed

text \<open>
  C31. The merge feeds the router: on a directory whose files all parse, running
  \<open>merge_ipc.py\<close> leaves \<open>acts/ipc.json\<close> such that \<open>load_section\<close> of the
  router answers every IPC section with the entry of the merge of the main file and the
  extension parts that exist, in order (\<open>merge_parts\<close>: the last part defining a
  section wins).
\<close>

theorem merge_ipc_script_loads:
  assumes wf: "wf_store st" and ok: "\<forall>p\<in>set (MAIN_IPC # EXTENSION_PARTS). st p \<noteq> Some Raw_malformed"
  shows "load_section (act_view (fst (merge_ipc_script st))) (ustr ''ipc'') sec =
           Inr (merge_parts (raw_map st MAIN_IPC) (map (raw_map st) EXTENSION_PARTS) sec)"
proof -
  obtain main_ipc where m: "load_main st = Inr main_ipc"
    "distinct (map fst main_ipc)" "map_of main_ipc = (case raw_map st MAIN_IPC of None \<Rightarrow> Map.empty | Some m \<Rightarrow> m)"
    using merge_ipc_script_main[OF wf] ok by auto
  obtain merged t where l: "snd (merge_loop st EXTENSION_PARTS main_ipc 0) = Inr (merged, t)"
    and mm: "map_of merged = foldl (\<lambda>r p. case p of None \<Rightarrow> r | Some d \<Rightarrow> r ++ d) (map_of main_ipc)
                               (map (raw_map st) EXTENSION_PARTS)"
    using merge_loop_ok[OF wf _ m(2), of EXTENSION_PARTS 0] ok by auto
  have "act_path (ustr ''ipc'') = MAIN_IPC" by (simp add: act_path_def MAIN_IPC_def)
  then show ?thesis
    using merge_ipc_script_saves[OF m(1) l] mm m(3)
    by (simp add: load_section_def act_view_def save_json_def merge_parts_def)
qed

text \<open>
  C32. A file that does not parse aborts the script: when the main file or an existing
  extension part is malformed, the directory is left unchanged and the last line
  printed is \<open>Error: \<close> with the decoder's message.
\<close>

theorem merge_ipc_script_malformed:
  "\<exists>p\<in>set (MAIN_IPC # EXTENSION_PARTS). st p = Some Raw_malformed \<Longrightarrow>
   fst (merge_ipc_script st) = st \<and> last (snd (merge_ipc_script st)) = ustr ''Error: Expecting value''"
proof (cases "st MAIN_IPC = Some Raw_malformed")
  case True
  then show ?thesis
    by (simp add: merge_ipc_script_def load_main_def load_json_def error_line_def del: py_str_nat.simps)
next
  case False
  assume "\<exists>p\<in>set (MAIN_IPC # EXTENSION_PARTS). st p = Some Raw_malformed"
  then have l: "snd (merge_loop st EXTENSION_PARTS m t) = Inl JSONDecodeError" for m t
    using False by (intro merge_loop_malformed) auto
  obtain main_ipc where m: "load_main st = Inr main_ipc"
  proof (cases "st MAIN_IPC")
    case None
    then show thesis by (intro that[of "[]"]) (simp add: load_main_def)
  next
    case (Some a)
    then obtain xs where "st MAIN_IPC = Some (Raw_act xs)" using False by (cases a) auto
    then show thesis by (intro that[of xs]) (simp add: load_main_def load_json_def)
  qed
  obtain out2 where "merge_loop st EXTENSION_PARTS main_ipc 0 = (out2, Inl JSONDecodeError)"
    using l[of main_ipc 0] by (cases "merge_loop st EXTENSION_PARTS main_ipc 0") simp
  then show ?thesis
    using m by (simp add: merge_ipc_script_def error_line_def Let_def del: py_str_nat.simps)
qed

lemma merge_ipc_script_report:
  assumes "load_main st = Inr main_ipc" and "snd (merge_loop st EXTENSION_PARTS main_ipc 0) = Inr (merged, t)"
  shows "ustr ''Successfully merged. Total sections now: '' @ py_str_nat (length merged) \<in> set (snd (merge_ipc_script st))"
proof -
  obtain out2 where "merge_loop st EXTENSION_PARTS main_ipc 0 = (out2, Inr (merged, t))"
    using assms(2) by (cases "merge_loop st EXTENSION_PARTS main_ipc 0") simp
  then show ?thesis
    using assms(1) by (simp add: merge_ipc_script_def Let_def split: prod.split option.split del: py_str_nat.simps)
qed

text \<open>
  The report counts sections, not entries read: on a directory whose files all
  parse, the script prints the number of distinct section numbers of the merged act
  (\<open>len(main_ipc)\<close> after the updates); \<open>total_added\<close>, which counts every entry
  of every part, is never printed.
\<close>

theorem merge_ipc_script_total:
  assumes wf: "wf_store st" and ok: "\<forall>p\<in>set (MAIN_IPC # EXTENSION_PARTS). st p \<noteq> Some Raw_malformed"
  shows "ustr ''Successfully merged. Total sections now: '' @
           py_str_nat (card (dom (merge_parts (raw_map st MAIN_IPC) (map (raw_map st) EXTENSION_PARTS))))
         \<in> set (snd (merge_ipc_script st))"
proof -
  obtain main_ipc where m: "load_main st = Inr main_ipc"
    "distinct (map fst main_ipc)" "map_of main_ipc = (case raw_map st MAIN_IPC of None \<Rightarrow> Map.empty | Some m \<Rightarrow> m)"
    using merge_ipc_script_main[OF wf] ok by auto
  obtain merged t where l: "snd (merge_loop st EXTENSION_PARTS main_ipc 0) = Inr (merged, t)"
    and d: "distinct (map fst merged)"
    and mm: "map_of merged = foldl (\<lambda>r p. case p of None \<Rightarrow> r | Some d \<Rightarrow> r ++ d) (map_of main_ipc)
                               (map (raw_map st) EXTENSION_PARTS)"
    using merge_loop_ok[OF wf _ m(2), of EXTENSION_PARTS 0] ok by auto
  have "merge_parts (raw_map st MAIN_IPC) (map (raw_map st) EXTENSION_PARTS) = map_of merged"
    using mm m(3) by (simp add: merge_parts_def)
  moreover have "card (dom (map_of merged)) = length merged"
    using distinct_card[OF d] by (simp add: dom_map_of_conv_image_fst)
  ultimately have "card (dom (merge_parts (raw_map st MAIN_IPC) (map (raw_map st) EXTENSION_PARTS))) = length merged"
    by simp
  then show ?thesis using merge_ipc_script_report[OF m(1) l] by simp
qed

theorem merge_ipc_script_loads_witness:
  "load_section (act_view (fst (merge_ipc_script sample_store))) (ustr ''ipc'') (ustr ''420'') =
     Inr (Some (statute_titled (ustr ''Cheating and dishonestly inducing delivery of property'')))"
proof -
  have wf: "wf_store sample_store"
    by (simp add: wf_store_def sample_store_def MAIN_IPC_def)
  have ok: "\<forall>p\<in>set (MAIN_IPC # EXTENSION_PARTS). sample_store p \<noteq> Some Raw_malformed"
    by (simp add: sample_store_def MAIN_IPC_def EXTENSION_PARTS_def)
  have r: "merge_parts (raw_map sample_store MAIN_IPC) (map (raw_map sample_store) EXTENSION_PARTS) (ustr ''420'') =
           Some (statute_titled (ustr ''Cheating and dishonestly inducing delivery of property''))"
    by (simp add: merge_parts_def raw_map_def sample_store_def MAIN_IPC_def EXTENSION_PARTS_def)
  show ?thesis
    by (simp only: merge_ipc_script_loads[OF wf ok] r)
qed

theorem merge_ipc_script_malformed_witness:
  "fst (merge_ipc_script (sample_store(ustr ''acts/ipc_extension_part2.json'' \<mapsto> Raw_malformed))) =
     sample_store(ustr ''acts/ipc_extension_part2.json'' \<mapsto> Raw_malformed) \<and>
   last (snd (merge_ipc_script (sample_store(ustr ''acts/ipc_extension_part2.json'' \<mapsto> Raw_malformed)))) =
     ustr ''Error: Expecting value''"
  by (rule merge_ipc_script_malformed) (simp add: EXTENSION_PARTS_def)

theorem merge_ipc_script_total_witness:
  "ustr ''Successfully merged. Total sections now: 2'' \<in> set (snd (merge_ipc_script sample_store))"
proof -
  have wf: "wf_store sample_store"
    by (simp add: wf_store_def sample_store_def MAIN_IPC_def)
  have ok: "\<forall>p\<in>set (MAIN_IPC # EXTENSION_PARTS). sample_store p \<noteq> Some Raw_malformed"
    by (simp add: sample_store_def MAIN_IPC_def EXTENSION_PARTS_def)
  have c: "card (dom (merge_parts (raw_map sample_store MAIN_IPC) (map (raw_map sample_store) EXTENSION_PARTS))) = 2"
    by (simp add: merge_parts_def raw_map_def sample_store_def MAIN_IPC_def EXTENSION_PARTS_def)
  show ?thesis using merge_ipc_script_total[OF wf ok] c by simp
qed

text \<open>
  \<open>verify_ipc_format.py\<close> crashes on a store without section 302 (it never checks for
  \<open>None\<close>), and otherwise prints exactly the block the router sends to the model.
\<close>

lemma verify_ipc_format_cases:
  "load_section fs (ustr ''ipc'') (ustr ''302'') = Inr None \<Longrightarrow>
     snd (verify_ipc_format dumps fs) = Some NONE_GET_ERROR"
  "load_section fs (ustr ''ipc'') (ustr ''302'') = Inr (Some d) \<Longrightarrow> format_ipc_context (ustr ''302'') d = Inr c \<Longrightarrow>
     verify_ipc_format dumps fs =
       ([ustr ''--- RAW JSON DATA ---'', dumps d, [10] @ ustr ''--- FORMATTED CONTEXT ---'', c], None)"
  by (simp_all add: verify_ipc_format_def)

end
