(* ===== verification/Accounts.thy ===== *)
theory Accounts
  imports Prelude
begin

text \<open>
  The user accounts of \<open>src/Backend\<close>. The \<open>users\<close> table of
  \<open>Schema/model.py\<close> is a list of rows in id order with the id sequence beside it
  (\<open>user_db\<close>); the database is PostgreSQL, whose \<open>VARCHAR(n)\<close> limits, unique
  e-mail constraint \<open>users_email_key\<close> and non-transactional id sequence the
  operations observe. The DAO of \<open>db/db.py\<close>, the service of
  \<open>Service/authenticationService.py\<close> and the handlers of
  \<open>routes/authenticator.py\<close> return the new table beside their result. Password
  hashing is symbolic: \<open>pbkdf2_sha256.hash\<close> with a fresh salt gives
  \<open>Pbkdf2 salt password\<close>, and verification compares the password (a stored value
  that is no such hash makes \<open>verify\<close> raise, which \<open>verify_password\<close> turns into
  \<open>False\<close>).
\<close>

datatype user_role = Advocate | Client

datatype pwd_hash = Pbkdf2 nat ustr | Opaque_hash ustr

record user =
  uid :: nat
  name :: ustr
  email :: ustr
  phone :: "ustr option"
  password_hash :: pwd_hash
  role :: user_role
  is_verified_Advocate :: bool
  created_at :: nat
  area :: "ustr option"
  aadhar :: "ustr option"
  cost_preferences :: "ustr option"

record user_db =
  users :: "user list"
  next_id :: nat

definition init_db :: user_db where
  "init_db = \<lparr>users = [], next_id = 1\<rparr>"

text \<open>\<open>UserRole.value\<close>.\<close>

fun role_value :: "user_role \<Rightarrow> ustr" where
  "role_value Advocate = ustr ''Advocate''"
| "role_value Client = ustr ''Client''"

subsection \<open>Table constraints\<close>

definition opt_fits :: "nat \<Rightarrow> ustr option \<Rightarrow> bool" where
  "opt_fits n v = (case v of None \<Rightarrow> True | Some s \<Rightarrow> length s \<le> n)"

text \<open>The \<open>String(n)\<close> column limits (the hash string is always short enough).\<close>

definition column_fits :: "user \<Rightarrow> bool" where
  "column_fits u \<longleftrightarrow>
     length (name u) \<le> 100 \<and> length (email u) \<le> 150 \<and> opt_fits 20 (phone u) \<and>
     opt_fits 50 (area u) \<and> opt_fits 20 (aadhar u) \<and> opt_fits 100 (cost_preferences u)"

definition email_taken :: "user list \<Rightarrow> ustr \<Rightarrow> bool" where
  "email_taken us e = list_ex (\<lambda>x. email x = e) us"

subsection \<open>\<open>User_DAO\<close>\<close>

text \<open>
  \<open>add_user\<close>: the insert draws the next id from the sequence, then the row is
  checked against the column limits and the unique e-mail; a failure rolls the
  transaction back (the sequence value stays used) and re-raises.
\<close>

definition add_user :: "user_db \<Rightarrow> user \<Rightarrow> user_db \<times> (py_error + user)" where
  "add_user db u =
     (let u' = u\<lparr>uid := next_id db\<rparr>; db1 = db\<lparr>next_id := Suc (next_id db)\<rparr> in
      if \<not> column_fits u' then (db1, Inl (DataError (ustr ''value too long'')))
      else if email_taken (users db) (email u') then (db1, Inl (IntegrityError (ustr ''users_email_key'')))
      else (db1\<lparr>users := users db @ [u']\<rparr>, Inr u'))"

definition is_user_present :: "user_db \<Rightarrow> ustr \<Rightarrow> user option" where
  "is_user_present db e = find (\<lambda>x. email x = e) (users db)"

definition get_user_by_id :: "user_db \<Rightarrow> nat \<Rightarrow> user option" where
  "get_user_by_id db i = find (\<lambda>x. uid x = i) (users db)"

definition replace_row :: "user \<Rightarrow> user list \<Rightarrow> user list" where
  "replace_row u' us = map (\<lambda>x. if uid x = uid u' then u' else x) us"

definition verify_user :: "user_db \<Rightarrow> nat \<Rightarrow> user_db \<times> user option" where
  "verify_user db i =
     (case find (\<lambda>x. uid x = i \<and> role x = Advocate) (users db) of
        None \<Rightarrow> (db, None)
      | Some u \<Rightarrow>
          (let u' = u\<lparr>is_verified_Advocate := True\<rparr>
           in (db\<lparr>users := replace_row u' (users db)\<rparr>, Some u')))"

text \<open>
  \<open>update_user\<close> copies name, e-mail, phone, role and hash onto the stored row and
  commits; an e-mail held by another row violates \<open>users_email_key\<close> and becomes
  \<open>ValueError("Email already exists")\<close>; a value too long for its column is a
  \<open>DataError\<close>, not an \<open>IntegrityError\<close>, and escapes the handler.
\<close>

definition update_user :: "user_db \<Rightarrow> user \<Rightarrow> user_db \<times> (py_error + user)" where
  "update_user db u =
     (case get_user_by_id db (uid u) of
        None \<Rightarrow> (db, Inl (ValueError (ustr ''User with id='' @ py_str_nat (uid u) @ ustr '' does not exist'')))
      | Some existing \<Rightarrow>
          (let ex' = existing\<lparr>name := name u, email := email u, phone := phone u, role := role u,
                               password_hash := password_hash u\<rparr>
           in if \<not> column_fits ex' then (db, Inl (DataError (ustr ''value too long'')))
              else if email_taken (filter (\<lambda>x. uid x \<noteq> uid ex') (users db)) (email ex')
              then (db, Inl (ValueError (ustr ''Email already exists'')))
              else (db\<lparr>users := replace_row ex' (users db)\<rparr>, Inr ex')))"

subsection \<open>\<open>Authenticator\<close>\<close>

definition hash_password :: "nat \<Rightarrow> ustr \<Rightarrow> pwd_hash" where
  "hash_password salt password = Pbkdf2 salt password"

fun verify_password :: "ustr \<Rightarrow> pwd_hash \<Rightarrow> bool" where
  "verify_password password (Pbkdf2 salt p) = (password = p)"
| "verify_password password (Opaque_hash h) = False"

definition create_user ::
  "user_db \<Rightarrow> nat \<Rightarrow> nat \<Rightarrow> ustr \<Rightarrow> ustr \<Rightarrow> ustr \<Rightarrow> ustr \<Rightarrow> ustr option \<Rightarrow> ustr option \<Rightarrow>
   ustr option \<Rightarrow> user_db \<times> (py_error + user)" where
  "create_user db salt now nm em ph password ar aad cost =
     add_user db \<lparr>uid = 0, name = nm, email = em, phone = Some ph,
       password_hash = hash_password salt password, role = Client, is_verified_Advocate = False,
       created_at = now, area = ar, aadhar = aad, cost_preferences = cost\<rparr>"

definition user_exists :: "user_db \<Rightarrow> ustr \<Rightarrow> bool" where
  "user_exists db e \<longleftrightarrow> is_user_present db e \<noteq> None"

definition check_login :: "user_db \<Rightarrow> ustr \<Rightarrow> ustr \<Rightarrow> user option" where
  "check_login db e password =
     (case is_user_present db e of
        None \<Rightarrow> None
      | Some u \<Rightarrow> if verify_password password (password_hash u) then Some u else None)"

subsection \<open>Routes\<close>

record login_model =
  lm_email :: ustr
  lm_password :: ustr

record register_model =
  rm_name :: ustr
  rm_region :: ustr
  rm_email :: ustr
  rm_phone :: ustr
  rm_password :: ustr
  rm_aadhar :: ustr
  rm_cost_preferences :: ustr

text \<open>The JSON body the login and register handlers return.\<close>

record account_view =
  av_id :: nat
  av_name :: ustr
  av_email :: ustr
  av_phone :: "ustr option"
  av_role :: ustr
  av_is_verified_Advocate :: bool

definition account_view_of :: "user \<Rightarrow> account_view" where
  "account_view_of u =
     \<lparr>av_id = uid u, av_name = name u, av_email = email u, av_phone = phone u,
      av_role = role_value (role u), av_is_verified_Advocate = is_verified_Advocate u\<rparr>"

definition login :: "user_db \<Rightarrow> login_model \<Rightarrow> account_view http_result" where
  "login db req =
     (case check_login db (lm_email req) (lm_password req) of
        None \<Rightarrow> Inl (HTTPException 401 (ustr ''Invalid email or password''))
      | Some u \<Rightarrow> Inr (account_view_of u))"

definition register ::
  "user_db \<Rightarrow> nat \<Rightarrow> nat \<Rightarrow> register_model \<Rightarrow> user_db \<times> account_view http_result" where
  "register db salt now req =
     (if user_exists db (rm_email req)
      then (db, Inl (HTTPException 400 (ustr ''User already exists'')))
      else (case create_user db salt now (rm_name req) (rm_email req) (rm_phone req) (rm_password req)
                   (Some (rm_region req)) (Some (rm_aadhar req)) (Some (rm_cost_preferences req)) of
              (db', Inl e) \<Rightarrow> (db', Inl (HTTPException 500 (ustr ''Error: '' @ py_error_msg e)))
            | (db', Inr u) \<Rightarrow> (db', Inr (account_view_of u))))"

record profile_view =
  pv_id :: nat
  pv_name :: ustr
  pv_email :: ustr
  pv_phone :: "ustr option"
  pv_role :: ustr
  pv_area :: "ustr option"
  pv_aadhar :: "ustr option"
  pv_cost_preferences :: "ustr option"
  pv_created_at :: "nat option"

definition get_profile :: "user_db \<Rightarrow> nat \<Rightarrow> profile_view http_result" where
  "get_profile db user_id =
     (case get_user_by_id db user_id of
        None \<Rightarrow> Inl (HTTPException 404 (ustr ''User not found''))
      | Some u \<Rightarrow> Inr \<lparr>pv_id = uid u, pv_name = name u, pv_email = email u, pv_phone = phone u,
                      pv_role = role_value (role u), pv_area = area u, pv_aadhar = aadhar u,
                      pv_cost_preferences = cost_preferences u, pv_created_at = Some (created_at u)\<rparr>)"

subsection \<open>Operations and reachable tables\<close>

text \<open>
  The state-changing calls: the three routes, and the two DAO operations no route
  calls (\<open>verify_user\<close>, \<open>update_user\<close>). Each request brings the salt and the
  clock value it uses.
\<close>

datatype account_op =
    Op_register nat nat register_model
  | Op_login login_model
  | Op_profile nat
  | Op_verify_user nat
  | Op_update_user user

fun account_step :: "user_db \<Rightarrow> account_op \<Rightarrow> user_db" where
  "account_step db (Op_register salt now req) = fst (register db salt now req)"
| "account_step db (Op_login req) = db"
| "account_step db (Op_profile i) = db"
| "account_step db (Op_verify_user i) = fst (verify_user db i)"
| "account_step db (Op_update_user u) = fst (update_user db u)"

fun route_op :: "account_op \<Rightarrow> bool" where
  "route_op (Op_register salt now req) = True"
| "route_op (Op_login req) = True"
| "route_op (Op_profile i) = True"
| "route_op (Op_verify_user i) = False"
| "route_op (Op_update_user u) = False"

inductive reachable_db :: "user_db \<Rightarrow> bool" where
  init: "reachable_db init_db"
| step: "reachable_db db \<Longrightarrow> reachable_db (account_step db op)"

inductive route_reachable :: "user_db \<Rightarrow> bool" where
  init: "route_reachable init_db"
| step: "route_reachable db \<Longrightarrow> route_op op \<Longrightarrow> route_reachable (account_step db op)"


text \<open>
  The table invariant the operations keep: ids increase along the table (the
  sequence only grows), e-mails are unique (\<open>users_email_key\<close>), every id was drawn
  from the sequence, and every row fits its columns.
\<close>

definition wf_db :: "user_db \<Rightarrow> bool" where
  "wf_db db \<longleftrightarrow>
     sorted_wrt (<) (map uid (users db)) \<and> distinct (map email (users db)) \<and>
     list_all (\<lambda>u. uid u < next_id db) (users db) \<and> list_all column_fits (users db)"

text \<open>Every account is an unverified client.\<close>

definition clients_only :: "user_db \<Rightarrow> bool" where
  "clients_only db \<longleftrightarrow> list_all (\<lambda>u. role u = Client \<and> \<not> is_verified_Advocate u) (users db)"


text \<open>A registration request used by the examples below.\<close>

definition sample_registration :: register_model where
  "sample_registration =
     \<lparr>rm_name = ustr ''Asha Rao'', rm_region = ustr ''Pune'', rm_email = ustr ''asha@example.in'',
      rm_phone = ustr ''9800000000'', rm_password = ustr ''s3cret'', rm_aadhar = ustr ''123412341234'',
      rm_cost_preferences = ustr ''low''\<rparr>"

subsection \<open>The table invariant\<close>

lemma map_uid_replace_row [simp]: "map uid (replace_row u' us) = map uid us"
  by (induction us) (auto simp: replace_row_def)

lemma replace_row_Nil [simp]: "replace_row u' [] = []"
  and replace_row_Cons [simp]:
  "replace_row u' (x # xs) = (if uid x = uid u' then u' else x) # replace_row u' xs"
  by (simp_all add: replace_row_def)

lemma set_replace_row:
  "v \<in> set (replace_row u' us) \<Longrightarrow> v = u' \<or> (v \<in> set us \<and> uid v \<noteq> uid u')"
  by (auto simp: replace_row_def split: if_splits)

lemma replace_row_absent: "uid u' \<notin> uid ` set us \<Longrightarrow> replace_row u' us = us"
  by (induction us) (auto simp: replace_row_def)

lemma distinct_email_replace_row:
  "distinct (map uid us) \<Longrightarrow> distinct (map email us) \<Longrightarrow>
   \<not> email_taken (filter (\<lambda>x. uid x \<noteq> uid u') us) (email u') \<Longrightarrow>
   distinct (map email (replace_row u' us))"
proof (induction us)
  case Nil
  then show ?case by (simp add: replace_row_def)
next
  case (Cons x xs)
  show ?case
  proof (cases "uid x = uid u'")
    case True
    then have "replace_row u' xs = xs" using Cons.prems(1) by (intro replace_row_absent) auto
    moreover have "email u' \<notin> email ` set xs"
    proof
      assume "email u' \<in> email ` set xs"
      then obtain y where y: "y \<in> set xs" "email y = email u'" by auto
      have "uid y \<noteq> uid u'" using Cons.prems(1) True y(1) by (metis distinct.simps(2) image_eqI list.simps(9) set_map)
      then show False using Cons.prems(3) y by (auto simp: email_taken_def list_ex_iff)
    qed
    ultimately show ?thesis using Cons.prems True by simp
  next
    case False
    have ih: "distinct (map email (replace_row u' xs))"
      using Cons False by (auto simp: email_taken_def)
    have "email x \<notin> email ` set (replace_row u' xs)"
      using Cons.prems False by (auto dest!: set_replace_row simp: email_taken_def)
    then show ?thesis using ih False by simp
  qed
qed

lemma list_all_replace_row:
  "list_all P us \<Longrightarrow> P u' \<Longrightarrow> list_all P (replace_row u' us)"
  by (auto simp: list_all_iff dest!: set_replace_row)

lemma email_not_taken_self:
  "distinct (map email us) \<Longrightarrow> u \<in> set us \<Longrightarrow> \<not> email_taken (filter (\<lambda>x. uid x \<noteq> uid u) us) (email u)"
  by (auto simp: email_taken_def list_ex_iff distinct_map inj_on_def)

lemma wf_add_user: "wf_db db \<Longrightarrow> wf_db (fst (add_user db u))"
  by (auto simp: wf_db_def add_user_def Let_def sorted_wrt_append list_all_iff email_taken_def list_ex_iff)

lemma sorted_wrt_distinct_uid: "sorted_wrt (<) (map uid us) \<Longrightarrow> distinct (map uid us)"
  by (metis strict_sorted_iff)

lemma wf_verify_user: "wf_db db \<Longrightarrow> wf_db (fst (verify_user db i))"
proof -
  assume wf: "wf_db db"
  show ?thesis
  proof (cases "find (\<lambda>x. uid x = i \<and> role x = Advocate) (users db)")
    case None
    then show ?thesis using wf by (simp add: verify_user_def)
  next
    case (Some u)
    let ?u' = "u\<lparr>is_verified_Advocate := True\<rparr>"
    have u: "u \<in> set (users db)" "uid u = i" using Some by (auto simp: find_Some_iff)
    have "\<not> email_taken (filter (\<lambda>x. uid x \<noteq> uid ?u') (users db)) (email ?u')"
      using email_not_taken_self[OF _ u(1)] wf by (simp add: wf_db_def)
    then have "distinct (map email (replace_row ?u' (users db)))"
      using wf by (intro distinct_email_replace_row) (auto simp: wf_db_def sorted_wrt_distinct_uid)
    moreover have "list_all (\<lambda>v. uid v < next_id db) (replace_row ?u' (users db))"
      using wf u by (intro list_all_replace_row) (auto simp: wf_db_def list_all_iff)
    moreover have "list_all column_fits (replace_row ?u' (users db))"
      using wf u by (intro list_all_replace_row) (auto simp: wf_db_def list_all_iff column_fits_def)
    ultimately show ?thesis using wf Some by (simp add: verify_user_def wf_db_def Let_def)
  qed
qed

lemma wf_update_user: "wf_db db \<Longrightarrow> wf_db (fst (update_user db u))"
proof -
  assume wf: "wf_db db"
  show ?thesis
  proof (cases "get_user_by_id db (uid u)")
    case None
    then show ?thesis using wf by (simp add: update_user_def)
  next
    case (Some ex)
    let ?ex' = "ex\<lparr>name := name u, email := email u, phone := phone u, role := role u,
                   password_hash := password_hash u\<rparr>"
    have ex: "ex \<in> set (users db)" "uid ex = uid u" using Some by (auto simp: get_user_by_id_def find_Some_iff)
    show ?thesis
    proof (cases "column_fits ?ex' \<and> \<not> email_taken (filter (\<lambda>x. uid x \<noteq> uid ?ex') (users db)) (email ?ex')")
      case True
      then have "distinct (map email (replace_row ?ex' (users db)))"
        using wf by (intro distinct_email_replace_row) (auto simp: wf_db_def sorted_wrt_distinct_uid)
      moreover have "list_all (\<lambda>v. uid v < next_id db) (replace_row ?ex' (users db))"
        using wf ex by (intro list_all_replace_row) (auto simp: wf_db_def list_all_iff)
      moreover have "list_all column_fits (replace_row ?ex' (users db))"
        using wf True by (intro list_all_replace_row) (auto simp: wf_db_def)
      ultimately show ?thesis using wf Some True by (simp add: update_user_def wf_db_def Let_def)
    next
      case False
      then show ?thesis using wf Some by (auto simp: update_user_def Let_def)
    qed
  qed
qed

lemma fst_register:
  "fst (register db salt now req) =
     (if user_exists db (rm_email req) then db
      else fst (create_user db salt now (rm_name req) (rm_email req) (rm_phone req) (rm_password req)
                  (Some (rm_region req)) (Some (rm_aadhar req)) (Some (rm_cost_preferences req))))"
  by (auto simp: register_def split: prod.splits sum.splits)

text \<open>
  Every operation on the accounts table, each route handler and each DAO
  operation, on every branch including its errors, keeps the table invariant: ids
  strictly increasing and below the sequence, unique e-mails, every row within its
  column limits.
\<close>

theorem wf_account_step: "wf_db db \<Longrightarrow> wf_db (account_step db op)"
  by (cases op) (auto simp: fst_register create_user_def wf_add_user wf_verify_user wf_update_user)

lemma reachable_wf: "reachable_db db \<Longrightarrow> wf_db db"
proof (induction rule: reachable_db.induct)
  case init
  then show ?case by (simp add: wf_db_def init_db_def)
next
  case (step db op)
  then show ?case
    by (cases op) (auto simp: fst_register create_user_def wf_add_user wf_verify_user wf_update_user)
qed

lemma route_reachable_reachable: "route_reachable db \<Longrightarrow> reachable_db db"
  by (induction rule: route_reachable.induct) (auto intro: reachable_db.intros)

lemma clients_only_add_user:
  "clients_only db \<Longrightarrow> role u = Client \<Longrightarrow> \<not> is_verified_Advocate u \<Longrightarrow>
   clients_only (fst (add_user db u))"
  by (auto simp: clients_only_def add_user_def Let_def)

lemma clients_only_route_step: "clients_only db \<Longrightarrow> route_op op \<Longrightarrow> clients_only (account_step db op)"
  by (cases op) (auto simp: fst_register create_user_def clients_only_add_user)

lemma route_reachable_clients_only: "route_reachable db \<Longrightarrow> clients_only db"
  by (induction rule: route_reachable.induct)
     (simp_all add: clients_only_route_step, simp add: clients_only_def init_db_def)

text \<open>
  C9. No route creates an advocate: registration always stores an unverified client,
  so on every table the route handlers can reach, \<open>verify_user\<close> finds no advocate
  and changes nothing.
\<close>

theorem route_reachable_no_advocate: "route_reachable db \<Longrightarrow> verify_user db i = (db, None)"
proof -
  assume "route_reachable db"
  then have "clients_only db" by (rule route_reachable_clients_only)
  then have "find (\<lambda>x. uid x = i \<and> role x = Advocate) (users db) = None"
    by (auto simp: clients_only_def list_all_iff find_None_iff)
  then show ?thesis by (simp add: verify_user_def)
qed

lemma find_email_append_new:
  "find (\<lambda>x. email x = e) us = None \<Longrightarrow> email u = e \<Longrightarrow> find (\<lambda>x. email x = e) (us @ [u]) = Some u"
  by (induction us) auto

subsection \<open>Registration and login\<close>

lemma register_Inr:
  assumes "register db salt now req = (db', Inr v)"
  obtains u where "\<not> user_exists db (rm_email req)" "users db' = users db @ [u]"
    "next_id db' = Suc (next_id db)" "v = account_view_of u" "uid u = next_id db"
    "email u = rm_email req" "password_hash u = Pbkdf2 salt (rm_password req)"
    "role u = Client" "\<not> is_verified_Advocate u"
proof -
  define u where "u = \<lparr>uid = next_id db, name = rm_name req, email = rm_email req,
    phone = Some (rm_phone req), password_hash = Pbkdf2 salt (rm_password req), role = Client,
    is_verified_Advocate = False, created_at = now, area = Some (rm_region req),
    aadhar = Some (rm_aadhar req), cost_preferences = Some (rm_cost_preferences req)\<rparr>"
  have "\<not> user_exists db (rm_email req) \<and> db' = \<lparr>users = users db @ [u], next_id = Suc (next_id db)\<rparr> \<and>
        v = account_view_of u"
    using assms
    by (auto simp: register_def create_user_def add_user_def hash_password_def Let_def u_def
             split: if_splits prod.splits sum.splits)
  then show thesis by (intro that[of u]) (auto simp: u_def)
qed

text \<open>
  C6. A successful registration followed by a login with the same e-mail and password
  succeeds and returns the same account body.
\<close>

theorem register_login_roundtrip:
  "register db salt now req = (db', Inr v) \<Longrightarrow>
   login db' \<lparr>lm_email = rm_email req, lm_password = rm_password req\<rparr> = Inr v"
proof -
  assume r: "register db salt now req = (db', Inr v)"
  then obtain u where u: "\<not> user_exists db (rm_email req)" "email u = rm_email req"
    "password_hash u = Pbkdf2 salt (rm_password req)"
    "users db' = users db @ [u]" "v = account_view_of u"
    by (rule register_Inr) auto
  then have "is_user_present db' (rm_email req) = Some u"
    by (simp add: user_exists_def is_user_present_def find_email_append_new)
  then show ?thesis using u by (simp add: login_def check_login_def)
qed

text \<open>
  C11. After a successful registration, any registration with the same e-mail is
  refused with status 400 and leaves the table unchanged.
\<close>

theorem register_twice:
  "register db salt now req = (db', Inr v) \<Longrightarrow> rm_email req' = rm_email req \<Longrightarrow>
   register db' salt' now' req' = (db', Inl (HTTPException 400 (ustr ''User already exists'')))"
proof -
  assume r: "register db salt now req = (db', Inr v)" and e: "rm_email req' = rm_email req"
  from r obtain u where u: "\<not> user_exists db (rm_email req)" "email u = rm_email req" "users db' = users db @ [u]"
    by (rule register_Inr) auto
  then have "user_exists db' (rm_email req')"
    using e by (simp add: user_exists_def is_user_present_def find_email_append_new)
  then show ?thesis by (simp add: register_def)
qed

lemma find_distinct_key:
  "distinct (map f xs) \<Longrightarrow> x \<in> set xs \<Longrightarrow> find (\<lambda>y. f y = f x) xs = Some x"
  by (induction xs) (auto simp: image_iff)

text \<open>
  C7. On every reachable table, a login with the e-mail of a stored account succeeds
  exactly when the password verifies against that account's hash, and otherwise
  fails with status 401 (unique e-mails make the account found the right one).
\<close>

theorem login_reachable:
  assumes "reachable_db db" and "u \<in> set (users db)"
  shows "login db \<lparr>lm_email = email u, lm_password = pw\<rparr> =
           (if verify_password pw (password_hash u) then Inr (account_view_of u)
            else Inl (HTTPException 401 (ustr ''Invalid email or password'')))"
proof -
  have "distinct (map email (users db))" using reachable_wf[OF assms(1)] by (simp add: wf_db_def)
  then have "is_user_present db (email u) = Some u"
    using assms(2) by (simp add: is_user_present_def find_distinct_key)
  then show ?thesis by (simp add: login_def check_login_def)
qed

text \<open>
  C8. A successful login returns the body of a stored account whose e-mail is the one
  given and whose hash the given password verifies.
\<close>

theorem login_sound:
  "login db req = Inr v \<Longrightarrow>
   list_ex (\<lambda>u. email u = lm_email req \<and> verify_password (lm_password req) (password_hash u) \<and>
                v = account_view_of u) (users db)"
  by (auto simp: login_def check_login_def is_user_present_def list_ex_iff find_Some_iff
           split: option.splits if_splits)

text \<open>
  C12. A failed registration stores no row. Either the e-mail was taken (status 400,
  table unchanged), or the insert failed (status 500 carrying the database message),
  and then the id drawn from the sequence is used up, leaving a gap in the ids.
\<close>

theorem register_error:
  "register db salt now req = (db', Inl e) \<Longrightarrow>
   users db' = users db \<and>
   ((e = HTTPException 400 (ustr ''User already exists'') \<and> db' = db) \<or>
    (\<exists>d. e = HTTPException 500 (ustr ''Error: '' @ d) \<and> next_id db' = Suc (next_id db)))"
  by (auto simp: register_def create_user_def add_user_def Let_def split: if_splits prod.splits sum.splits)

theorem register_error_witness:
  "register init_db 7 0 (sample_registration\<lparr>rm_name := replicate 101 65\<rparr>) =
     (init_db\<lparr>next_id := 2\<rparr>, Inl (HTTPException 500 (ustr ''Error: value too long''))) \<and>
   users (init_db\<lparr>next_id := 2\<rparr>) = users init_db \<and>
   ((HTTPException 500 (ustr ''Error: value too long'') = HTTPException 400 (ustr ''User already exists'') \<and>
     init_db\<lparr>next_id := 2\<rparr> = init_db) \<or>
    (\<exists>d. HTTPException 500 (ustr ''Error: value too long'') = HTTPException 500 (ustr ''Error: '' @ d) \<and>
         next_id (init_db\<lparr>next_id := 2\<rparr>) = Suc (next_id init_db)))"
proof -
  have r: "register init_db 7 0 (sample_registration\<lparr>rm_name := replicate 101 65\<rparr>) =
     (init_db\<lparr>next_id := 2\<rparr>, Inl (HTTPException 500 (ustr ''Error: value too long'')))"
    by (simp add: register_def user_exists_def is_user_present_def init_db_def create_user_def
                  add_user_def column_fits_def sample_registration_def)
  show ?thesis using r register_error[OF r] by simp
qed

text \<open>
  C10. \<open>update_user\<close> copies the role but keeps \<open>is_verified_Advocate\<close>, so
  demoting a verified advocate yields a verified client: register, update the role
  to Advocate, verify, update the role back to Client.
\<close>

theorem verified_client_reachable:
  "\<exists>db. reachable_db db \<and> list_ex (\<lambda>u. role u = Client \<and> is_verified_Advocate u) (users db)"
proof -
  define db1 where "db1 = account_step init_db (Op_register 7 0 sample_registration)"
  define u1 where "u1 = hd (users db1)"
  define db2 where "db2 = account_step db1 (Op_update_user (u1\<lparr>role := Advocate\<rparr>))"
  define db3 where "db3 = account_step db2 (Op_verify_user 1)"
  define db4 where "db4 = account_step db3 (Op_update_user u1)"
  have "reachable_db db4"
    unfolding db4_def db3_def db2_def db1_def by (intro reachable_db.intros)
  moreover have "list_ex (\<lambda>u. role u = Client \<and> is_verified_Advocate u) (users db4)"
    by (simp add: db4_def db3_def db2_def u1_def db1_def register_def user_exists_def
          is_user_present_def init_db_def create_user_def add_user_def column_fits_def opt_fits_def
          sample_registration_def email_taken_def update_user_def get_user_by_id_def verify_user_def
          Let_def hash_password_def)
  ultimately show ?thesis by blast
qed

lemma sample_register_ok:
  "\<exists>db' v. register init_db 7 0 sample_registration = (db', Inr v)"
  by (simp add: register_def user_exists_def is_user_present_def init_db_def create_user_def
                add_user_def column_fits_def opt_fits_def sample_registration_def email_taken_def Let_def)

theorem wf_account_step_witness:
  "wf_db (account_step init_db (Op_register 7 0 sample_registration))"
  by (rule wf_account_step) (simp add: wf_db_def init_db_def)

theorem route_reachable_no_advocate_witness:
  "verify_user (account_step init_db (Op_register 7 0 sample_registration)) 1 =
     (account_step init_db (Op_register 7 0 sample_registration), None)"
  by (intro route_reachable_no_advocate route_reachable.intros) simp_all

theorem register_login_roundtrip_witness:
  "\<exists>db' v. register init_db 7 0 sample_registration = (db', Inr v) \<and>
     login db' \<lparr>lm_email = ustr ''asha@example.in'', lm_password = ustr ''s3cret''\<rparr> = Inr v"
proof -
  obtain db' v where r: "register init_db 7 0 sample_registration = (db', Inr v)"
    using sample_register_ok by blast
  show ?thesis using r register_login_roundtrip[OF r] by (auto simp: sample_registration_def)
qed

theorem register_twice_witness:
  "\<exists>db' v. register init_db 7 0 sample_registration = (db', Inr v) \<and>
     register db' 8 1 (sample_registration\<lparr>rm_name := ustr ''A. Rao''\<rparr>) =
       (db', Inl (HTTPException 400 (ustr ''User already exists'')))"
proof -
  obtain db' v where r: "register init_db 7 0 sample_registration = (db', Inr v)"
    using sample_register_ok by blast
  show ?thesis using r register_twice[OF r, of "sample_registration\<lparr>rm_name := ustr ''A. Rao''\<rparr>"] by auto
qed

theorem login_reachable_witness:
  "\<exists>db u. reachable_db db \<and> u \<in> set (users db) \<and>
     login db \<lparr>lm_email = email u, lm_password = ustr ''guess''\<rparr> =
       Inl (HTTPException 401 (ustr ''Invalid email or password''))"
proof -
  obtain db' v where r: "register init_db 7 0 sample_registration = (db', Inr v)"
    using sample_register_ok by blast
  have reach: "reachable_db db'"
    using reachable_db.step[OF reachable_db.init, of "Op_register 7 0 sample_registration"] r by simp
  obtain u where u: "users db' = users init_db @ [u]" "password_hash u = Pbkdf2 7 (ustr ''s3cret'')"
    using r by (rule register_Inr) (auto simp: sample_registration_def)
  have uin: "u \<in> set (users db')" using u by simp
  have "login db' \<lparr>lm_email = email u, lm_password = ustr ''guess''\<rparr> =
          Inl (HTTPException 401 (ustr ''Invalid email or password''))"
    using login_reachable[OF reach uin, of "ustr ''guess''"] u by simp
  then show ?thesis using reach uin by blast
qed

theorem login_sound_witness:
  "\<exists>db' v. register init_db 7 0 sample_registration = (db', Inr v) \<and>
     list_ex (\<lambda>u. email u = ustr ''asha@example.in'' \<and> verify_password (ustr ''s3cret'') (password_hash u) \<and>
                  v = account_view_of u) (users db')"
proof -
  obtain db' v where r: "register init_db 7 0 sample_registration = (db', Inr v)"
    using sample_register_ok by blast
  obtain u where u: "users db' = [u]" "v = account_view_of u" "email u = ustr ''asha@example.in''"
    "password_hash u = Pbkdf2 7 (ustr ''s3cret'')"
    using r by (rule register_Inr) (auto simp: sample_registration_def init_db_def)
  have "login db' \<lparr>lm_email = ustr ''asha@example.in'', lm_password = ustr ''s3cret''\<rparr> = Inr v"
    using u by (simp add: login_def check_login_def is_user_present_def)
  then show ?thesis using r login_sound by fastforce
qed

end
