(* ===== verification/Accounts_Spec.thy ===== *)
theory Accounts_Spec
  imports Accounts
begin


text \<open>The column limits as a registration request meets them.\<close>

definition register_fits :: "register_model \<Rightarrow> bool" where
  "register_fits req \<longleftrightarrow>
     length (rm_name req) \<le> 100 \<and> length (rm_email req) \<le> 150 \<and> length (rm_phone req) \<le> 20 \<and>
     length (rm_region req) \<le> 50 \<and> length (rm_aadhar req) \<le> 20 \<and> length (rm_cost_preferences req) \<le> 100"

definition uid_fresh :: "(ustr \<Rightarrow> user option) \<Rightarrow> nat \<Rightarrow> bool" where
  "uid_fresh A i \<longleftrightarrow> (\<forall>w\<in>ran A. uid w \<noteq> i)"

definition updated :: "user \<Rightarrow> user \<Rightarrow> user" where
  "updated u v = u\<lparr>name := name v, email := email v, phone := phone v, role := role v,
                   password_hash := password_hash v\<rparr>"

inductive spec_step :: "(ustr \<Rightarrow> user option) \<Rightarrow> account_op \<Rightarrow> (ustr \<Rightarrow> user option) \<Rightarrow> bool" where
  login: "spec_step A (Op_login req) A"
| profile: "spec_step A (Op_profile i) A"
| register_taken: "A (rm_email req) \<noteq> None \<Longrightarrow> spec_step A (Op_register salt now req) A"
| register_too_long:
    "A (rm_email req) = None \<Longrightarrow> \<not> register_fits req \<Longrightarrow> spec_step A (Op_register salt now req) A"
| register:
    "A (rm_email req) = None \<Longrightarrow> register_fits req \<Longrightarrow> uid_fresh A (uid u) \<Longrightarrow>
     email u = rm_email req \<Longrightarrow> name u = rm_name req \<Longrightarrow> phone u = Some (rm_phone req) \<Longrightarrow>
     area u = Some (rm_region req) \<Longrightarrow> aadhar u = Some (rm_aadhar req) \<Longrightarrow>
     cost_preferences u = Some (rm_cost_preferences req) \<Longrightarrow> created_at u = now \<Longrightarrow>
     role u = Client \<Longrightarrow> \<not> is_verified_Advocate u \<Longrightarrow> verify_password (rm_password req) (password_hash u) \<Longrightarrow>
     spec_step A (Op_register salt now req) (A(rm_email req \<mapsto> u))"
| verify_none:
    "(\<forall>w\<in>ran A. uid w = i \<longrightarrow> role w \<noteq> Advocate) \<Longrightarrow> spec_step A (Op_verify_user i) A"
| verify:
    "A (email u) = Some u \<Longrightarrow> role u = Advocate \<Longrightarrow>
     spec_step A (Op_verify_user (uid u)) (A(email u \<mapsto> u\<lparr>is_verified_Advocate := True\<rparr>))"
| update_none: "uid_fresh A (uid v) \<Longrightarrow> spec_step A (Op_update_user v) A"
| update_rejected:
    "A (email u) = Some u \<Longrightarrow> uid u = uid v \<Longrightarrow>
     \<not> column_fits (updated u v) \<or> (A(email u := None)) (email v) \<noteq> None \<Longrightarrow>
     spec_step A (Op_update_user v) A"
| update:
    "A (email u) = Some u \<Longrightarrow> uid u = uid v \<Longrightarrow> column_fits (updated u v) \<Longrightarrow>
     (A(email u := None)) (email v) = None \<Longrightarrow>
     spec_step A (Op_update_user v) ((A(email u := None))(email v \<mapsto> updated u v))"

text \<open>The abstract states reachable from the empty map.\<close>

inductive spec_reachable :: "(ustr \<Rightarrow> user option) \<Rightarrow> bool" where
  init: "spec_reachable Map.empty"
| step: "spec_reachable A \<Longrightarrow> spec_step A op A' \<Longrightarrow> spec_reachable A'"


subsection \<open>The abstraction of each operation\<close>















text \<open>
  What the abstract specification itself guarantees: every account it reaches is
  stored under its own e-mail and fits its columns.
\<close>

definition spec_wf :: "(ustr \<Rightarrow> user option) \<Rightarrow> bool" where
  "spec_wf A \<longleftrightarrow> (\<forall>e u. A e = Some u \<longrightarrow> email u = e \<and> column_fits u)"

lemma spec_wf_upd: "spec_wf A \<Longrightarrow> email u = e \<Longrightarrow> column_fits u \<Longrightarrow> spec_wf (A(e \<mapsto> u))"
  by (simp add: spec_wf_def)

lemma spec_wf_del: "spec_wf A \<Longrightarrow> spec_wf (A(e := None))"
  by (simp add: spec_wf_def)

lemma spec_step_wf: "spec_step A op A' \<Longrightarrow> spec_wf A \<Longrightarrow> spec_wf A'"
proof (induction rule: spec_step.induct)
  case (register A req u salt now)
  then show ?case
    by (intro spec_wf_upd) (simp_all add: register_fits_def column_fits_def opt_fits_def)
next
  case (verify A u)
  then have "column_fits u" by (simp add: spec_wf_def)
  then show ?case using verify by (intro spec_wf_upd) (simp_all add: column_fits_def)
next
  case (update A u v)
  then show ?case by (intro spec_wf_upd spec_wf_del) (simp_all add: updated_def)
qed simp_all

lemma spec_reachable_wf: "spec_reachable A \<Longrightarrow> spec_wf A"
proof (induction rule: spec_reachable.induct)
  case (step A op A')
  then show ?case using spec_step_wf by blast
qed (simp add: spec_wf_def)

subsection \<open>Refinement and liveness\<close>


lemma register_fresh_login:
  fixes req :: register_model
  assumes "\<not> user_exists db (rm_email req)"
    and "length (rm_name req) \<le> 100" "length (rm_email req) \<le> 150" "length (rm_phone req) \<le> 20"
    and "length (rm_region req) \<le> 50" "length (rm_aadhar req) \<le> 20" "length (rm_cost_preferences req) \<le> 100"
  shows "\<exists>v. login (account_step db (Op_register salt now req))
               \<lparr>lm_email = rm_email req, lm_password = rm_password req\<rparr> = Inr v"
proof -
  have "is_user_present db (rm_email req) = None" using assms(1) by (simp add: user_exists_def)
  then have nt: "\<not> email_taken (users db) (rm_email req)"
    by (auto simp: is_user_present_def email_taken_def find_None_iff list_ex_iff)
  then show ?thesis
    using assms
    by (simp add: fst_register create_user_def add_user_def column_fits_def opt_fits_def Let_def
                  login_def check_login_def is_user_present_def hash_password_def find_email_append_new
                  \<open>is_user_present db (rm_email req) = None\<close>[unfolded is_user_present_def])
qed

text \<open>
  C14. Liveness of registration: from every table the routes can reach, an e-mail not
  yet registered can always be registered, with values within the column limits, by
  one more route call, after which logging in with that e-mail and password succeeds.
\<close>

theorem registration_live:
  fixes req :: register_model
  assumes "route_reachable db" "\<not> user_exists db (rm_email req)"
    and "length (rm_name req) \<le> 100" "length (rm_email req) \<le> 150" "length (rm_phone req) \<le> 20"
    and "length (rm_region req) \<le> 50" "length (rm_aadhar req) \<le> 20" "length (rm_cost_preferences req) \<le> 100"
  shows "\<exists>op. route_op op \<and> route_reachable (account_step db op) \<and>
               (\<exists>v. login (account_step db op) \<lparr>lm_email = rm_email req, lm_password = rm_password req\<rparr> = Inr v)"
proof -
  have "\<exists>v. login (account_step db (Op_register 0 0 req))
               \<lparr>lm_email = rm_email req, lm_password = rm_password req\<rparr> = Inr v"
    by (rule register_fresh_login) (use assms in simp_all)
  moreover have "route_reachable (account_step db (Op_register 0 0 req))"
    using assms(1) by (rule route_reachable.step) simp
  ultimately show ?thesis by (intro exI[of _ "Op_register 0 0 req"]) simp
qed


theorem registration_live_witness:
  "\<exists>op. route_op op \<and> route_reachable (account_step init_db op) \<and>
     (\<exists>v. login (account_step init_db op)
            \<lparr>lm_email = rm_email sample_registration, lm_password = rm_password sample_registration\<rparr> = Inr v)"
  by (rule registration_live[OF route_reachable.init])
     (simp_all add: user_exists_def is_user_present_def init_db_def sample_registration_def)

end
