(* ===== verification/Db_Bootstrap.thy ===== *)
theory Db_Bootstrap
  imports Python_Str
begin

text \<open>
  The database bootstrap of \<open>src/Backend/db/db.py\<close>: reading \<open>DATABASE_URL\<close>, the
  engine's connection arguments, the request-scoped session of \<open>get_db\<close>, and
  \<open>create_tables\<close> with its migration. The catalog is the list of tables with their
  columns; \<open>create_all\<close> creates a missing table from the model
  (\<open>src/Backend/Schema/model.py\<close>) and leaves an existing one as it is; the migration
  issues \<open>ALTER TABLE ... ADD COLUMN IF NOT EXISTS\<close>, which PostgreSQL accepts and
  SQLite rejects with a syntax error that the code prints and ignores.
\<close>

definition DATABASE_URL_MISSING :: ustr where
  "DATABASE_URL_MISSING = ustr ''DATABASE_URL environment variable not set. Check your .env file''"

text \<open>\<open>if not DATABASE_URL: raise ValueError(...)\<close>: unset and empty are both rejected.\<close>

definition database_url :: "ustr option \<Rightarrow> py_error + ustr" where
  "database_url env =
     (case env of
        None \<Rightarrow> Inl (ValueError DATABASE_URL_MISSING)
      | Some u \<Rightarrow> if u = [] then Inl (ValueError DATABASE_URL_MISSING) else Inr u)"

definition connect_args :: "ustr \<Rightarrow> (ustr \<times> bool) list" where
  "connect_args url = (if py_in (ustr ''sqlite'') url then [(ustr ''check_same_thread'', False)] else [])"

subsection \<open>Sessions\<close>

text \<open>
  The open sessions of the engine. \<open>get_db\<close> opens a session, yields it to the request
  handler and closes it in \<open>finally\<close>, whether the handler returned or raised.
\<close>

record session_pool =
  open_sessions :: "nat list"
  next_session :: nat

definition session_local :: "session_pool \<Rightarrow> session_pool \<times> nat" where
  "session_local p = (p\<lparr>open_sessions := next_session p # open_sessions p, next_session := Suc (next_session p)\<rparr>,
                      next_session p)"

definition session_close :: "nat \<Rightarrow> session_pool \<Rightarrow> session_pool" where
  "session_close s p = p\<lparr>open_sessions := removeAll s (open_sessions p)\<rparr>"

definition get_db :: "(nat \<Rightarrow> py_error + 'a) \<Rightarrow> session_pool \<Rightarrow> session_pool \<times> (py_error + 'a)" where
  "get_db handler p =
     (let (p1, db) = session_local p;
          r = handler db
      in (session_close db p1, r))"

subsection \<open>Tables\<close>

definition USER_COLUMNS :: "ustr list" where
  "USER_COLUMNS =
     map ustr [''id'', ''name'', ''email'', ''phone'', ''password_hash'', ''role'', ''is_verified_Advocate'',
               ''created_at'', ''area'', ''aadhar'', ''cost_preferences'']"

text \<open>\<open>__tablename__ = "users"\<close>.\<close>

definition USERS :: ustr where
  "USERS = ustr ''users''"

type_synonym catalog = "(ustr \<times> ustr list) list"

definition create_all :: "catalog \<Rightarrow> catalog" where
  "create_all cat = (if map_of cat USERS = None then cat @ [(USERS, USER_COLUMNS)] else cat)"

definition add_column_if_not_exists :: "ustr \<Rightarrow> ustr \<Rightarrow> catalog \<Rightarrow> catalog" where
  "add_column_if_not_exists tbl col cat =
     map (\<lambda>(t, cols). if t = tbl \<and> col \<notin> set cols then (t, cols @ [col]) else (t, cols)) cat"

text \<open>
  The migration block: on a database that accepts \<open>IF NOT EXISTS\<close> both statements run
  and are committed; otherwise the first statement raises, nothing is committed, and
  \<open>Migration note: {e}\<close> is printed with the driver's message.
\<close>

definition migrate :: "bool \<Rightarrow> ustr \<Rightarrow> catalog \<Rightarrow> catalog \<times> ustr list" where
  "migrate accepts_if_not_exists driver_error cat =
     (if accepts_if_not_exists
      then (add_column_if_not_exists USERS (ustr ''cost_preferences'')
              (add_column_if_not_exists USERS (ustr ''aadhar'') cat), [])
      else (cat, [ustr ''Migration note: '' @ driver_error]))"

text \<open>The \<open>try\<close> body of \<open>create_tables\<close>, on a database that answers.\<close>

definition create_tables_body :: "bool \<Rightarrow> ustr \<Rightarrow> catalog \<Rightarrow> catalog \<times> ustr list" where
  "create_tables_body accepts_if_not_exists driver_error cat =
     (let (cat', notes) = migrate accepts_if_not_exists driver_error (create_all cat)
      in (cat', notes @ [ustr ''Database tables created/updated successfully'']))"

text \<open>
  \<open>create_tables\<close>: \<open>conn_error\<close> is the driver's message when the database does not
  answer; then \<open>create_all\<close> raises, the outer handler prints the error and raises
  it again.
\<close>

definition create_tables ::
  "ustr option \<Rightarrow> bool \<Rightarrow> ustr \<Rightarrow> catalog \<Rightarrow> (py_error + catalog) \<times> ustr list" where
  "create_tables conn_error accepts_if_not_exists driver_error cat =
     (case conn_error of
        Some m \<Rightarrow> (Inl (OperationalError m), [ustr ''Error creating tables: '' @ m])
      | None \<Rightarrow> (let (cat', notes) = create_tables_body accepts_if_not_exists driver_error cat
                in (Inr cat', notes)))"

text \<open>SQLite rejects \<open>ADD COLUMN IF NOT EXISTS\<close>; PostgreSQL accepts it.\<close>

definition accepts_add_if_not_exists :: "ustr \<Rightarrow> bool" where
  "accepts_add_if_not_exists url \<longleftrightarrow> \<not> py_in (ustr ''sqlite'') url"

definition table_columns :: "catalog \<Rightarrow> ustr \<Rightarrow> ustr list" where
  "table_columns cat t = (case map_of cat t of None \<Rightarrow> [] | Some cols \<Rightarrow> cols)"

subsection \<open>Properties\<close>

definition sessions_ok :: "session_pool \<Rightarrow> bool" where
  "sessions_ok p \<longleftrightarrow> (\<forall>s\<in>set (open_sessions p). s < next_session p)"

text \<open>
  No session leaks: on a pool whose open sessions were all drawn before, a request
  through \<open>get_db\<close> leaves the same sessions open, whatever the handler does, and
  the handler's result or exception is passed through.
\<close>

lemma get_db_closes:
  assumes "sessions_ok p"
  shows "open_sessions (fst (get_db h p)) = open_sessions p \<and> sessions_ok (fst (get_db h p)) \<and>
         snd (get_db h p) = h (next_session p)"
proof -
  have "next_session p \<notin> set (open_sessions p)" using assms by (auto simp: sessions_ok_def)
  then have "removeAll (next_session p) (open_sessions p) = open_sessions p" by simp
  then show ?thesis
    using assms by (auto simp: get_db_def session_local_def session_close_def sessions_ok_def)
qed

lemma map_of_add_column:
  "map_of (add_column_if_not_exists tbl col cat) t =
     map_option (\<lambda>cols. if t = tbl \<and> col \<notin> set cols then cols @ [col] else cols) (map_of cat t)"
  by (induction cat) (auto simp: add_column_if_not_exists_def)

lemma add_column_idem:
  "add_column_if_not_exists tbl col (add_column_if_not_exists tbl col cat) = add_column_if_not_exists tbl col cat"
  by (induction cat) (auto simp: add_column_if_not_exists_def)

lemma add_column_commute_aadhar:
  "add_column_if_not_exists tbl c1 (add_column_if_not_exists tbl c2 (add_column_if_not_exists tbl c1 cat)) =
   add_column_if_not_exists tbl c2 (add_column_if_not_exists tbl c1 cat)"
  by (induction cat) (auto simp: add_column_if_not_exists_def)

lemma map_of_users_create_all:
  "map_of (create_all cat) USERS =
     (case map_of cat USERS of None \<Rightarrow> Some USER_COLUMNS | Some cols \<Rightarrow> Some cols)"
  by (auto simp: create_all_def map_add_def split: option.split)

lemma create_all_idem: "create_all (create_all cat) = create_all cat"
  by (auto simp: create_all_def map_add_def split: option.split)

lemma map_of_add_column_None:
  "map_of (add_column_if_not_exists tbl col cat) t = None \<longleftrightarrow> map_of cat t = None"
  by (simp add: map_of_add_column)

lemma create_all_add_columns:
  "create_all (add_column_if_not_exists USERS c2 (add_column_if_not_exists USERS c1 (create_all cat))) =
   add_column_if_not_exists USERS c2 (add_column_if_not_exists USERS c1 (create_all cat))"
proof -
  have "map_of (create_all cat) USERS \<noteq> None" by (simp add: map_of_users_create_all split: option.split)
  then show ?thesis by (simp add: create_all_def map_of_add_column_None)
qed

text \<open>Running \<open>create_tables\<close> twice gives the same catalog as running it once.\<close>

lemma create_tables_idem:
  "fst (create_tables_body b e (fst (create_tables_body b e cat))) = fst (create_tables_body b e cat)"
  by (cases b)
     (simp_all add: create_tables_body_def migrate_def create_all_idem create_all_add_columns
                    add_column_idem add_column_commute_aadhar)

text \<open>
  On a database that accepts the migration, every column of the model exists after
  \<open>create_tables\<close>, on a fresh database and on one whose \<open>users\<close> table predates
  the two added columns.
\<close>

lemma create_tables_columns:
  assumes "set USER_COLUMNS - {ustr ''aadhar'', ustr ''cost_preferences''} \<subseteq> set (table_columns cat USERS)
           \<or> map_of cat USERS = None"
  shows "set USER_COLUMNS \<subseteq> set (table_columns (fst (create_tables_body True e cat)) USERS)"
proof -
  obtain cols where c: "map_of (create_all cat) USERS = Some cols"
    and sub: "set USER_COLUMNS - {ustr ''aadhar'', ustr ''cost_preferences''} \<subseteq> set cols"
    using assms by (cases "map_of cat USERS") (auto simp: map_of_users_create_all table_columns_def)
  then show ?thesis
    by (auto simp: create_tables_body_def migrate_def table_columns_def map_of_add_column)
qed

text \<open>
  On SQLite the migration is a no-op: a \<open>users\<close> table created before the two columns
  existed keeps its columns, so the inserts of \<open>add_user\<close>, which name
  \<open>aadhar\<close> and \<open>cost_preferences\<close>, fail on it.
\<close>

lemma create_tables_sqlite_keeps_old_table:
  "table_columns (fst (create_tables_body (accepts_add_if_not_exists (ustr ''sqlite:///./guardian.db'')) e
                        [(USERS, cols)])) USERS = cols"
  by (simp add: create_tables_body_def migrate_def create_all_def accepts_add_if_not_exists_def table_columns_def)

end
