(* ===== verification/Server_Startup.thy ===== *)
theory Server_Startup
  imports Db_Bootstrap
begin

text \<open>
  The module bodies that run when the two FastAPI servers start:
  \<open>src/Chatbot/backend/main.py\<close> and \<open>src/Backend/main.py\<close>. The environment is a
  map from variable to value; \<open>load_dotenv\<close> adds the variables of the \<open>.env\<close> file
  that the environment does not already set. Constructing the Groq client raises
  when no API key is given and \<open>GROQ_API_KEY\<close> is unset (the client library's
  constructor). The backend imports its routes first, which imports \<open>db/db.py\<close>
  (the \<open>DATABASE_URL\<close> check and the \<open>Connecting to\<close> line) and the
  authentication service (its \<open>LOADING\<close> line); then it creates the tables inside a
  \<open>try\<close> that logs a warning and carries on. A start-up gives the running server's
  state or the exception that ends the process, and the lines printed or logged on
  the way.
\<close>

type_synonym environ = "ustr \<rightharpoonup> ustr"

text \<open>\<open>load_dotenv()\<close> with \<open>override=False\<close>: the environment wins.\<close>

definition load_dotenv :: "environ \<Rightarrow> environ \<Rightarrow> environ" where
  "load_dotenv dotfile env = dotfile ++ env"

definition DATABASE_URL_VAR :: ustr where
  "DATABASE_URL_VAR = ustr ''DATABASE_URL''"

definition GROQ_API_KEY_VAR :: ustr where
  "GROQ_API_KEY_VAR = ustr ''GROQ_API_KEY''"

definition GROQ_KEY_MISSING :: ustr where
  "GROQ_KEY_MISSING =
     ustr ''The api_key client option must be set either by passing api_key to the client '' @
     ustr ''or by setting the GROQ_API_KEY environment variable''"

text \<open>
  \<open>Groq(api_key=os.getenv("GROQ_API_KEY"))\<close>: the client holds its key; with
  \<open>None\<close> it falls back to the same variable and raises when that is unset too.
\<close>

definition groq_client :: "environ \<Rightarrow> py_error + ustr" where
  "groq_client env =
     (case env GROQ_API_KEY_VAR of
        None \<Rightarrow> Inl (GroqError GROQ_KEY_MISSING)
      | Some k \<Rightarrow> Inr k)"

subsection \<open>The chatbot server\<close>

text \<open>
  \<open>src/Chatbot/backend/main.py\<close>: the routes and the history directory come first
  (\<open>mkdir(exist_ok=True)\<close> under the script's own directory, which exists), then
  \<open>load_dotenv()\<close> and the client. The result is the client's key.
\<close>

definition chatbot_startup :: "environ \<Rightarrow> environ \<Rightarrow> py_error + ustr" where
  "chatbot_startup dotfile env = groq_client (load_dotenv dotfile env)"

subsection \<open>The backend server\<close>

definition LOADING_AUTH :: ustr where
  "LOADING_AUTH = ustr ''LOADING Authentication Service with PBKDF2...''"

text \<open>The state a started backend runs with.\<close>

record backend_state =
  bs_database_url :: ustr
  bs_groq_key :: ustr
  bs_catalog :: catalog

text \<open>
  \<open>db/db.py\<close> at import: \<open>load_dotenv()\<close>, the \<open>DATABASE_URL\<close> check, the printed
  URL. The engine is lazy: nothing connects yet.
\<close>

definition db_module_init :: "environ \<Rightarrow> environ \<Rightarrow> py_error + ustr \<times> ustr list" where
  "db_module_init dotfile env =
     (case database_url (load_dotenv dotfile env DATABASE_URL_VAR) of
        Inl e \<Rightarrow> Inl e
      | Inr url \<Rightarrow> Inr (url, [ustr ''Connecting to: '' @ url]))"

text \<open>
  The module body of \<open>src/Backend/main.py\<close>. \<open>conn_error\<close> is the driver's message
  when the database does not answer, \<open>driver_error\<close> the one it gives for the
  rejected migration; the logged warning is shown without its time stamp. The
  logging set-up, the CORS middleware and the path constants between the imports and
  the client configure libraries and change none of the modelled state.
\<close>

definition backend_startup ::
  "environ \<Rightarrow> environ \<Rightarrow> ustr option \<Rightarrow> ustr \<Rightarrow> catalog \<Rightarrow>
   (py_error + backend_state) \<times> ustr list" where
  "backend_startup dotfile env conn_error driver_error cat =
     (case db_module_init dotfile env of
        Inl e \<Rightarrow> (Inl e, [])
      | Inr (url, out0) \<Rightarrow>
          (let env1 = load_dotenv dotfile (load_dotenv dotfile env);
               out1 = out0 @ [LOADING_AUTH]
           in case groq_client env1 of
                Inl e \<Rightarrow> (Inl e, out1)
              | Inr key \<Rightarrow>
                  (case create_tables conn_error (accepts_add_if_not_exists url) driver_error cat of
                     (Inl e, out2) \<Rightarrow>
                       (Inr \<lparr>bs_database_url = url, bs_groq_key = key, bs_catalog = cat\<rparr>,
                        out1 @ out2 @
                        [ustr ''[WARNING] Could not create tables on startup: '' @ py_error_msg e])
                   | (Inr cat', out2) \<Rightarrow>
                       (Inr \<lparr>bs_database_url = url, bs_groq_key = key, bs_catalog = cat'\<rparr>,
                        out1 @ out2))))"

subsection \<open>Lemmas\<close>

lemma load_dotenv_idem: "load_dotenv d (load_dotenv d env) = load_dotenv d env"
  by (rule ext) (simp add: load_dotenv_def map_add_def split: option.split)

lemma load_dotenv_env_wins: "env x = Some v \<Longrightarrow> load_dotenv d env x = Some v"
  by (simp add: load_dotenv_def)

lemma chatbot_startup_iff:
  "(chatbot_startup d env = Inr k) = (load_dotenv d env GROQ_API_KEY_VAR = Some k)"
  by (auto simp: chatbot_startup_def groq_client_def split: option.splits)

lemma db_module_init_ok:
  "load_dotenv d env DATABASE_URL_VAR = Some url \<Longrightarrow> url \<noteq> [] \<Longrightarrow>
   db_module_init d env = Inr (url, [ustr ''Connecting to: '' @ url])"
  by (simp add: db_module_init_def database_url_def)

lemma backend_startup_started:
  assumes "load_dotenv d env DATABASE_URL_VAR = Some url" "url \<noteq> []"
    and "load_dotenv d env GROQ_API_KEY_VAR = Some key"
  shows "backend_startup d env conn_error driver_error cat =
     (case create_tables conn_error (accepts_add_if_not_exists url) driver_error cat of
        (Inl e, out2) \<Rightarrow>
          (Inr \<lparr>bs_database_url = url, bs_groq_key = key, bs_catalog = cat\<rparr>,
           [ustr ''Connecting to: '' @ url, LOADING_AUTH] @ out2 @
           [ustr ''[WARNING] Could not create tables on startup: '' @ py_error_msg e])
      | (Inr cat', out2) \<Rightarrow>
          (Inr \<lparr>bs_database_url = url, bs_groq_key = key, bs_catalog = cat'\<rparr>,
           [ustr ''Connecting to: '' @ url, LOADING_AUTH] @ out2))"
proof -
  obtain r out2 where ct: "create_tables conn_error (accepts_add_if_not_exists url) driver_error cat = (r, out2)"
    by (cases "create_tables conn_error (accepts_add_if_not_exists url) driver_error cat")
  show ?thesis
    using assms ct
    by (cases r) (simp_all add: backend_startup_def db_module_init_ok load_dotenv_idem groq_client_def)
qed

text \<open>The process ends at start-up only for a missing setting, never for the database.\<close>

lemma backend_startup_fails:
  "fst (backend_startup d env conn_error driver_error cat) = Inl e \<Longrightarrow>
   e = ValueError DATABASE_URL_MISSING \<and>
     (load_dotenv d env DATABASE_URL_VAR = None \<or> load_dotenv d env DATABASE_URL_VAR = Some [])
   \<or> e = GroqError GROQ_KEY_MISSING \<and> load_dotenv d env GROQ_API_KEY_VAR = None"
  by (auto simp: backend_startup_def db_module_init_def database_url_def groq_client_def
                 load_dotenv_idem create_tables_def
           split: option.splits sum.splits if_splits prod.splits)

text \<open>
  On a PostgreSQL database that answers, the started backend's \<open>users\<close> table has
  every column of the model, on a fresh database and on one whose table predates the
  two added columns.
\<close>

lemma backend_startup_columns:
  assumes "load_dotenv d env DATABASE_URL_VAR = Some url" "url \<noteq> []"
    and "load_dotenv d env GROQ_API_KEY_VAR = Some key"
    and "accepts_add_if_not_exists url"
    and "set USER_COLUMNS - {ustr ''aadhar'', ustr ''cost_preferences''} \<subseteq> set (table_columns cat USERS)
         \<or> map_of cat USERS = None"
  shows "\<exists>st. fst (backend_startup d env None driver_error cat) = Inr st \<and>
             set USER_COLUMNS \<subseteq> set (table_columns (bs_catalog st) USERS)"
  using create_tables_columns[OF assms(5), of driver_error] assms(4)
  by (cases "create_tables_body True driver_error cat")
     (simp add: backend_startup_started[OF assms(1-3)] create_tables_def)

text \<open>
  C33. A database that does not answer does not stop the backend: \<open>create_tables\<close>
  prints its error and raises, the start-up logs a warning and the server runs on the
  catalog as it was (without a \<open>users\<close> table on a fresh database).
\<close>

theorem backend_starts_without_database:
  "load_dotenv d env DATABASE_URL_VAR = Some url \<Longrightarrow> url \<noteq> [] \<Longrightarrow>
   load_dotenv d env GROQ_API_KEY_VAR = Some key \<Longrightarrow>
   backend_startup d env (Some m) driver_error cat =
     (Inr \<lparr>bs_database_url = url, bs_groq_key = key, bs_catalog = cat\<rparr>,
      [ustr ''Connecting to: '' @ url, LOADING_AUTH, ustr ''Error creating tables: '' @ m,
       ustr ''[WARNING] Could not create tables on startup: '' @ m])"
  by (simp add: backend_startup_started create_tables_def)

theorem backend_starts_without_database_witness:
  "backend_startup [DATABASE_URL_VAR \<mapsto> ustr ''postgresql://guardian@db/guardian'']
     [GROQ_API_KEY_VAR \<mapsto> ustr ''gsk_test''] (Some (ustr ''connection refused'')) [] [] =
   (Inr \<lparr>bs_database_url = ustr ''postgresql://guardian@db/guardian'', bs_groq_key = ustr ''gsk_test'',
         bs_catalog = []\<rparr>,
    [ustr ''Connecting to: '' @ ustr ''postgresql://guardian@db/guardian'', LOADING_AUTH,
     ustr ''Error creating tables: '' @ ustr ''connection refused'',
     ustr ''[WARNING] Could not create tables on startup: '' @ ustr ''connection refused''])"
  by (rule backend_starts_without_database)
     (simp_all add: load_dotenv_def DATABASE_URL_VAR_def GROQ_API_KEY_VAR_def)

end
