(* ===== verification/Chat_Store.thy ===== *)
theory Chat_Store
  imports Python_Str "HOL-Library.AList" "HOL-Library.Multiset"
begin

text \<open>
  The chat endpoints of the two API servers and the history directory they share.
  \<open>legal_chat\<close>, \<open>get_chat_history\<close> and \<open>list_chat_sessions\<close> are
  \<open>src/Chatbot/backend/main.py\<close>; \<open>backend_legal_chat\<close> is the \<open>/api/chat\<close>
  handler of \<open>src/Backend/main.py\<close>, whose \<open>CHAT_HISTORY_DIR\<close> is the same
  directory \<open>Chatbot/backend/chat_history\<close>. The file system is an association
  list from normalised path to file content in directory order (the order
  \<open>glob\<close> lists), beside the list of existing directories; a JSON file is its
  parsed content, or a file \<open>json.load\<close> rejects. The Groq completion call is a
  parameter that returns the reply text or fails.
\<close>

record chat_msg =
  cm_role :: "ustr option"
  cm_content :: "ustr option"

definition msg :: "ustr \<Rightarrow> ustr \<Rightarrow> chat_msg" where
  "msg r c = \<lparr>cm_role = Some r, cm_content = Some c\<rparr>"

type_synonym groq_model = "chat_msg list \<Rightarrow> py_error + ustr"

text \<open>The keys of a history file that the handlers write or read.\<close>

record chat_data =
  cd_session_id :: "ustr option"
  cd_timestamp :: "ustr option"
  cd_last_updated :: "ustr option"
  cd_conversation :: "chat_msg list option"

datatype chat_file = Chat_json chat_data | Malformed_chat

record chat_fs =
  fs_files :: "(ustr \<times> chat_file) list"
  fs_dirs :: "ustr list"

subsection \<open>Paths\<close>

text \<open>
  \<open>d / name\<close> of \<open>pathlib\<close>: \<open>name\<close> itself when it is absolute. The
  operating system resolves a path when a file is opened: empty and \<open>.\<close>
  components vanish and \<open>..\<close> removes the component before it (\<open>os_path\<close>,
  for the absolute paths of the servers; symbolic links are not modelled). Files
  and directories are keyed by their resolved path.
\<close>

definition path_join :: "ustr \<Rightarrow> ustr \<Rightarrow> ustr" where
  "path_join d name = (if take 1 name = [47] then name else d @ [47] @ name)"

definition os_path :: "ustr \<Rightarrow> ustr" where
  "os_path p =
     (let cs = filter (\<lambda>w. w \<noteq> [] \<and> w \<noteq> [46]) (py_split_char 47 p);
          st = foldl (\<lambda>st w. if w = [46, 46] then drop 1 st else w # st) [] cs
      in [47] @ py_join [47] (rev st))"

definition parent_dir :: "ustr \<Rightarrow> ustr" where
  "parent_dir p = rev (drop 1 (dropWhile (\<lambda>c. c \<noteq> 47) (rev p)))"

text \<open>\<open>CHAT_HISTORY_DIR / f"{session_id}.json"\<close>.\<close>

definition history_file :: "ustr \<Rightarrow> ustr \<Rightarrow> ustr" where
  "history_file hist_dir session_id = path_join hist_dir (session_id @ ustr ''.json'')"

definition fs_read :: "chat_fs \<Rightarrow> ustr \<Rightarrow> chat_file option" where
  "fs_read fs p = map_of (fs_files fs) (os_path p)"

text \<open>\<open>open(p, "w")\<close> and \<open>json.dump\<close>: the parent directory must exist.\<close>

definition fs_write :: "chat_fs \<Rightarrow> ustr \<Rightarrow> chat_file \<Rightarrow> py_error + chat_fs" where
  "fs_write fs p v =
     (let q = os_path p in
      if parent_dir q \<in> set (fs_dirs fs) then Inr (fs\<lparr>fs_files := AList.update q v (fs_files fs)\<rparr>)
      else Inl (FileNotFoundError p))"

text \<open>\<open>CHAT_HISTORY_DIR.glob("*.json")\<close>.\<close>

definition glob_json :: "chat_fs \<Rightarrow> ustr \<Rightarrow> (ustr \<times> chat_file) list" where
  "glob_json fs d =
     filter (\<lambda>(p, v). parent_dir p = os_path d \<and> py_endswith p (ustr ''.json'')) (fs_files fs)"

subsection \<open>\<open>/api/chat\<close> of the chatbot server\<close>

record chat_request =
  rq_message :: ustr
  rq_history :: "chat_msg list"
  rq_session_id :: "ustr option"

record chat_reply =
  cr_reply :: ustr
  cr_session_id :: ustr

definition CHAT_SYSTEM_PROMPT :: ustr where
  "CHAT_SYSTEM_PROMPT =
     ustr ''You are Guardian, a Legal Information Assistant for Indian '' @
     ustr ''law.\<newline>Your role is to provide clear, simple, accurate, '' @
     ustr ''and responsible legal information to users. You are not '' @
     ustr ''a lawyer and you do not give professional legal advice.\<newline>\<newline>'' @
     [0x1F3AF] @
     ustr '' CORE OBJECTIVES:\<newline>- Answer legal questions based '' @
     ustr ''on Indian law.\<newline>- Use simple language suitable for '' @
     ustr ''non-lawyers.\<newline>- Be factually accurate, updated, '' @
     ustr ''and neutral.\<newline>- Never encourage illegal, harmful, '' @
     ustr ''or unethical behavior.\<newline>\<newline>'' @ [0x1F4DA] @
     ustr '' LEGAL SCOPE & ACCURACY RULES:\<newline>- Criminal law: '' @
     ustr ''Use IPC (Indian Penal Code) for offences committed before '' @
     ustr ''1 July 2024. Use BNS (Bharatiya Nyaya Sanhita) for offences '' @
     ustr ''committed on or after 1 July 2024.\<newline>- Explain Civil, '' @
     ustr ''family, property, labour, and cyber laws at a high level.\<newline>- '' @
     ustr ''If facts are insufficient, explain possible sections and '' @
     ustr ''state that the final decision depends on the court.\<newline>- '' @
     ustr ''Never say a valid Indian law '' @ [39] @
     ustr ''does not exist'' @ [39] @
     ustr '' if it is legally recognized (e.g., BNS).\<newline>\<newline>'' @
     [0x1F6AB] @
     ustr '' STRICT SAFETY RULES:\<newline>- Do NOT provide: Instructions '' @
     ustr ''to commit crimes, advice to escape punishment, or guidance '' @
     ustr ''for violence/fraud.\<newline>- If a user asks how to avoid '' @
     ustr ''punishment or expresses violent intent: Refuse to assist '' @
     ustr ''with wrongdoing, provide high-level legal consequences ONLY, '' @
     ustr ''and encourage lawful behavior.\<newline>\<newline>'' @
     [0x1F5E3, 0xFE0F] @
     ustr '' RESPONSE STYLE:\<newline>- Be concise but complete. Use '' @
     ustr ''bullet points or steps where helpful.\<newline>- Avoid unnecessary '' @
     ustr ''legal jargon. Be respectful and neutral.\<newline>- Do NOT '' @
     ustr ''sound robotic or threatening.\<newline>\<newline>- '' @
     [0x1F512] @
     ustr '' DOMAIN RESTRICTION RULE:\<newline>- Answer ONLY questions '' @
     ustr ''related to Indian law and legal matters.- If a question '' @
     ustr ''is non-legal, general, personal, technical, or unrelated '' @
     ustr ''to law, clearly state that you cannot answer it and ask '' @
     ustr ''the user to reframe the query as a legal question.- Do NOT '' @
     ustr ''provide general knowledge, opinions, or non-legal assistance '' @
     ustr ''under any circumstances.'' @ [0x2696, 0xFE0F] @
     ustr '' MANDATORY DISCLAIMER:\<newline>You must ALWAYS include '' @
     ustr ''the following at the end of every response:\<newline>'' @ [39] @
     ustr ''Disclaimer: This response provides general legal information '' @
     ustr ''for educational purposes only and does not constitute professional '' @
     ustr ''legal advice. Please consult a qualified advocate for advice '' @
     ustr ''specific to your situation.'' @ [39]"

definition DISCLAIMER_TEXT :: ustr where
  "DISCLAIMER_TEXT =
     ustr ''Disclaimer: This response provides general legal information for educational purposes only''"

text \<open>The disclaimer check after the model call.\<close>

definition add_disclaimer :: "ustr \<Rightarrow> ustr" where
  "add_disclaimer reply =
     (if py_in DISCLAIMER_TEXT reply then reply
      else reply @ ustr ''\<newline>\<newline>'' @ DISCLAIMER_TEXT @
        ustr '' and does not constitute professional legal advice. Please consult a qualified advocate for advice specific to your situation.'')"

definition chat_messages :: "ustr \<Rightarrow> chat_request \<Rightarrow> chat_msg list" where
  "chat_messages system_prompt req =
     msg (ustr ''system'') system_prompt # rq_history req @ [msg (ustr ''user'') (rq_message req)]"

text \<open>
  \<open>legal_chat\<close>: \<open>fresh\<close> is \<open>str(uuid.uuid4())\<close>, \<open>now1\<close> and \<open>now2\<close> the two
  \<open>datetime.now().isoformat()\<close> calls. Any exception, of the model or of the file
  write, becomes the same 500 error.
\<close>

definition legal_chat ::
  "groq_model \<Rightarrow> ustr \<Rightarrow> ustr \<Rightarrow> ustr \<Rightarrow> ustr \<Rightarrow> chat_fs \<Rightarrow> chat_request \<Rightarrow>
   chat_fs \<times> chat_reply http_result" where
  "legal_chat model fresh now1 now2 hist_dir fs req =
     (let session_id = py_or_str (rq_session_id req) fresh;
          err = HTTPException 500 (ustr ''Guardian is currently unreachable. Please try again in a few moments.'')
      in case model (chat_messages CHAT_SYSTEM_PROMPT req) of
           Inl e \<Rightarrow> (fs, Inl err)
         | Inr content \<Rightarrow>
             (let reply = add_disclaimer (py_strip content);
                  updated_history = rq_history req @ [msg (ustr ''user'') (rq_message req), msg (ustr ''assistant'') reply];
                  chat_data = \<lparr>cd_session_id = Some session_id, cd_timestamp = Some now1,
                               cd_last_updated = Some now2, cd_conversation = Some updated_history\<rparr>
              in case fs_write fs (history_file hist_dir session_id) (Chat_json chat_data) of
                   Inl e \<Rightarrow> (fs, Inl err)
                 | Inr fs' \<Rightarrow> (fs', Inr \<lparr>cr_reply = reply, cr_session_id = session_id\<rparr>)))"

definition get_chat_history :: "ustr \<Rightarrow> chat_fs \<Rightarrow> ustr \<Rightarrow> chat_data http_result" where
  "get_chat_history hist_dir fs session_id =
     (case fs_read fs (history_file hist_dir session_id) of
        None \<Rightarrow> Inl (HTTPException 404 (ustr ''Chat session not found''))
      | Some Malformed_chat \<Rightarrow> Inl (HTTPException 500 (ustr ''Failed to load chat history''))
      | Some (Chat_json d) \<Rightarrow> Inr d)"

subsection \<open>Session listing\<close>

record session_summary =
  ss_session_id :: "ustr option"
  ss_timestamp :: "ustr option"
  ss_last_updated :: "ustr option"
  ss_message_count :: nat
  ss_preview :: ustr

text \<open>The first message whose role is \<open>"user"\<close>, its content cut to 100 characters.\<close>

definition first_user_preview :: "chat_msg list \<Rightarrow> ustr" where
  "first_user_preview conv =
     (case find (\<lambda>m. cm_role m = Some (ustr ''user'')) conv of
        None \<Rightarrow> ustr ''No messages''
      | Some m \<Rightarrow> take 100 (case cm_content m of None \<Rightarrow> [] | Some c \<Rightarrow> c))"

definition session_summary_of :: "chat_data \<Rightarrow> session_summary" where
  "session_summary_of d =
     (let conv = (case cd_conversation d of None \<Rightarrow> [] | Some c \<Rightarrow> c) in
      \<lparr>ss_session_id = cd_session_id d, ss_timestamp = cd_timestamp d,
       ss_last_updated = cd_last_updated d, ss_message_count = length conv,
       ss_preview = first_user_preview conv\<rparr>)"

text \<open>The loop over the files: a file that does not parse is skipped.\<close>

fun read_sessions :: "(ustr \<times> chat_file) list \<Rightarrow> session_summary list" where
  "read_sessions [] = []"
| "read_sessions ((p, Malformed_chat) # fs) = read_sessions fs"
| "read_sessions ((p, Chat_json d) # fs) = session_summary_of d # read_sessions fs"

definition session_key :: "session_summary \<Rightarrow> ustr" where
  "session_key s = (case ss_last_updated s of None \<Rightarrow> [] | Some t \<Rightarrow> t)"

text \<open>
  \<open>sessions.sort(key=..., reverse=True)\<close>: a stable sort of the reversed list,
  reversed, so that equal keys keep their order. Every summary has the key
  \<open>last_updated\<close>, so the default \<open>""\<close> never applies: a file without it gives the
  key \<open>None\<close>, and with two sessions or more comparing \<open>None\<close> raises
  \<open>TypeError\<close>, which the outer handler turns into a 500 error.
\<close>

definition py_sort_desc :: "session_summary list \<Rightarrow> session_summary list" where
  "py_sort_desc xs = rev (sort_key session_key (rev xs))"

definition list_chat_sessions :: "ustr \<Rightarrow> chat_fs \<Rightarrow> session_summary list http_result" where
  "list_chat_sessions hist_dir fs =
     (let sessions = read_sessions (glob_json fs hist_dir) in
      if 2 \<le> length sessions \<and> list_ex (\<lambda>s. ss_last_updated s = None) sessions
      then Inl (HTTPException 500 (ustr ''Failed to list chat sessions''))
      else Inr (py_sort_desc sessions))"

subsection \<open>\<open>/api/chat\<close> of the backend server\<close>

definition BACKEND_CHAT_PROMPT :: ustr where
  "BACKEND_CHAT_PROMPT =
     ustr ''You are Guardian, a Legal Information Assistant for Indian '' @
     ustr ''law. Provide clear, accurate legal information. Do not give '' @
     ustr ''professional legal advice. Always include a disclaimer at '' @
     ustr ''the end.''"

definition BACKEND_DISCLAIMER :: ustr where
  "BACKEND_DISCLAIMER =
     ustr ''Disclaimer: This response provides general legal information for educational purposes only.''"

text \<open>The backend variant writes no \<open>last_updated\<close> key.\<close>

definition backend_legal_chat ::
  "groq_model \<Rightarrow> ustr \<Rightarrow> ustr \<Rightarrow> ustr \<Rightarrow> chat_fs \<Rightarrow> chat_request \<Rightarrow> chat_fs \<times> chat_reply http_result" where
  "backend_legal_chat model fresh now hist_dir fs req =
     (let session_id = py_or_str (rq_session_id req) fresh;
          err = HTTPException 500 (ustr ''Chat service error'')
      in case model (chat_messages BACKEND_CHAT_PROMPT req) of
           Inl e \<Rightarrow> (fs, Inl err)
         | Inr content \<Rightarrow>
             (let r0 = py_strip content;
                  reply = (if py_in BACKEND_DISCLAIMER r0 then r0 else r0 @ ustr ''\<newline>\<newline>'' @ BACKEND_DISCLAIMER);
                  chat_data = \<lparr>cd_session_id = Some session_id, cd_timestamp = Some now,
                    cd_last_updated = None,
                    cd_conversation = Some (rq_history req @ [msg (ustr ''user'') (rq_message req),
                                                             msg (ustr ''assistant'') reply])\<rparr>
              in case fs_write fs (history_file hist_dir session_id) (Chat_json chat_data) of
                   Inl e \<Rightarrow> (fs, Inl err)
                 | Inr fs' \<Rightarrow> (fs', Inr \<lparr>cr_reply = reply, cr_session_id = session_id\<rparr>)))"

subsection \<open>Properties of the chat handlers\<close>

lemma add_disclaimer_contains: "sublist DISCLAIMER_TEXT (add_disclaimer r)"
proof -
  have "sublist DISCLAIMER_TEXT ((r @ [10, 10]) @ DISCLAIMER_TEXT @ t)" for t by (rule sublist_appendI)
  then show ?thesis by (auto simp: add_disclaimer_def py_in_sublist)
qed

lemma add_disclaimer_prefix: "prefix r (add_disclaimer r)"
  by (simp add: add_disclaimer_def)

lemma legal_chat_Inr:
  assumes "legal_chat model fresh now1 now2 hist_dir fs req = (fs', Inr r)"
  obtains c where "model (chat_messages CHAT_SYSTEM_PROMPT req) = Inr c"
    "cr_reply r = add_disclaimer (py_strip c)" "cr_session_id r = py_or_str (rq_session_id req) fresh"
    "fs_write fs (history_file hist_dir (cr_session_id r))
       (Chat_json \<lparr>cd_session_id = Some (cr_session_id r), cd_timestamp = Some now1,
          cd_last_updated = Some now2,
          cd_conversation = Some (rq_history req @ [msg (ustr ''user'') (rq_message req),
                                                   msg (ustr ''assistant'') (cr_reply r)])\<rparr>) = Inr fs'"
  using assms
  by (auto simp: legal_chat_def Let_def split: sum.splits intro: that)

text \<open>
  C15. Every reply \<open>legal_chat\<close> returns contains the disclaimer sentence and starts
  with the model's reply, stripped: the check appends the disclaimer exactly when it
  is missing.
\<close>

theorem legal_chat_disclaimer:
  "legal_chat model fresh now1 now2 hist_dir fs req = (fs', Inr r) \<Longrightarrow>
   sublist DISCLAIMER_TEXT (cr_reply r) \<and>
   (\<exists>c. model (chat_messages CHAT_SYSTEM_PROMPT req) = Inr c \<and> prefix (py_strip c) (cr_reply r))"
  by (erule legal_chat_Inr) (auto simp: add_disclaimer_contains add_disclaimer_prefix)

lemma fs_read_write:
  "fs_write fs p v = Inr fs' \<Longrightarrow> fs_read fs' p = Some v"
  by (auto simp: fs_write_def fs_read_def Let_def update_conv' split: if_splits)

text \<open>
  C16. After a successful \<open>legal_chat\<close>, reading the history of the returned session
  id gives the record just written: the session id, both timestamps, and the client's
  history followed by the question and the returned reply.
\<close>

theorem legal_chat_history_roundtrip:
  "legal_chat model fresh now1 now2 hist_dir fs req = (fs', Inr r) \<Longrightarrow>
   get_chat_history hist_dir fs' (cr_session_id r) =
     Inr \<lparr>cd_session_id = Some (cr_session_id r), cd_timestamp = Some now1, cd_last_updated = Some now2,
          cd_conversation = Some (rq_history req @ [msg (ustr ''user'') (rq_message req),
                                                   msg (ustr ''assistant'') (cr_reply r)])\<rparr>"
  by (erule legal_chat_Inr) (auto simp: get_chat_history_def dest!: fs_read_write)

text \<open>
  A failed \<open>legal_chat\<close>, whether the model call or the history write failed,
  leaves the files unchanged and answers with the fixed 500 error.
\<close>

theorem legal_chat_error:
  "legal_chat model fresh now1 now2 hist_dir fs req = (fs', Inl e) \<Longrightarrow>
   fs' = fs \<and> e = HTTPException 500 (ustr ''Guardian is currently unreachable. Please try again in a few moments.'')"
  by (auto simp: legal_chat_def Let_def split: sum.splits)

text \<open>
  Two chats of one session sent from the same loaded history (two tabs, or a
  retry) race on the session file: each request writes the whole file from the
  history the client sent, so after both the stored conversation is that history
  followed by the second exchange only, and the session's creation \<open>timestamp\<close>
  is the second chat's time. The first exchange is lost.
\<close>

theorem concurrent_chats_lose_update:
  assumes "legal_chat model1 fresh1 now1 now2 hist_dir fs req1 = (fs1, Inr r1)"
    and "legal_chat model2 fresh2 now3 now4 hist_dir fs1 req2 = (fs2, Inr r2)"
    and "cr_session_id r2 = cr_session_id r1" and "rq_history req2 = rq_history req1"
  shows "get_chat_history hist_dir fs2 (cr_session_id r1) =
     Inr \<lparr>cd_session_id = Some (cr_session_id r1), cd_timestamp = Some now3, cd_last_updated = Some now4,
          cd_conversation = Some (rq_history req1 @ [msg (ustr ''user'') (rq_message req2),
                                                    msg (ustr ''assistant'') (cr_reply r2)])\<rparr>"
  using assms(2)
  by (elim legal_chat_Inr) (auto simp: get_chat_history_def assms(3,4) dest!: fs_read_write)

lemma py_sort_desc_sorted: "sorted (map session_key (rev (py_sort_desc xs)))"
  by (simp add: py_sort_desc_def)

lemma py_sort_desc_mset: "mset (py_sort_desc xs) = mset xs"
  by (simp add: py_sort_desc_def)

lemma py_sort_desc_stable:
  "filter (\<lambda>s. session_key s = k) (py_sort_desc xs) = filter (\<lambda>s. session_key s = k) xs"
  by (simp add: py_sort_desc_def rev_filter[symmetric] sort_key_stable)

text \<open>
  C18. A successful listing holds exactly the summaries of the session files that
  parse (a multiset equality), ordered by \<open>last_updated\<close> from the most recent.
\<close>

theorem list_chat_sessions_sorted:
  "list_chat_sessions hist_dir fs = Inr ss \<Longrightarrow>
   sorted (map session_key (rev ss)) \<and> mset ss = mset (read_sessions (glob_json fs hist_dir))"
  by (auto simp: list_chat_sessions_def Let_def py_sort_desc_sorted py_sort_desc_mset split: if_splits)

text \<open>
  Sessions with equal \<open>last_updated\<close> stay in directory order in the listing,
  as Python's stable \<open>sort(reverse=True)\<close> keeps them.
\<close>

theorem list_chat_sessions_stable:
  "list_chat_sessions hist_dir fs = Inr ss \<Longrightarrow>
   filter (\<lambda>s. session_key s = k) ss = filter (\<lambda>s. session_key s = k) (read_sessions (glob_json fs hist_dir))"
  by (auto simp: list_chat_sessions_def Let_def py_sort_desc_stable split: if_splits)

subsection \<open>Concrete runs\<close>

lemmas chat_store_eval =
  legal_chat_def backend_legal_chat_def list_chat_sessions_def fs_write_def history_file_def
  path_join_def os_path_def parent_dir_def glob_json_def py_endswith_def session_summary_of_def
  py_sort_desc_def

text \<open>
  C17. The two servers share the history directory, and the backend server writes no
  \<open>last_updated\<close>: after one successful chat on each server (sessions
  \<open>s1\<close> and \<open>s2\<close>), listing the sessions fails with status 500.
\<close>

theorem mixed_servers_listing_fails:
  assumes "model1 (chat_messages CHAT_SYSTEM_PROMPT req1) = Inr c1"
    and "model2 (chat_messages BACKEND_CHAT_PROMPT req2) = Inr c2"
    and "rq_session_id req1 = Some (ustr ''s1'')" and "rq_session_id req2 = Some (ustr ''s2'')"
  shows "list_chat_sessions (ustr ''/app/Chatbot/backend/chat_history'')
           (fst (backend_legal_chat model2 fresh2 now (ustr ''/app/Chatbot/backend/chat_history'')
              (fst (legal_chat model1 fresh1 now1 now2 (ustr ''/app/Chatbot/backend/chat_history'')
                     \<lparr>fs_files = [], fs_dirs = [ustr ''/app/Chatbot/backend/chat_history'']\<rparr> req1))
              req2)) =
         Inl (HTTPException 500 (ustr ''Failed to list chat sessions''))"
  using assms by (simp add: chat_store_eval py_or_str_def Let_def)

text \<open>
  C19. The session id is used as a path unchecked: a chat with session id
  \<open>../../../Backend/config\<close> writes \<open>/app/Backend/config.json\<close>, outside the
  history directory, and the session is not listed.
\<close>

theorem session_path_traversal:
  assumes "model (chat_messages CHAT_SYSTEM_PROMPT req) = Inr c"
    and "rq_session_id req = Some (ustr ''../../../Backend/config'')"
  shows "map_of (fs_files (fst (legal_chat model fresh now1 now2 (ustr ''/app/Chatbot/backend/chat_history'')
             \<lparr>fs_files = [], fs_dirs = [ustr ''/app/Chatbot/backend/chat_history'', ustr ''/app/Backend'']\<rparr> req)))
           (ustr ''/app/Backend/config.json'') \<noteq> None \<and>
         list_chat_sessions (ustr ''/app/Chatbot/backend/chat_history'')
           (fst (legal_chat model fresh now1 now2 (ustr ''/app/Chatbot/backend/chat_history'')
             \<lparr>fs_files = [], fs_dirs = [ustr ''/app/Chatbot/backend/chat_history'', ustr ''/app/Backend'']\<rparr> req)) =
           Inr []"
  using assms by (simp add: chat_store_eval py_or_str_def Let_def)

lemma sample_chat_ok:
  "\<exists>fs' r. legal_chat (\<lambda>_. Inr (ustr ''Theft is an offence under IPC 379.'')) (ustr ''u-1'') (ustr ''t1'') (ustr ''t2'')
     (ustr ''/app/Chatbot/backend/chat_history'')
     \<lparr>fs_files = [], fs_dirs = [ustr ''/app/Chatbot/backend/chat_history'']\<rparr>
     \<lparr>rq_message = ustr ''Is theft a crime?'', rq_history = [], rq_session_id = None\<rparr> = (fs', Inr r)"
  by (simp add: chat_store_eval py_or_str_def Let_def)

theorem legal_chat_disclaimer_witness:
  "\<exists>fs' r. legal_chat (\<lambda>_. Inr (ustr ''Theft is an offence under IPC 379.'')) (ustr ''u-1'') (ustr ''t1'') (ustr ''t2'')
     (ustr ''/app/Chatbot/backend/chat_history'')
     \<lparr>fs_files = [], fs_dirs = [ustr ''/app/Chatbot/backend/chat_history'']\<rparr>
     \<lparr>rq_message = ustr ''Is theft a crime?'', rq_history = [], rq_session_id = None\<rparr> = (fs', Inr r) \<and>
   sublist DISCLAIMER_TEXT (cr_reply r)"
  using sample_chat_ok legal_chat_disclaimer by blast

theorem legal_chat_history_roundtrip_witness:
  "\<exists>fs' r. legal_chat (\<lambda>_. Inr (ustr ''Theft is an offence under IPC 379.'')) (ustr ''u-1'') (ustr ''t1'') (ustr ''t2'')
     (ustr ''/app/Chatbot/backend/chat_history'')
     \<lparr>fs_files = [], fs_dirs = [ustr ''/app/Chatbot/backend/chat_history'']\<rparr>
     \<lparr>rq_message = ustr ''Is theft a crime?'', rq_history = [], rq_session_id = None\<rparr> = (fs', Inr r) \<and>
   get_chat_history (ustr ''/app/Chatbot/backend/chat_history'') fs' (cr_session_id r) =
     Inr \<lparr>cd_session_id = Some (cr_session_id r), cd_timestamp = Some (ustr ''t1''),
          cd_last_updated = Some (ustr ''t2''),
          cd_conversation = Some [msg (ustr ''user'') (ustr ''Is theft a crime?''), msg (ustr ''assistant'') (cr_reply r)]\<rparr>"
  using sample_chat_ok legal_chat_history_roundtrip by fastforce

theorem legal_chat_error_witness:
  "\<exists>fs' e. legal_chat (\<lambda>_. Inr (ustr ''Theft is an offence.'')) (ustr ''u-1'') (ustr ''t1'') (ustr ''t2'')
     (ustr ''/app/Chatbot/backend/chat_history'')
     \<lparr>fs_files = [], fs_dirs = [ustr ''/app/Chatbot/backend/chat_history'']\<rparr>
     \<lparr>rq_message = ustr ''Is theft a crime?'', rq_history = [], rq_session_id = Some (ustr ''archive/s1'')\<rparr> =
     (fs', Inl e) \<and>
   fs' = \<lparr>fs_files = [], fs_dirs = [ustr ''/app/Chatbot/backend/chat_history'']\<rparr> \<and>
   e = HTTPException 500 (ustr ''Guardian is currently unreachable. Please try again in a few moments.'')"
proof -
  have "\<exists>fs' e. legal_chat (\<lambda>_. Inr (ustr ''Theft is an offence.'')) (ustr ''u-1'') (ustr ''t1'') (ustr ''t2'')
     (ustr ''/app/Chatbot/backend/chat_history'')
     \<lparr>fs_files = [], fs_dirs = [ustr ''/app/Chatbot/backend/chat_history'']\<rparr>
     \<lparr>rq_message = ustr ''Is theft a crime?'', rq_history = [], rq_session_id = Some (ustr ''archive/s1'')\<rparr> =
     (fs', Inl e)"
    by (simp add: chat_store_eval py_or_str_def Let_def)
  then show ?thesis using legal_chat_error by blast
qed

theorem list_chat_sessions_sorted_witness:
  "\<exists>ss. list_chat_sessions (ustr ''/h'')
     \<lparr>fs_files = [(ustr ''/h/a.json'', Chat_json \<lparr>cd_session_id = Some (ustr ''a''), cd_timestamp = None,
                      cd_last_updated = Some (ustr ''2024-01-05''), cd_conversation = None\<rparr>),
                  (ustr ''/h/b.json'', Malformed_chat),
                  (ustr ''/h/c.json'', Chat_json \<lparr>cd_session_id = Some (ustr ''c''), cd_timestamp = None,
                      cd_last_updated = Some (ustr ''2024-03-01''), cd_conversation = None\<rparr>)],
      fs_dirs = [ustr ''/h'']\<rparr> = Inr ss \<and>
   sorted (map session_key (rev ss)) \<and> map ss_session_id ss = [Some (ustr ''c''), Some (ustr ''a'')]"
proof -
  have "list_chat_sessions (ustr ''/h'')
     \<lparr>fs_files = [(ustr ''/h/a.json'', Chat_json \<lparr>cd_session_id = Some (ustr ''a''), cd_timestamp = None,
                      cd_last_updated = Some (ustr ''2024-01-05''), cd_conversation = None\<rparr>),
                  (ustr ''/h/b.json'', Malformed_chat),
                  (ustr ''/h/c.json'', Chat_json \<lparr>cd_session_id = Some (ustr ''c''), cd_timestamp = None,
                      cd_last_updated = Some (ustr ''2024-03-01''), cd_conversation = None\<rparr>)],
      fs_dirs = [ustr ''/h'']\<rparr> =
     Inr [session_summary_of \<lparr>cd_session_id = Some (ustr ''c''), cd_timestamp = None,
                      cd_last_updated = Some (ustr ''2024-03-01''), cd_conversation = None\<rparr>,
          session_summary_of \<lparr>cd_session_id = Some (ustr ''a''), cd_timestamp = None,
                      cd_last_updated = Some (ustr ''2024-01-05''), cd_conversation = None\<rparr>]"
    (is "?l = Inr ?ss")
    by (simp add: list_chat_sessions_def glob_json_def parent_dir_def os_path_def py_endswith_def
                  py_sort_desc_def session_key_def session_summary_of_def Let_def)
  note l = this
  show ?thesis
    using l list_chat_sessions_sorted[OF l] by (intro exI[of _ ?ss]) (simp add: session_summary_of_def)
qed

theorem list_chat_sessions_stable_witness:
  "\<exists>ss. list_chat_sessions (ustr ''/h'')
     \<lparr>fs_files = [(ustr ''/h/a.json'', Chat_json \<lparr>cd_session_id = Some (ustr ''a''), cd_timestamp = None,
                      cd_last_updated = Some (ustr ''2024-01-05''), cd_conversation = None\<rparr>),
                  (ustr ''/h/c.json'', Chat_json \<lparr>cd_session_id = Some (ustr ''c''), cd_timestamp = None,
                      cd_last_updated = Some (ustr ''2024-01-05''), cd_conversation = None\<rparr>)],
      fs_dirs = [ustr ''/h'']\<rparr> = Inr ss \<and>
   filter (\<lambda>s. session_key s = ustr ''2024-01-05'') ss =
     [session_summary_of \<lparr>cd_session_id = Some (ustr ''a''), cd_timestamp = None,
                      cd_last_updated = Some (ustr ''2024-01-05''), cd_conversation = None\<rparr>,
      session_summary_of \<lparr>cd_session_id = Some (ustr ''c''), cd_timestamp = None,
                      cd_last_updated = Some (ustr ''2024-01-05''), cd_conversation = None\<rparr>]"
proof -
  have "\<exists>ss. list_chat_sessions (ustr ''/h'')
     \<lparr>fs_files = [(ustr ''/h/a.json'', Chat_json \<lparr>cd_session_id = Some (ustr ''a''), cd_timestamp = None,
                      cd_last_updated = Some (ustr ''2024-01-05''), cd_conversation = None\<rparr>),
                  (ustr ''/h/c.json'', Chat_json \<lparr>cd_session_id = Some (ustr ''c''), cd_timestamp = None,
                      cd_last_updated = Some (ustr ''2024-01-05''), cd_conversation = None\<rparr>)],
      fs_dirs = [ustr ''/h'']\<rparr> = Inr ss"
    by (simp add: list_chat_sessions_def glob_json_def parent_dir_def os_path_def py_endswith_def
                  session_summary_of_def Let_def)
  then obtain ss where l: "list_chat_sessions (ustr ''/h'')
     \<lparr>fs_files = [(ustr ''/h/a.json'', Chat_json \<lparr>cd_session_id = Some (ustr ''a''), cd_timestamp = None,
                      cd_last_updated = Some (ustr ''2024-01-05''), cd_conversation = None\<rparr>),
                  (ustr ''/h/c.json'', Chat_json \<lparr>cd_session_id = Some (ustr ''c''), cd_timestamp = None,
                      cd_last_updated = Some (ustr ''2024-01-05''), cd_conversation = None\<rparr>)],
      fs_dirs = [ustr ''/h'']\<rparr> = Inr ss" by blast
  show ?thesis
    using l list_chat_sessions_stable[OF l, of "ustr ''2024-01-05''"]
    by (simp add: glob_json_def parent_dir_def os_path_def py_endswith_def session_key_def
                  session_summary_of_def)
qed

theorem mixed_servers_listing_fails_witness:
  "list_chat_sessions (ustr ''/app/Chatbot/backend/chat_history'')
     (fst (backend_legal_chat (\<lambda>_. Inr (ustr ''ok'')) (ustr ''u2'') (ustr ''t3'') (ustr ''/app/Chatbot/backend/chat_history'')
        (fst (legal_chat (\<lambda>_. Inr (ustr ''ok'')) (ustr ''u1'') (ustr ''t1'') (ustr ''t2'') (ustr ''/app/Chatbot/backend/chat_history'')
               \<lparr>fs_files = [], fs_dirs = [ustr ''/app/Chatbot/backend/chat_history'']\<rparr>
               \<lparr>rq_message = ustr ''q1'', rq_history = [], rq_session_id = Some (ustr ''s1'')\<rparr>))
        \<lparr>rq_message = ustr ''q2'', rq_history = [], rq_session_id = Some (ustr ''s2'')\<rparr>)) =
   Inl (HTTPException 500 (ustr ''Failed to list chat sessions''))"
  by (rule mixed_servers_listing_fails) simp_all

theorem session_path_traversal_witness:
  "map_of (fs_files (fst (legal_chat (\<lambda>_. Inr (ustr ''ok'')) (ustr ''u1'') (ustr ''t1'') (ustr ''t2'')
      (ustr ''/app/Chatbot/backend/chat_history'')
      \<lparr>fs_files = [], fs_dirs = [ustr ''/app/Chatbot/backend/chat_history'', ustr ''/app/Backend'']\<rparr>
      \<lparr>rq_message = ustr ''q'', rq_history = [], rq_session_id = Some (ustr ''../../../Backend/config'')\<rparr>)))
    (ustr ''/app/Backend/config.json'') \<noteq> None"
  using session_path_traversal[of "\<lambda>_. Inr (ustr ''ok'')"
      "\<lparr>rq_message = ustr ''q'', rq_history = [], rq_session_id = Some (ustr ''../../../Backend/config'')\<rparr>"]
  by simp

lemma sample_two_tabs:
  "\<exists>fs1 r1 fs2 r2.
     legal_chat (\<lambda>_. Inr (ustr ''Theft is an offence under IPC 379.'')) (ustr ''u-1'') (ustr ''t1'') (ustr ''t2'')
       (ustr ''/app/Chatbot/backend/chat_history'')
       \<lparr>fs_files = [], fs_dirs = [ustr ''/app/Chatbot/backend/chat_history'']\<rparr>
       \<lparr>rq_message = ustr ''Is theft a crime?'', rq_history = [], rq_session_id = Some (ustr ''s1'')\<rparr> =
       (fs1, Inr r1) \<and>
     legal_chat (\<lambda>_. Inr (ustr ''Bail depends on the offence.'')) (ustr ''u-2'') (ustr ''t3'') (ustr ''t4'')
       (ustr ''/app/Chatbot/backend/chat_history'') fs1
       \<lparr>rq_message = ustr ''Can I get bail?'', rq_history = [], rq_session_id = Some (ustr ''s1'')\<rparr> =
       (fs2, Inr r2) \<and> cr_session_id r1 = ustr ''s1'' \<and> cr_session_id r2 = ustr ''s1''"
  by (simp add: chat_store_eval py_or_str_def Let_def)

theorem concurrent_chats_lose_update_witness:
  "\<exists>fs1 r1 fs2 r2.
     legal_chat (\<lambda>_. Inr (ustr ''Theft is an offence under IPC 379.'')) (ustr ''u-1'') (ustr ''t1'') (ustr ''t2'')
       (ustr ''/app/Chatbot/backend/chat_history'')
       \<lparr>fs_files = [], fs_dirs = [ustr ''/app/Chatbot/backend/chat_history'']\<rparr>
       \<lparr>rq_message = ustr ''Is theft a crime?'', rq_history = [], rq_session_id = Some (ustr ''s1'')\<rparr> =
       (fs1, Inr r1) \<and>
     legal_chat (\<lambda>_. Inr (ustr ''Bail depends on the offence.'')) (ustr ''u-2'') (ustr ''t3'') (ustr ''t4'')
       (ustr ''/app/Chatbot/backend/chat_history'') fs1
       \<lparr>rq_message = ustr ''Can I get bail?'', rq_history = [], rq_session_id = Some (ustr ''s1'')\<rparr> =
       (fs2, Inr r2) \<and>
     get_chat_history (ustr ''/app/Chatbot/backend/chat_history'') fs2 (ustr ''s1'') =
       Inr \<lparr>cd_session_id = Some (ustr ''s1''), cd_timestamp = Some (ustr ''t3''),
            cd_last_updated = Some (ustr ''t4''),
            cd_conversation = Some [msg (ustr ''user'') (ustr ''Can I get bail?''),
                                    msg (ustr ''assistant'') (cr_reply r2)]\<rparr>"
proof -
  obtain fs1 r1 fs2 r2 where
    c1: "legal_chat (\<lambda>_. Inr (ustr ''Theft is an offence under IPC 379.'')) (ustr ''u-1'') (ustr ''t1'') (ustr ''t2'')
       (ustr ''/app/Chatbot/backend/chat_history'')
       \<lparr>fs_files = [], fs_dirs = [ustr ''/app/Chatbot/backend/chat_history'']\<rparr>
       \<lparr>rq_message = ustr ''Is theft a crime?'', rq_history = [], rq_session_id = Some (ustr ''s1'')\<rparr> =
       (fs1, Inr r1)" and
    c2: "legal_chat (\<lambda>_. Inr (ustr ''Bail depends on the offence.'')) (ustr ''u-2'') (ustr ''t3'') (ustr ''t4'')
       (ustr ''/app/Chatbot/backend/chat_history'') fs1
       \<lparr>rq_message = ustr ''Can I get bail?'', rq_history = [], rq_session_id = Some (ustr ''s1'')\<rparr> =
       (fs2, Inr r2)" and
    s1: "cr_session_id r1 = ustr ''s1''" and s2: "cr_session_id r2 = ustr ''s1''"
    using sample_two_tabs by blast
  have "get_chat_history (ustr ''/app/Chatbot/backend/chat_history'') fs2 (cr_session_id r1) =
       Inr \<lparr>cd_session_id = Some (cr_session_id r1), cd_timestamp = Some (ustr ''t3''),
            cd_last_updated = Some (ustr ''t4''),
            cd_conversation = Some ([] @ [msg (ustr ''user'') (ustr ''Can I get bail?''),
                                    msg (ustr ''assistant'') (cr_reply r2)])\<rparr>"
    using concurrent_chats_lose_update[OF c1 c2] s1 s2 by simp
  then show ?thesis using c1 c2 s1 by auto
qed

end
