(* ===== verification/Template_Flow.thy ===== *)
theory Template_Flow
  imports Chat_Store
begin

text \<open>
  The template endpoints of \<open>src/Chatbot/backend/main.py\<close>: \<open>load_metadata\<close>,
  \<open>start_ai_flow\<close> (the model picks a template from the metadata summaries and asks
  a first question), \<open>ai_next_question\<close>, \<open>extract_answers\<close> and
  \<open>complete_template\<close> (the model fills the template and answers in JSON, possibly
  inside a Markdown fence). The template directory is a list of resolved paths to
  metadata files and \<open>.docx\<close> documents; a metadata file is a JSON list of objects
  whose values are strings, a key being absent when its field is \<open>None\<close>; a
  document is its list of paragraph texts. The Groq call is the parameter
  \<open>model\<close>, \<open>json.loads\<close> of the completion the parameter \<open>parse\<close>.
\<close>

record template_entry =
  te_title :: "ustr option"
  te_summary :: "ustr option"
  te_filename :: "ustr option"

datatype metadata_file = Metadata "template_entry list" | Malformed_metadata

datatype docx_file = Docx "ustr list" | Corrupt_docx

record template_fs =
  tf_metadata :: "(ustr \<times> metadata_file) list"
  tf_docs :: "(ustr \<times> docx_file) list"

text \<open>\<open>str(e)\<close> of Starlette's \<open>HTTPException\<close>: status and detail.\<close>

definition http_str :: "http_error \<Rightarrow> ustr" where
  "http_str e = (case e of HTTPException c d \<Rightarrow> py_str_nat c @ ustr '': '' @ d)"

text \<open>\<open>f"{x}"\<close> of an optional string and the truth value of \<open>subtype\<close>.\<close>

definition fmt_opt :: "ustr option \<Rightarrow> ustr" where
  "fmt_opt v = (case v of None \<Rightarrow> ustr ''None'' | Some s \<Rightarrow> s)"

definition subdir :: "ustr option \<Rightarrow> ustr option" where
  "subdir v = (case v of None \<Rightarrow> None | Some s \<Rightarrow> if s = [] then None else Some s)"

definition docx_text :: "ustr list \<Rightarrow> ustr" where
  "docx_text paras = py_join [10] (filter (\<lambda>p. py_strip p \<noteq> []) paras)"

subsection \<open>\<open>load_metadata\<close>\<close>

definition metadata_path :: "ustr \<Rightarrow> ustr \<Rightarrow> ustr option \<Rightarrow> ustr" where
  "metadata_path tdir category subtype =
     (case subdir subtype of
        Some st \<Rightarrow> path_join (path_join (path_join tdir category) st) (ustr ''metadata.json'')
      | None \<Rightarrow> path_join (path_join tdir category) (ustr ''metadata.json''))"

definition load_metadata ::
  "ustr \<Rightarrow> template_fs \<Rightarrow> ustr \<Rightarrow> ustr option \<Rightarrow> template_entry list http_result" where
  "load_metadata tdir tfs category subtype =
     (let target_path = metadata_path tdir category subtype in
      case map_of (tf_metadata tfs) (os_path target_path) of
        None \<Rightarrow> Inl (HTTPException 404 (ustr ''metadata.json not found for category='' @ [39] @ category @ [39] @
                 ustr '' subtype='' @ [39] @ fmt_opt subtype @ [39] @ ustr ''. Expected at: '' @ target_path))
      | Some Malformed_metadata \<Rightarrow> Inl (HTTPException 500 (ustr ''metadata.json is not a valid JSON file''))
      | Some (Metadata ts) \<Rightarrow> Inr ts)"

subsection \<open>\<open>start_ai_flow\<close>\<close>

record ai_start_request =
  as_category :: ustr
  as_subtype :: "ustr option"
  as_user_input :: ustr

record ai_start_reply =
  ar_question :: ustr
  ar_filename :: ustr

definition entry_complete :: "template_entry \<Rightarrow> bool" where
  "entry_complete t \<longleftrightarrow> te_title t \<noteq> None \<and> te_summary t \<noteq> None \<and> te_filename t \<noteq> None"

definition entry_summary :: "template_entry \<Rightarrow> ustr" where
  "entry_summary t =
     ustr ''Title: '' @ fmt_opt (te_title t) @ ustr ''\<newline>Summary: '' @ fmt_opt (te_summary t) @
     ustr ''\<newline>Filename: '' @ fmt_opt (te_filename t)"

definition entry_filename :: "template_entry \<Rightarrow> ustr" where
  "entry_filename t = (case te_filename t of None \<Rightarrow> [] | Some f \<Rightarrow> f)"

text \<open>\<open>f"{data.subtype}/{f}" if data.subtype else f\<close>.\<close>

definition with_subtype :: "ustr option \<Rightarrow> ustr \<Rightarrow> ustr" where
  "with_subtype subtype f = (case subdir subtype of Some st \<Rightarrow> st @ [47] @ f | None \<Rightarrow> f)"

definition SELECTION_PROMPT_HEAD :: ustr where
  "SELECTION_PROMPT_HEAD =
     ustr ''You are an expert legal assistant helping users find the '' @
     ustr ''most suitable document template.\<newline>A user described '' @
     ustr ''their issue as:\<newline>\<newline>''"

definition SELECTION_PROMPT_MID :: ustr where
  "SELECTION_PROMPT_MID =
     ustr ''\<newline>\<newline>Here are the available legal document '' @
     ustr ''templates:\<newline>\<newline>''"

definition SELECTION_PROMPT_TAIL :: ustr where
  "SELECTION_PROMPT_TAIL =
     ustr ''\<newline>\<newline>Your task:\<newline>'' @ [0x2014] @
     ustr '' Select the single most suitable template.\<newline>'' @
     [0x2014] @ ustr '' Respond ONLY with the value of the '' @ [39] @
     ustr ''filename'' @ [39] @
     ustr '' field (e.g. template_for_unreasonableness).\<newline>'' @
     [0x2014] @ ustr '' Do NOT explain your choice.\<newline>'' @ [0x2014] @
     ustr '' If multiple templates could apply, choose the best one '' @
     ustr ''based on the user'' @ [39] @ ustr ''s description.\<newline>'' @
     [0x2014] @
     ustr '' If unsure, pick the closest reasonable match anyway '' @
     [0x2014] @ ustr '' do NOT say '' @ [39] @ ustr ''none match'' @ [39] @
     ustr ''.''"

definition QUESTION_PROMPT :: ustr where
  "QUESTION_PROMPT =
     ustr ''You are a professional legal assistant helping a user complete '' @
     ustr ''a legal document.\<newline>You are given the full text of '' @
     ustr ''the template. Read it carefully and identify all placeholders '' @
     ustr ''or gaps that must be completed by the user (e.g. [insert '' @
     ustr ''full address], empty lines, bullet point options, or areas '' @
     ustr ''left blank for details).\<newline>\<newline>Ask questions '' @
     ustr ''one at a time to gather the exact information needed to '' @
     ustr ''fill in these blanks. Start with the most essential or obvious '' @
     ustr ''missing fields.\<newline>Make each question clear, simple, '' @
     ustr ''and specific '' @ [0x2014] @ ustr '' just like you'' @ [39] @
     ustr ''re guiding someone through a form.\<newline>If there are '' @
     ustr ''multiple options in a section (e.g. a, b, c), ask follow-up '' @
     ustr ''questions to help the user choose the correct one.\<newline>Do '' @
     ustr ''not explain the document. Just act like a legal assistant '' @
     ustr ''who knows what details are needed and asks for them naturally, '' @
     ustr ''one by one.\<newline>Avoid asking for contact info unless '' @
     ustr ''the template explicitly requires it.\<newline>\<newline>Once '' @
     ustr ''the necessary information has been collected, the document '' @
     ustr ''will be auto-completed and downloaded by the user.''"

definition NEXT_SYSTEM_PROMPT :: ustr where
  "NEXT_SYSTEM_PROMPT =
     ustr ''You are a professional legal assistant continuing a session '' @
     ustr ''to help a user complete a legal document.\<newline>You have '' @
     ustr ''access to the full document template and the conversation '' @
     ustr ''history.\<newline>Identify any remaining placeholders (like '' @
     ustr ''[insert...], blank lines, bullet point choices, or missing '' @
     ustr ''details).\<newline>Ask ONE specific, clear question at a '' @
     ustr ''time to gather that missing information.\<newline>If all '' @
     ustr ''placeholders are filled, respond with __COMPLETE__ to signal '' @
     ustr ''the document is ready for generation.\<newline>Do not explain '' @
     ustr ''or summarize the document '' @ [0x2014] @
     ustr '' focus only on gathering the required inputs naturally and '' @
     ustr ''efficiently.''"

definition SELECTION_SYSTEM :: ustr where
  "SELECTION_SYSTEM = ustr ''You are a helpful legal assistant...''"

definition FALLBACK_FIRST_QUESTION :: ustr where
  "FALLBACK_FIRST_QUESTION =
     ustr ''The AI service is temporarily unavailable. Let'' @ [39] @
     ustr ''s start with the basics: What is your name and address?''"

definition FALLBACK_SELECTED_QUESTION :: ustr where
  "FALLBACK_SELECTED_QUESTION =
     ustr ''I'' @ [39] @ ustr ''ve selected a template for you. To begin, could you provide your full legal name and current address?''"

definition selection_prompt :: "ustr \<Rightarrow> template_entry list \<Rightarrow> ustr" where
  "selection_prompt user_input templates =
     SELECTION_PROMPT_HEAD @ py_strip user_input @ SELECTION_PROMPT_MID @
     py_join (ustr ''\<newline>\<newline>'') (map entry_summary templates) @ SELECTION_PROMPT_TAIL"

text \<open>
  The body of the \<open>try\<close> block; an exception leaves it as the text
  \<open>str(e)\<close>, which the \<open>except\<close> clause of \<open>start_ai_flow\<close> turns into a 500
  error, also for the \<open>HTTPException\<close>s raised inside the block.
\<close>

definition start_ai_body ::
  "groq_model \<Rightarrow> ustr \<Rightarrow> template_fs \<Rightarrow> ai_start_request \<Rightarrow> ustr + ai_start_reply" where
  "start_ai_body model tdir tfs data =
     (case load_metadata tdir tfs (as_category data) (as_subtype data) of
        Inl e \<Rightarrow> Inl (http_str e)
      | Inr templates \<Rightarrow>
          if templates = [] then Inl (http_str (HTTPException 404 (ustr ''No templates found in metadata.'')))
          else if \<not> list_all entry_complete templates
          then Inl (http_str (HTTPException 500 (ustr ''Invalid metadata format'')))
          else
            (case model [msg (ustr ''system'') SELECTION_SYSTEM,
                         msg (ustr ''user'') (selection_prompt (as_user_input data) templates)] of
               Inl _ \<Rightarrow> Inr \<lparr>ar_question = FALLBACK_FIRST_QUESTION,
                             ar_filename = with_subtype (as_subtype data) (entry_filename (hd templates))\<rparr>
             | Inr content \<Rightarrow>
                 (let selected = py_strip content in
                  if \<not> list_ex (\<lambda>t. py_lower (py_strip (entry_filename t)) = py_lower selected) templates
                  then Inl (http_str (HTTPException 404 (ustr ''Template match not found in metadata'')))
                  else
                    (let doc_filename = selected @ ustr ''.docx'';
                         doc_path = (case subdir (as_subtype data) of
                                       Some st \<Rightarrow> path_join (path_join (path_join tdir (as_category data)) st) doc_filename
                                     | None \<Rightarrow> path_join (path_join tdir (as_category data)) doc_filename)
                     in case map_of (tf_docs tfs) (os_path doc_path) of
                          None \<Rightarrow> Inl (http_str (HTTPException 404 (ustr ''Selected template file not found'')))
                        | Some Corrupt_docx \<Rightarrow> Inl (ustr ''Package not found at '' @ [39] @ doc_path @ [39])
                        | Some (Docx paras) \<Rightarrow>
                            (case model [msg (ustr ''system'') QUESTION_PROMPT, msg (ustr ''user'') (docx_text paras)] of
                               Inl _ \<Rightarrow> Inr \<lparr>ar_question = FALLBACK_SELECTED_QUESTION,
                                             ar_filename = with_subtype (as_subtype data) selected\<rparr>
                             | Inr q \<Rightarrow> Inr \<lparr>ar_question = py_strip q,
                                             ar_filename = with_subtype (as_subtype data) selected\<rparr>)))))"

definition start_ai_flow ::
  "groq_model \<Rightarrow> ustr \<Rightarrow> template_fs \<Rightarrow> ai_start_request \<Rightarrow> ai_start_reply http_result" where
  "start_ai_flow model tdir tfs data =
     (case start_ai_body model tdir tfs data of
        Inl s \<Rightarrow> Inl (HTTPException 500 s)
      | Inr r \<Rightarrow> Inr r)"


subsection \<open>\<open>ai_next_question\<close>\<close>

record ai_next_request =
  an_category :: ustr
  an_filename :: ustr
  an_messages :: "chat_msg list"

definition NEXT_APOLOGY :: ustr where
  "NEXT_APOLOGY =
     ustr ''I apologize, but I'' @ [39] @
     ustr ''m having trouble connecting to my brain right now. Please try again in a moment, or ensure all required fields are provided.''"

text \<open>
  \<open>data.filename.split("/", 1)\<close> chooses the subfolder. Every exception of the
  \<open>try\<close> block, the \<open>HTTPException(404)\<close> for a missing template included, is
  caught by the first \<open>except Exception\<close> and answered with the apology; the
  second \<open>except\<close> clause is unreachable.
\<close>

definition ai_next_question :: "groq_model \<Rightarrow> ustr \<Rightarrow> template_fs \<Rightarrow> ai_next_request \<Rightarrow> ustr" where
  "ai_next_question model tdir tfs data =
     (let file_path =
        (case py_split1 47 (an_filename data) of
           [subfolder, filename] \<Rightarrow>
             path_join (path_join (path_join tdir (an_category data)) subfolder) (filename @ ustr ''.docx'')
         | _ \<Rightarrow> path_join (path_join tdir (an_category data)) (an_filename data @ ustr ''.docx''))
      in case map_of (tf_docs tfs) (os_path file_path) of
           Some (Docx paras) \<Rightarrow>
             (case model (msg (ustr ''system'') NEXT_SYSTEM_PROMPT #
                          msg (ustr ''user'') (ustr ''This is the template:\<newline>\<newline>'' @ docx_text paras) #
                          an_messages data) of
                Inl _ \<Rightarrow> NEXT_APOLOGY
              | Inr reply \<Rightarrow> py_strip reply)
         | _ \<Rightarrow> NEXT_APOLOGY)"

subsection \<open>\<open>extract_answers\<close>\<close>

text \<open>The messages at odd positions, \<open>range(1, len(messages), 2)\<close>.\<close>

fun odd_positions :: "'a list \<Rightarrow> 'a list" where
  "odd_positions (x # y # zs) = y # odd_positions zs"
| "odd_positions _ = []"

definition extract_answers :: "chat_msg list \<Rightarrow> py_error + ustr list" where
  "extract_answers messages =
     (case sum_map (\<lambda>m. case cm_role m of
                          None \<Rightarrow> Inl (KeyError (ustr ''role''))
                        | Some r \<Rightarrow>
                            if r = ustr ''user''
                            then (case cm_content m of None \<Rightarrow> Inl (KeyError (ustr ''content'')) | Some c \<Rightarrow> Inr [c])
                            else Inr [])
                   (odd_positions messages) of
        Inl e \<Rightarrow> Inl e
      | Inr xss \<Rightarrow> Inr (concat xss))"

subsection \<open>\<open>complete_template\<close>\<close>

record ai_complete_request =
  ac_category :: ustr
  ac_filename :: ustr
  ac_messages :: "chat_msg list"

text \<open>The keys of the model's JSON answer that the handler reads.\<close>

record completion =
  cp_next_question :: "ustr option"
  cp_filled_document :: "ustr option"

datatype complete_reply = Next_question ustr | Filled_document "ustr list" ustr

text \<open>\<open>content.split("```json")[-1].split("```")[0].strip()\<close> when the fence occurs.\<close>

definition strip_json_fence :: "ustr \<Rightarrow> ustr" where
  "strip_json_fence c =
     (if py_in (ustr ''```json'') c
      then py_strip (hd (py_split (ustr ''```'') (last (py_split (ustr ''```json'') c))))
      else c)"

text \<open>\<open>"\n".join(f"{m['role']}: {m['content']}" for m in data.messages)\<close>.\<close>

definition chat_log :: "chat_msg list \<Rightarrow> py_error + ustr" where
  "chat_log messages =
     (case sum_map (\<lambda>m. case cm_role m of
                          None \<Rightarrow> Inl (KeyError (ustr ''role''))
                        | Some r \<Rightarrow> (case cm_content m of
                                      None \<Rightarrow> Inl (KeyError (ustr ''content''))
                                    | Some c \<Rightarrow> Inr (r @ ustr '': '' @ c))) messages of
        Inl e \<Rightarrow> Inl e
      | Inr ls \<Rightarrow> Inr (py_join [10] ls))"

definition FILL_PROMPT_HEAD :: ustr where
  "FILL_PROMPT_HEAD =
     ustr ''\<newline>You are a professional legal assistant.\<newline>Fill '' @
     ustr ''every gap in the document below (brackets, underlines, dotted '' @
     ustr ''blanks) using only the conversation data.\<newline>\<newline>DOCUMENT '' @
     ustr ''TEMPLATE:\<newline>''"

definition FILL_PROMPT_MID :: ustr where
  "FILL_PROMPT_MID =
     ustr ''\<newline>\<newline>CONVERSATION:\<newline>''"

definition FILL_PROMPT_TAIL :: ustr where
  "FILL_PROMPT_TAIL =
     ustr ''\<newline>\<newline>Return JSON with:\<newline>  nextQuestion: '' @
     ustr ''<string or null>\<newline>  filledDocument: <complete text '' @
     ustr ''or null>\<newline>''"


definition FILL_SYSTEM :: ustr where
  "FILL_SYSTEM = ustr ''You fill in and ask for missing info. Your output must be valid JSON.''"

definition FILL_FAILED :: http_error where
  "FILL_FAILED = HTTPException 500 (ustr ''Failed to generate document. Please ensure all details are provided.'')"

text \<open>
  An exception outside the \<open>try\<close> block (a missing key in a message, an unreadable
  document, a missing \<open>filledDocument\<close>) reaches FastAPI, which answers
  \<open>500 Internal Server Error\<close>.
\<close>

definition UNHANDLED :: http_error where
  "UNHANDLED = HTTPException 500 (ustr ''Internal Server Error'')"

definition complete_template ::
  "(ustr \<Rightarrow> completion option) \<Rightarrow> groq_model \<Rightarrow> ustr \<Rightarrow> template_fs \<Rightarrow> ai_complete_request \<Rightarrow>
   complete_reply http_result" where
  "complete_template parse model tdir tfs data =
     (let filename = py_replace (ustr ''.docx'') [] (ac_filename data);
          file_path = path_join (path_join tdir (ac_category data)) (filename @ ustr ''.docx'')
      in case map_of (tf_docs tfs) (os_path file_path) of
           None \<Rightarrow> Inl (HTTPException 404 (ustr ''Template not found''))
         | Some Corrupt_docx \<Rightarrow> Inl UNHANDLED
         | Some (Docx paras) \<Rightarrow>
             (case chat_log (ac_messages data) of
                Inl _ \<Rightarrow> Inl UNHANDLED
              | Inr log \<Rightarrow>
                  (case model [msg (ustr ''system'') FILL_SYSTEM,
                               msg (ustr ''user'') (FILL_PROMPT_HEAD @ docx_text paras @ FILL_PROMPT_MID @ log @
                                                   FILL_PROMPT_TAIL)] of
                     Inl _ \<Rightarrow> Inl FILL_FAILED
                   | Inr content \<Rightarrow>
                       (case parse (strip_json_fence (py_strip content)) of
                          None \<Rightarrow> Inl FILL_FAILED
                        | Some result \<Rightarrow>
                            if cp_next_question result \<noteq> None \<and> cp_next_question result \<noteq> Some []
                            then Inr (Next_question (fmt_opt (cp_next_question result)))
                            else (case cp_filled_document result of
                                    None \<Rightarrow> Inl UNHANDLED
                                  | Some doc \<Rightarrow>
                                      Inr (Filled_document (py_split [10] doc)
                                             (ustr ''filled_'' @ filename @ ustr ''.docx'')))))))"


subsection \<open>Properties\<close>

text \<open>
  Fence stripping inverts the Markdown fence the model puts around JSON: for a
  text without backticks, \<open>strip_json_fence\<close> of \<open>```json\<close>, a newline, the
  text, a newline and \<open>```\<close> is the stripped text.
\<close>

theorem strip_json_fence_roundtrip:
  "\<not> py_in (ustr ''`'') j \<Longrightarrow>
   strip_json_fence (ustr ''```json'' @ [10] @ j @ [10] @ ustr ''```'') = py_strip j"
proof -
  assume j: "\<not> py_in (ustr ''`'') j"
  then have nb: "96 \<notin> set ([10] @ j @ [10])" by (simp add: py_in_single)
  have n1: "\<not> py_in (ustr ''```json'') (([10] @ j @ [10]) @ ustr ''```'')"
  proof
    assume "py_in (ustr ''```json'') (([10] @ j @ [10]) @ ustr ''```'')"
    then have "sublist (96 # ustr ''``json'') (ustr ''```'')"
      using sublist_Cons_skip[OF nb] by (simp add: py_in_sublist)
    then show False by (auto dest: sublist_length_le)
  qed
  have n2: "\<not> py_in (ustr ''```'') (([10] @ j @ [10]) @ ustr ''``'')"
  proof
    assume "py_in (ustr ''```'') (([10] @ j @ [10]) @ ustr ''``'')"
    then have "sublist (96 # ustr ''``'') (ustr ''``'')"
      using sublist_Cons_skip[OF nb] by (simp add: py_in_sublist)
    then show False by (auto dest: sublist_length_le)
  qed
  have s1: "py_split (ustr ''```json'') (ustr ''```json'' @ [10] @ j @ [10] @ ustr ''```'') =
            [[], [10] @ j @ [10] @ ustr ''```'']"
    using py_split_sep_prefix[of "ustr ''```json''"] py_split_no_occ[OF _ n1] by simp
  have s2: "py_split (ustr ''```'') (([10] @ j @ [10]) @ ustr ''```'' @ []) = ([10] @ j @ [10]) # [[]]"
    using py_split_first[of "ustr ''```''" "[10] @ j @ [10]" "[]"] n2 by simp
  have "py_in (ustr ''```json'') (ustr ''```json'' @ [10] @ j @ [10] @ ustr ''```'')"
    by (simp add: py_in_sublist)
  then show ?thesis
    using s1 s2 py_strip_spaces[of "[10]" "[10]" j] by (simp add: strip_json_fence_def py_isspace_def)
qed

text \<open>
  C26. \<open>start_ai_flow\<close> catches its own \<open>HTTPException\<close>s: a missing
  metadata file reaches the client as status 500 whose detail is the 404 exception
  printed (\<open>404: metadata.json not found ...\<close>), not as a 404.
\<close>

theorem start_ai_flow_missing_metadata:
  "map_of (tf_metadata tfs) (os_path (metadata_path tdir (as_category data) (as_subtype data))) = None \<Longrightarrow>
   start_ai_flow model tdir tfs data =
     Inl (HTTPException 500 (ustr ''404: metadata.json not found for category='' @ [39] @ as_category data @ [39] @
       ustr '' subtype='' @ [39] @ fmt_opt (as_subtype data) @ [39] @ ustr ''. Expected at: '' @
       metadata_path tdir (as_category data) (as_subtype data)))"
  by (simp add: start_ai_flow_def start_ai_body_def load_metadata_def http_str_def)

lemma start_ai_body_Inr:
  assumes "load_metadata tdir tfs (as_category data) (as_subtype data) = Inr ts"
    and "start_ai_body model tdir tfs data = Inr r"
  shows "\<exists>f. ar_filename r = with_subtype (as_subtype data) f \<and>
           list_ex (\<lambda>t. entry_filename t = f \<or> py_lower (py_strip (entry_filename t)) = py_lower f) ts"
proof -
  have ne: "ts \<noteq> []" using assms by (auto simp: start_ai_body_def split: if_splits)
  show ?thesis
  proof (cases "model [msg (ustr ''system'') SELECTION_SYSTEM,
                       msg (ustr ''user'') (selection_prompt (as_user_input data) ts)]")
    case (Inl e)
    then have "ar_filename r = with_subtype (as_subtype data) (entry_filename (hd ts))"
      using assms by (auto simp: start_ai_body_def split: if_splits)
    then show ?thesis using ne by (intro exI[of _ "entry_filename (hd ts)"]) (cases ts; auto)
  next
    case (Inr content)
    then have "ar_filename r = with_subtype (as_subtype data) (py_strip content) \<and>
               list_ex (\<lambda>t. py_lower (py_strip (entry_filename t)) = py_lower (py_strip content)) ts"
      using assms
      by (auto simp: start_ai_body_def Let_def split: if_splits option.splits docx_file.splits sum.splits)
    then show ?thesis by (auto simp: list_ex_iff)
  qed
qed

text \<open>
  C24. A successful \<open>start_ai_flow\<close> returns a file name that names a template of the
  metadata (exactly, or after stripping and lower-casing), prefixed by the subtype
  when one is given.
\<close>

theorem start_ai_flow_filename_sound:
  "load_metadata tdir tfs (as_category data) (as_subtype data) = Inr ts \<Longrightarrow>
   start_ai_flow model tdir tfs data = Inr r \<Longrightarrow>
   \<exists>f. ar_filename r = with_subtype (as_subtype data) f \<and>
       list_ex (\<lambda>t. entry_filename t = f \<or> py_lower (py_strip (entry_filename t)) = py_lower f) ts"
  by (rule start_ai_body_Inr) (auto simp: start_ai_flow_def split: sum.splits)

lemma complete_template_Filled:
  assumes "complete_template parse model tdir tfs data = Inr (Filled_document lines name)"
  obtains content r doc where "parse (strip_json_fence (py_strip content)) = Some r"
    "cp_filled_document r = Some doc" "lines = py_split [10] doc"
    "name = ustr ''filled_'' @ py_replace (ustr ''.docx'') [] (ac_filename data) @ ustr ''.docx''"
  using assms
  by (auto simp: complete_template_def Let_def split: option.splits docx_file.splits sum.splits if_splits)

text \<open>
  The completed document keeps the model's text: when \<open>complete_template\<close>
  answers with a document, its paragraphs are the lines of the \<open>filledDocument\<close> the
  model returned, and joining them with newlines gives that text back exactly; the
  download is named \<open>filled_\<close> and the requested name without \<open>.docx\<close>.
\<close>

theorem complete_template_document_roundtrip:
  "complete_template parse model tdir tfs data = Inr (Filled_document lines name) \<Longrightarrow>
   \<exists>content r doc. parse (strip_json_fence (py_strip content)) = Some r \<and> cp_filled_document r = Some doc \<and>
     py_join [10] lines = doc \<and>
     name = ustr ''filled_'' @ py_replace (ustr ''.docx'') [] (ac_filename data) @ ustr ''.docx''"
  by (erule complete_template_Filled) (auto simp: py_join_split)

theorem strip_json_fence_roundtrip_witness:
  "\<not> py_in (ustr ''`'') [123, 34, 97, 34, 58, 32, 49, 125] \<and>
   strip_json_fence (ustr ''```json'' @ [10] @ [123, 34, 97, 34, 58, 32, 49, 125] @ [10] @ ustr ''```'') =
     [123, 34, 97, 34, 58, 32, 49, 125]"
proof -
  have h: "\<not> py_in (ustr ''`'') [123, 34, 97, 34, 58, 32, 49, 125]" by simp
  show ?thesis
    using h strip_json_fence_roundtrip[OF h] by (simp add: py_strip_def py_isspace_def)
qed

theorem start_ai_flow_missing_metadata_witness:
  "start_ai_flow (\<lambda>_. Inr (ustr ''rent_agreement'')) (ustr ''/srv/templates'') \<lparr>tf_metadata = [], tf_docs = []\<rparr>
     \<lparr>as_category = ustr ''civil'', as_subtype = None, as_user_input = ustr ''My landlord keeps my deposit''\<rparr> =
   Inl (HTTPException 500 (ustr ''404: metadata.json not found for category='' @ [39] @ ustr ''civil'' @ [39] @
     ustr '' subtype='' @ [39] @ ustr ''None'' @ [39] @ ustr ''. Expected at: /srv/templates/civil/metadata.json''))"
  by (subst start_ai_flow_missing_metadata)
     (simp_all add: metadata_path_def subdir_def path_join_def fmt_opt_def)

theorem start_ai_flow_filename_sound_witness:
  "\<exists>r. load_metadata (ustr ''/t'')
       \<lparr>tf_metadata = [(ustr ''/t/civil/metadata.json'',
          Metadata [\<lparr>te_title = Some (ustr ''Rent''), te_summary = Some (ustr ''Lease''),
                     te_filename = Some (ustr ''rent_agreement'')\<rparr>])],
        tf_docs = [(ustr ''/t/civil/Rent_Agreement.docx'', Docx [ustr ''Landlord: ____''])]\<rparr>
       (ustr ''civil'') None =
       Inr [\<lparr>te_title = Some (ustr ''Rent''), te_summary = Some (ustr ''Lease''),
             te_filename = Some (ustr ''rent_agreement'')\<rparr>] \<and>
     start_ai_flow (\<lambda>_. Inr (ustr '' Rent_Agreement'')) (ustr ''/t'')
       \<lparr>tf_metadata = [(ustr ''/t/civil/metadata.json'',
          Metadata [\<lparr>te_title = Some (ustr ''Rent''), te_summary = Some (ustr ''Lease''),
                     te_filename = Some (ustr ''rent_agreement'')\<rparr>])],
        tf_docs = [(ustr ''/t/civil/Rent_Agreement.docx'', Docx [ustr ''Landlord: ____''])]\<rparr>
       \<lparr>as_category = ustr ''civil'', as_subtype = None, as_user_input = ustr ''deposit''\<rparr> = Inr r \<and>
     (\<exists>f. ar_filename r = with_subtype None f \<and>
          list_ex (\<lambda>t. entry_filename t = f \<or> py_lower (py_strip (entry_filename t)) = py_lower f)
            [\<lparr>te_title = Some (ustr ''Rent''), te_summary = Some (ustr ''Lease''),
              te_filename = Some (ustr ''rent_agreement'')\<rparr>])"
proof -
  let ?tfs = "\<lparr>tf_metadata = [(ustr ''/t/civil/metadata.json'',
          Metadata [\<lparr>te_title = Some (ustr ''Rent''), te_summary = Some (ustr ''Lease''),
                     te_filename = Some (ustr ''rent_agreement'')\<rparr>])],
        tf_docs = [(ustr ''/t/civil/Rent_Agreement.docx'', Docx [ustr ''Landlord: ____''])]\<rparr>"
  let ?ts = "[\<lparr>te_title = Some (ustr ''Rent''), te_summary = Some (ustr ''Lease''),
             te_filename = Some (ustr ''rent_agreement'')\<rparr>]"
  let ?data = "\<lparr>as_category = ustr ''civil'', as_subtype = None, as_user_input = ustr ''deposit''\<rparr>"
  have l1: "load_metadata (ustr ''/t'') ?tfs (ustr ''civil'') None = Inr ?ts"
    by (simp add: load_metadata_def metadata_path_def subdir_def path_join_def os_path_def)
  then have l: "load_metadata (ustr ''/t'') ?tfs (as_category ?data) (as_subtype ?data) = Inr ?ts"
    by simp
  have r: "start_ai_flow (\<lambda>_. Inr (ustr '' Rent_Agreement'')) (ustr ''/t'') ?tfs ?data =
           Inr \<lparr>ar_question = ustr ''Rent_Agreement'', ar_filename = ustr ''Rent_Agreement''\<rparr>"
    apply (simp add: start_ai_flow_def start_ai_body_def l1 del: ustr_Cons)
    apply (simp add: entry_complete_def entry_filename_def
          with_subtype_def subdir_def path_join_def os_path_def py_strip_def py_isspace_def
          py_lower_cp_def is_ascii_upper_def Let_def)
    done
  show ?thesis
    using l r start_ai_flow_filename_sound[OF l r] by auto
qed

theorem complete_template_document_roundtrip_witness:
  "complete_template (\<lambda>_. Some \<lparr>cp_next_question = None, cp_filled_document = Some (ustr ''Landlord: Asha'' @ [10] @ ustr ''Tenant: Ravi'')\<rparr>)
     (\<lambda>_. Inr (ustr ''{}'')) (ustr ''/t'') \<lparr>tf_metadata = [], tf_docs = [(ustr ''/t/civil/rent.docx'', Docx [ustr ''Landlord: ____''])]\<rparr>
     \<lparr>ac_category = ustr ''civil'', ac_filename = ustr ''rent.docx'', ac_messages = []\<rparr> =
     Inr (Filled_document [ustr ''Landlord: Asha'', ustr ''Tenant: Ravi''] (ustr ''filled_rent.docx'')) \<and>
   py_join [10] [ustr ''Landlord: Asha'', ustr ''Tenant: Ravi''] = ustr ''Landlord: Asha'' @ [10] @ ustr ''Tenant: Ravi''"
proof -
  have h: "complete_template (\<lambda>_. Some \<lparr>cp_next_question = None, cp_filled_document = Some (ustr ''Landlord: Asha'' @ [10] @ ustr ''Tenant: Ravi'')\<rparr>)
     (\<lambda>_. Inr (ustr ''{}'')) (ustr ''/t'') \<lparr>tf_metadata = [], tf_docs = [(ustr ''/t/civil/rent.docx'', Docx [ustr ''Landlord: ____''])]\<rparr>
     \<lparr>ac_category = ustr ''civil'', ac_filename = ustr ''rent.docx'', ac_messages = []\<rparr> =
     Inr (Filled_document [ustr ''Landlord: Asha'', ustr ''Tenant: Ravi''] (ustr ''filled_rent.docx''))"
    by (simp add: complete_template_def Let_def chat_log_def path_join_def os_path_def)
  show ?thesis using complete_template_document_roundtrip[OF h] h by auto
qed

end
