(* ===== verification/Doc_Analysis.thy ===== *)
theory Doc_Analysis
  imports Template_Flow
begin

text \<open>
  \<open>analyze_image\<close> of \<open>src/Chatbot/backend/main.py\<close>: the lower-cased file name
  selects the extraction (the vision model for images; PyMuPDF, python-docx or a
  UTF-8 decode otherwise, here the parameter \<open>extract\<close>), blank text is answered
  early, and the text is sent to the model, whose answer is freed from a Markdown
  fence and parsed (\<open>parse\<close> is \<open>json.loads\<close>). The function imports
  \<open>JSONResponse\<close> locally only just before the final return, so the name is a local
  variable of the whole function: the two early returns and the fallback for an
  answer that does not parse all use it and raise
  \<open>UnboundLocalError\<close> (Python 3.11 message), which the outer handler turns into a
  500 error.
\<close>

datatype upload_kind = Image_file | Pdf_file | Docx_file | Txt_file | Other_file

definition upload_kind :: "ustr \<Rightarrow> upload_kind" where
  "upload_kind filename =
     (if list_ex (py_endswith filename) (map ustr [''.jpg'', ''.jpeg'', ''.png'', ''.webp'']) then Image_file
      else if py_endswith filename (ustr ''.pdf'') then Pdf_file
      else if py_endswith filename (ustr ''.docx'') then Docx_file
      else if py_endswith filename (ustr ''.txt'') then Txt_file
      else Other_file)"

definition OCR_PROMPT :: ustr where
  "OCR_PROMPT =
     ustr ''Extract ALL visible text from this image. Include legal '' @
     ustr ''content, headings, sections, clauses, dates, names, and '' @
     ustr ''any other text. Preserve the structure and formatting as '' @
     ustr ''much as possible. If the image contains no readable text, '' @
     ustr ''respond with '' @ [39] @ ustr ''NO_TEXT_FOUND'' @ [39] @
     ustr ''.''"

definition ANALYSIS_PROMPT_HEAD :: ustr where
  "ANALYSIS_PROMPT_HEAD =
     ustr ''You are a Legal Document Analyzer for Indian law.\<newline>\<newline>FILE '' @
     ustr ''HANDLING / UPLOAD RULES (STRICT):\<newline>- You will receive '' @
     ustr ''text extracted from an uploaded file of ANY type, including '' @
     ustr ''but not limited to:\<newline>  PDF, DOCX, DOC, TXT, RTF, '' @
     ustr ''HTML, EML, CSV, XLSX, PPTX, images (JPG/PNG), or scanned '' @
     ustr ''documents.\<newline>- For non-text files (images, scanned '' @
     ustr ''PDFs, presentations, spreadsheets), assume OCR or text extraction '' @
     ustr ''has already been performed before analysis.\<newline>- The '' @
     ustr ''extracted text may contain formatting noise such as page '' @
     ustr ''numbers, headers, footers, tables, broken lines, OCR errors, '' @
     ustr ''or metadata.\<newline>- Ignore non-legal noise such as page '' @
     ustr ''numbers, watermarks, file metadata, email headers, spreadsheet '' @
     ustr ''cell markers, slide numbers, and formatting artifacts.\<newline>- '' @
     ustr ''Analyze ONLY the content explicitly present in the extracted '' @
     ustr ''text from the uploaded file.\<newline>- Do NOT infer, assume, '' @
     ustr ''or add any legal information that is not clearly present '' @
     ustr ''in the document text.\<newline>- If the uploaded file contains '' @
     ustr ''mixed content (legal + non-legal), analyze only the legal '' @
     ustr ''portions.\<newline>- If the extracted text is incomplete, '' @
     ustr ''corrupted, unclear, or appears truncated, explicitly mention '' @
     ustr ''this in the warnings section.\<newline>\<newline>LEGAL DOCUMENT '' @
     ustr ''VALIDATION (MANDATORY):\<newline>- First determine whether '' @
     ustr ''the uploaded document is a **legal document**.\<newline>- '' @
     ustr ''A document is considered legal ONLY if it clearly relates '' @
     ustr ''to:\<newline>  laws, legal rights, legal obligations, court '' @
     ustr ''proceedings, government Acts, legal notices, agreements, '' @
     ustr ''FIRs, judgments, petitions, contracts, or statutory communications.\<newline>- '' @
     ustr ''If the document is **NOT legal in nature**:\<newline>  - '' @
     ustr ''Do NOT perform tasks 1'' @ [0x2013] @
     ustr ''5\<newline>  - Return ONLY the following response in STRICT '' @
     ustr ''JSON format:\<newline>\<newline>{\<newline>  '' @ [34] @
     ustr ''document_type'' @ [34] @ ustr '': '' @ [34] @
     ustr ''Non-Legal Document'' @ [34] @ ustr '',\<newline>  '' @ [34] @
     ustr ''applicable_laws'' @ [34] @ ustr '': [],\<newline>  '' @ [34] @
     ustr ''important_sections'' @ [34] @ ustr '': [],\<newline>  '' @ [34] @
     ustr ''summary'' @ [34] @ ustr '': '' @ [34] @
     ustr ''The given file is not a legal document. Please provide a '' @
     ustr ''valid legal document for analysis.'' @ [34] @
     ustr '',\<newline>  '' @ [34] @ ustr ''key_observations'' @ [34] @
     ustr '': [],\<newline>  '' @ [34] @ ustr ''warnings'' @ [34] @
     ustr '': [],\<newline>  '' @ [34] @ ustr ''disclaimer'' @ [34] @
     ustr '': '' @ [34] @
     ustr ''Only legal documents can be analysed by this system.'' @ [34] @
     ustr ''\<newline>}\<newline>\<newline>- If the document **IS legal**, '' @
     ustr ''proceed with the tasks below.\<newline>\<newline>TASKS:\<newline>1. '' @
     ustr ''Identify document type\<newline>2. Extract important legal '' @
     ustr ''sections\<newline>3. Identify applicable Acts\<newline>4. '' @
     ustr ''Summarize legal issues\<newline>5. Highlight risks or obligations\<newline>6. '' @
     ustr ''Do NOT provide legal advice\<newline>7. Do NOT hallucinate '' @
     ustr ''sections\<newline>\<newline>OUTPUT FORMAT (STRICT JSON):\<newline>{\<newline> '' @
     ustr '' '' @ [34] @ ustr ''document_type'' @ [34] @ ustr '': '' @
     [34, 34] @ ustr '',\<newline>  '' @ [34] @ ustr ''applicable_laws'' @
     [34] @ ustr '': [],\<newline>  '' @ [34] @ ustr ''important_sections'' @
     [34] @ ustr '': [],\<newline>  '' @ [34] @ ustr ''summary'' @ [34] @
     ustr '': '' @ [34, 34] @ ustr '',\<newline>  '' @ [34] @
     ustr ''key_observations'' @ [34] @ ustr '': [],\<newline>  '' @ [34] @
     ustr ''warnings'' @ [34] @ ustr '': [],\<newline>  '' @ [34] @
     ustr ''disclaimer'' @ [34] @ ustr '': '' @ [34] @
     ustr ''This analysis provides general legal information for educational '' @
     ustr ''purposes only and does not constitute professional legal '' @
     ustr ''advice. Please consult a qualified advocate for advice specific '' @
     ustr ''to your situation.'' @ [34] @
     ustr ''\<newline>}\<newline>\<newline>DOCUMENT TEXT TO ANALYZE:\<newline>''"

definition ANALYSIS_PROMPT_TAIL :: ustr where
  "ANALYSIS_PROMPT_TAIL =
     ustr ''\<newline>\<newline>Respond ONLY with valid JSON. Do not '' @
     ustr ''include markdown code blocks or any text outside the JSON '' @
     ustr ''structure.''"

definition ANALYZER_SYSTEM :: ustr where
  "ANALYZER_SYSTEM = ustr ''You are a legal document analyzer. Always respond with valid JSON only.''"

definition UNBOUND_JSONRESPONSE :: py_error where
  "UNBOUND_JSONRESPONSE =
     UnboundLocalError (ustr ''cannot access local variable '' @ [39] @ ustr ''JSONResponse'' @ [39] @
       ustr '' where it is not associated with a value'')"

text \<open>The extraction step; an exception leaves it as \<open>str(e)\<close>.\<close>

definition extract_text ::
  "(ustr \<Rightarrow> py_error + ustr) \<Rightarrow> (upload_kind \<Rightarrow> py_error + ustr) \<Rightarrow> ustr \<Rightarrow> ustr + ustr" where
  "extract_text ocr extract filename =
     (case upload_kind filename of
        Image_file \<Rightarrow>
          (case ocr OCR_PROMPT of
             Inl e \<Rightarrow> Inl (py_error_msg e)
           | Inr t \<Rightarrow>
               (let extracted = py_strip t in
                if extracted = ustr ''NO_TEXT_FOUND'' \<or> extracted = []
                then Inl (py_error_msg UNBOUND_JSONRESPONSE) else Inr extracted))
      | Other_file \<Rightarrow>
          (case extract Other_file of
             Inl _ \<Rightarrow> Inl (http_str (HTTPException 400
                       (ustr ''Unsupported file format. Please upload PDF, DOCX, TXT, JPG, PNG, or WEBP.'')))
           | Inr t \<Rightarrow> Inr t)
      | k \<Rightarrow> (case extract k of Inl e \<Rightarrow> Inl (py_error_msg e) | Inr t \<Rightarrow> Inr t))"

text \<open>The fence handling of the analysis result, with its second branch.\<close>

definition strip_result_fence :: "ustr \<Rightarrow> ustr" where
  "strip_result_fence rt =
     (if py_in (ustr ''```json'') rt then strip_json_fence rt
      else if py_in (ustr ''```'') rt then py_strip (py_split (ustr ''```'') rt ! 1)
      else rt)"

definition analyze_body ::
  "(ustr \<Rightarrow> py_error + ustr) \<Rightarrow> (upload_kind \<Rightarrow> py_error + ustr) \<Rightarrow> groq_model \<Rightarrow> (ustr \<Rightarrow> 'j option) \<Rightarrow>
   ustr \<Rightarrow> ustr + 'j" where
  "analyze_body ocr extract model parse fname =
     (case extract_text ocr extract (py_lower fname) of
        Inl s \<Rightarrow> Inl s
      | Inr extracted \<Rightarrow>
          if py_strip extracted = [] then Inl (py_error_msg UNBOUND_JSONRESPONSE)
          else
            (case model [msg (ustr ''system'') ANALYZER_SYSTEM,
                         msg (ustr ''user'') (ANALYSIS_PROMPT_HEAD @ take 30000 extracted @ ANALYSIS_PROMPT_TAIL)] of
               Inl e \<Rightarrow> Inl (py_error_msg e)
             | Inr content \<Rightarrow>
                 (case parse (strip_result_fence (py_strip content)) of
                    Some j \<Rightarrow> Inr j
                  | None \<Rightarrow> Inl (py_error_msg UNBOUND_JSONRESPONSE))))"

definition analyze_image ::
  "(ustr \<Rightarrow> py_error + ustr) \<Rightarrow> (upload_kind \<Rightarrow> py_error + ustr) \<Rightarrow> groq_model \<Rightarrow> (ustr \<Rightarrow> 'j option) \<Rightarrow>
   ustr \<Rightarrow> 'j http_result" where
  "analyze_image ocr extract model parse fname =
     (case analyze_body ocr extract model parse fname of
        Inl s \<Rightarrow> Inl (HTTPException 500 (ustr ''Analysis failed: '' @ s))
      | Inr r \<Rightarrow> Inr r)"


subsection \<open>Properties\<close>

text \<open>
  C27. A non-image upload whose extracted text is blank is answered with status 500
  \<open>Analysis failed: cannot access local variable 'JSONResponse' ...\<close>: the early
  \<open>JSONResponse\<close> return raises, because the name is only imported at the end of
  the function.
\<close>

theorem analyze_blank_document:
  "upload_kind (py_lower fname) \<noteq> Image_file \<Longrightarrow> extract (upload_kind (py_lower fname)) = Inr t \<Longrightarrow>
   py_strip t = [] \<Longrightarrow>
   analyze_image ocr extract model parse fname =
     Inl (HTTPException 500 (ustr ''Analysis failed: '' @ py_error_msg UNBOUND_JSONRESPONSE))"
  by (cases "upload_kind (py_lower fname)")
     (simp_all add: analyze_image_def analyze_body_def extract_text_def)

text \<open>
  C28. An answer of the model that does not parse as JSON never reaches the fallback
  report: the \<open>except json.JSONDecodeError\<close> branch returns a \<open>JSONResponse\<close>,
  which is unbound at that point, so the request fails with the same 500
  \<open>Analysis failed: cannot access local variable 'JSONResponse' ...\<close>.
\<close>

theorem analyze_unparsable_reply:
  "extract_text ocr extract (py_lower fname) = Inr t \<Longrightarrow> py_strip t \<noteq> [] \<Longrightarrow>
   model [msg (ustr ''system'') ANALYZER_SYSTEM,
          msg (ustr ''user'') (ANALYSIS_PROMPT_HEAD @ take 30000 t @ ANALYSIS_PROMPT_TAIL)] = Inr c \<Longrightarrow>
   parse (strip_result_fence (py_strip c)) = None \<Longrightarrow>
   analyze_image ocr extract model parse fname =
     Inl (HTTPException 500 (ustr ''Analysis failed: '' @ py_error_msg UNBOUND_JSONRESPONSE))"
  by (simp add: analyze_image_def analyze_body_def)

theorem analyze_blank_document_witness:
  "analyze_image (\<lambda>_. Inr []) (\<lambda>_. Inr (ustr '' \<newline> '')) (\<lambda>_. Inr []) (\<lambda>_. None :: unit option)
     (ustr ''Notes.TXT'') =
   Inl (HTTPException 500 (ustr ''Analysis failed: '' @ py_error_msg UNBOUND_JSONRESPONSE))"
proof -
  have k: "upload_kind (py_lower (ustr ''Notes.TXT'')) = Txt_file"
    by (simp add: upload_kind_def py_endswith_def py_lower_cp_def is_ascii_upper_def)
  have s: "py_strip (ustr '' \<newline> '') = []" by (simp add: py_strip_def py_isspace_def)
  show ?thesis
    by (rule analyze_blank_document[where t = "ustr '' \<newline> ''"]) (use k s in simp_all)
qed


theorem analyze_unparsable_reply_witness:
  "analyze_image (\<lambda>_. Inr []) (\<lambda>_. Inr (ustr ''Lease deed'')) (\<lambda>_. Inr (ustr ''not json''))
     (\<lambda>_. None :: unit option) (ustr ''deed.txt'') =
   Inl (HTTPException 500 (ustr ''Analysis failed: '' @ py_error_msg UNBOUND_JSONRESPONSE))"
proof -
  have k: "upload_kind (py_lower (ustr ''deed.txt'')) = Txt_file"
    by (simp add: upload_kind_def py_endswith_def py_lower_cp_def is_ascii_upper_def)
  have e: "extract_text (\<lambda>_. Inr []) (\<lambda>_. Inr (ustr ''Lease deed'')) (py_lower (ustr ''deed.txt'')) =
           Inr (ustr ''Lease deed'')"
    using k by (simp add: extract_text_def)
  have s: "py_strip (ustr ''Lease deed'') \<noteq> []" by (simp add: py_strip_def py_isspace_def)
  show ?thesis
    by (rule analyze_unparsable_reply[OF e s, where c = "ustr ''not json''"]) simp_all
qed

end
