(* ===== verification/Backend_Api.thy ===== *)
theory Backend_Api
  imports Doc_Analysis
begin

text \<open>
  The template and analysis endpoints of \<open>src/Backend/main.py\<close>, variants of those
  of the chatbot server (\<open>Template_Flow\<close>, \<open>Doc_Analysis\<close>) over the same template
  directory: \<open>load_metadata\<close> has a shorter 404 detail, \<open>start_ai_flow\<close> has no
  metadata checks and no fallback when the model fails, \<open>ai_next_question\<close> opens
  the document without an existence check, and \<open>analyze_document\<close> has no early
  returns and lets a parse failure become the 500 error.
\<close>

definition backend_load_metadata ::
  "ustr \<Rightarrow> template_fs \<Rightarrow> ustr \<Rightarrow> ustr option \<Rightarrow> template_entry list http_result" where
  "backend_load_metadata tdir tfs category subtype =
     (case map_of (tf_metadata tfs) (os_path (metadata_path tdir category subtype)) of
        None \<Rightarrow> Inl (HTTPException 404 (ustr ''metadata.json not found''))
      | Some Malformed_metadata \<Rightarrow> Inl (HTTPException 500 (ustr ''metadata.json is not a valid JSON file''))
      | Some (Metadata ts) \<Rightarrow> Inr ts)"

text \<open>\<open>f"Title: {t['title']}..."\<close>: a missing key raises \<open>KeyError\<close>.\<close>

definition backend_entry_summary :: "template_entry \<Rightarrow> py_error + ustr" where
  "backend_entry_summary t =
     (case te_title t of
        None \<Rightarrow> Inl (KeyError (ustr ''title''))
      | Some title \<Rightarrow>
          (case te_summary t of
             None \<Rightarrow> Inl (KeyError (ustr ''summary''))
           | Some summary \<Rightarrow>
               (case te_filename t of
                  None \<Rightarrow> Inl (KeyError (ustr ''filename''))
                | Some f \<Rightarrow> Inr (ustr ''Title: '' @ title @ ustr ''\<newline>Summary: '' @ summary @
                                  ustr ''\<newline>Filename: '' @ f))))"

definition BACKEND_SELECTION_TAIL :: ustr where
  "BACKEND_SELECTION_TAIL =
     ustr ''\<newline>\<newline>Your task: Select the single most suitable '' @
     ustr ''template. Respond ONLY with the filename. If unsure, pick '' @
     ustr ''the closest reasonable match.''"

definition BACKEND_QUESTION_PROMPT :: ustr where
  "BACKEND_QUESTION_PROMPT =
     ustr ''You are a professional legal assistant helping a user complete '' @
     ustr ''a legal document.\<newline>Ask questions one at a time to '' @
     ustr ''gather the exact information needed to fill in these blanks.''"

text \<open>The \<open>try\<close> body; every exception leaves it as \<open>str(e)\<close>.\<close>

definition backend_start_body ::
  "groq_model \<Rightarrow> ustr \<Rightarrow> template_fs \<Rightarrow> ai_start_request \<Rightarrow> ustr + ai_start_reply" where
  "backend_start_body model tdir tfs data =
     (case backend_load_metadata tdir tfs (as_category data) (as_subtype data) of
        Inl e \<Rightarrow> Inl (http_str e)
      | Inr templates \<Rightarrow>
          (case sum_map backend_entry_summary templates of
             Inl e \<Rightarrow> Inl (py_error_msg e)
           | Inr summaries \<Rightarrow>
               (case model [msg (ustr ''user'') (SELECTION_PROMPT_HEAD @ py_strip (as_user_input data) @
                              SELECTION_PROMPT_MID @ py_join (ustr ''\<newline>\<newline>'') summaries @
                              BACKEND_SELECTION_TAIL)] of
                  Inl e \<Rightarrow> Inl (py_error_msg e)
                | Inr content \<Rightarrow>
                    (let selected = py_strip content in
                     if \<not> list_ex (\<lambda>t. py_lower (py_strip (entry_filename t)) = py_lower selected) templates
                     then Inl (http_str (HTTPException 404 (ustr ''Template match not found'')))
                     else
                       (let doc_filename = selected @ ustr ''.docx'';
                            doc_path = (case subdir (as_subtype data) of
                                          Some st \<Rightarrow> path_join (path_join (path_join tdir (as_category data)) st) doc_filename
                                        | None \<Rightarrow> path_join (path_join tdir (as_category data)) doc_filename)
                        in case map_of (tf_docs tfs) (os_path doc_path) of
                             None \<Rightarrow> Inl (http_str (HTTPException 404 (ustr ''Template file not found'')))
                           | Some Corrupt_docx \<Rightarrow> Inl (ustr ''Package not found at '' @ [39] @ doc_path @ [39])
                           | Some (Docx paras) \<Rightarrow>
                               (case model [msg (ustr ''system'') BACKEND_QUESTION_PROMPT,
                                            msg (ustr ''user'') (docx_text paras)] of
                                  Inl e \<Rightarrow> Inl (py_error_msg e)
                                | Inr q \<Rightarrow> Inr \<lparr>ar_question = py_strip q,
                                                ar_filename = with_subtype (as_subtype data) selected\<rparr>))))))"

definition backend_start_ai_flow ::
  "groq_model \<Rightarrow> ustr \<Rightarrow> template_fs \<Rightarrow> ai_start_request \<Rightarrow> ai_start_reply http_result" where
  "backend_start_ai_flow model tdir tfs data =
     (case backend_start_body model tdir tfs data of
        Inl s \<Rightarrow> Inl (HTTPException 500 s)
      | Inr r \<Rightarrow> Inr r)"

definition BACKEND_NEXT_PROMPT :: ustr where
  "BACKEND_NEXT_PROMPT =
     ustr ''You are a legal assistant. Ask ONE specific question at a time to fill placeholders. Use __COMPLETE__ if finished.''"

definition backend_ai_next_question :: "groq_model \<Rightarrow> ustr \<Rightarrow> template_fs \<Rightarrow> ai_next_request \<Rightarrow> ustr" where
  "backend_ai_next_question model tdir tfs data =
     (let file_path =
        (case py_split1 47 (an_filename data) of
           [subfolder, filename] \<Rightarrow>
             path_join (path_join (path_join tdir (an_category data)) subfolder) (filename @ ustr ''.docx'')
         | _ \<Rightarrow> path_join (path_join tdir (an_category data)) (an_filename data @ ustr ''.docx''))
      in case map_of (tf_docs tfs) (os_path file_path) of
           Some (Docx paras) \<Rightarrow>
             (case model (msg (ustr ''system'') BACKEND_NEXT_PROMPT #
                          msg (ustr ''user'') (ustr ''Template:\<newline>'' @ docx_text paras) #
                          an_messages data) of
                Inl _ \<Rightarrow> ustr ''Error connecting to AI service.''
              | Inr reply \<Rightarrow> py_strip reply)
         | _ \<Rightarrow> ustr ''Error connecting to AI service.'')"

text \<open>
  \<open>analyze_document\<close>: the same dispatch, a text file decoded like any other file,
  the first 10000 characters sent, and \<open>json.loads\<close> inside the \<open>try\<close> block.
\<close>

definition backend_analyze_body ::
  "(ustr \<Rightarrow> py_error + ustr) \<Rightarrow> (upload_kind \<Rightarrow> py_error + ustr) \<Rightarrow> groq_model \<Rightarrow> (ustr \<Rightarrow> 'j option) \<Rightarrow>
   ustr \<Rightarrow> ustr + 'j" where
  "backend_analyze_body ocr extract model parse fname =
     (let filename = py_lower fname;
          extracted = (case upload_kind filename of
                         Image_file \<Rightarrow> (case ocr (ustr ''Extract all text from this legal document image.'') of
                                          Inl e \<Rightarrow> Inl e | Inr t \<Rightarrow> Inr (py_strip t))
                       | Pdf_file \<Rightarrow> extract Pdf_file
                       | Docx_file \<Rightarrow> extract Docx_file
                       | _ \<Rightarrow> extract Other_file)
      in case extracted of
           Inl e \<Rightarrow> Inl (py_error_msg e)
         | Inr text \<Rightarrow>
             (case model [msg (ustr ''system'') (ustr ''You are a legal analyzer. Output JSON only.''),
                          msg (ustr ''user'') (ustr ''Analyze this legal document text and return ONLY JSON:\<newline>'' @
                                               take 10000 text)] of
                Inl e \<Rightarrow> Inl (py_error_msg e)
              | Inr content \<Rightarrow>
                  (case parse (strip_json_fence (py_strip content)) of
                     None \<Rightarrow> Inl (py_error_msg JSONDecodeError)
                   | Some j \<Rightarrow> Inr j)))"

definition backend_analyze_document ::
  "(ustr \<Rightarrow> py_error + ustr) \<Rightarrow> (upload_kind \<Rightarrow> py_error + ustr) \<Rightarrow> groq_model \<Rightarrow> (ustr \<Rightarrow> 'j option) \<Rightarrow>
   ustr \<Rightarrow> 'j http_result" where
  "backend_analyze_document ocr extract model parse fname =
     (case backend_analyze_body ocr extract model parse fname of
        Inl s \<Rightarrow> Inl (HTTPException 500 s)
      | Inr j \<Rightarrow> Inr j)"

subsection \<open>Properties\<close>

lemma sum_map_Inr_all:
  "sum_map f xs = Inr ys \<Longrightarrow> \<forall>x\<in>set xs. \<exists>y. f x = Inr y"
  by (induction xs arbitrary: ys) (auto split: sum.splits)

text \<open>
  A template entry without one of the three keys fails the whole request with a 500
  whose detail is the printed \<open>KeyError\<close>, before the model is asked.
\<close>

lemma backend_start_key_error:
  "backend_load_metadata tdir tfs (as_category data) (as_subtype data) = Inr ts \<Longrightarrow>
   sum_map backend_entry_summary ts = Inl e \<Longrightarrow>
   backend_start_ai_flow model tdir tfs data = Inl (HTTPException 500 (py_error_msg e))"
  by (simp add: backend_start_ai_flow_def backend_start_body_def)

lemma backend_start_missing_title:
  "backend_load_metadata tdir tfs (as_category data) (as_subtype data) = Inr (t # ts) \<Longrightarrow>
   te_title t = None \<Longrightarrow>
   backend_start_ai_flow model tdir tfs data = Inl (HTTPException 500 ([39] @ ustr ''title'' @ [39]))"
  by (simp add: backend_start_key_error backend_entry_summary_def del: ustr_Cons)

text \<open>
  Unlike the chatbot server, a failing selection call is not replaced by the first
  template: it surfaces as a 500 carrying the provider's message.
\<close>

lemma backend_start_model_error:
  "backend_load_metadata tdir tfs (as_category data) (as_subtype data) = Inr ts \<Longrightarrow>
   sum_map backend_entry_summary ts = Inr ss \<Longrightarrow>
   model [msg (ustr ''user'') (SELECTION_PROMPT_HEAD @ py_strip (as_user_input data) @
           SELECTION_PROMPT_MID @ py_join (ustr ''\<newline>\<newline>'') ss @ BACKEND_SELECTION_TAIL)] = Inl e \<Longrightarrow>
   backend_start_ai_flow model tdir tfs data = Inl (HTTPException 500 (py_error_msg e))"
  by (simp add: backend_start_ai_flow_def backend_start_body_def del: ustr_Cons)

text \<open>
  C25. A successful \<open>start_ai_flow\<close> of the backend returns a file name that names a
  template of the metadata after stripping and lower-casing, prefixed by the subtype
  when one is given, and every template of the metadata has its three keys.
\<close>

theorem backend_start_filename_sound:
  assumes "backend_load_metadata tdir tfs (as_category data) (as_subtype data) = Inr ts"
    and "backend_start_ai_flow model tdir tfs data = Inr r"
  shows "\<exists>f. ar_filename r = with_subtype (as_subtype data) f \<and>
             list_ex (\<lambda>t. py_lower (py_strip (entry_filename t)) = py_lower f) ts \<and>
             (\<forall>t\<in>set ts. te_title t \<noteq> None \<and> te_summary t \<noteq> None \<and> te_filename t \<noteq> None)"
proof -
  obtain ss where ss: "sum_map backend_entry_summary ts = Inr ss"
    using assms by (auto simp: backend_start_ai_flow_def backend_start_body_def split: sum.splits)
  then have keys: "\<forall>t\<in>set ts. te_title t \<noteq> None \<and> te_summary t \<noteq> None \<and> te_filename t \<noteq> None"
    by (fastforce dest: sum_map_Inr_all simp: backend_entry_summary_def split: option.splits)
  obtain content where c: "model [msg (ustr ''user'') (SELECTION_PROMPT_HEAD @ py_strip (as_user_input data) @
           SELECTION_PROMPT_MID @ py_join (ustr ''\<newline>\<newline>'') ss @ BACKEND_SELECTION_TAIL)] = Inr content"
    using assms ss by (auto simp: backend_start_ai_flow_def backend_start_body_def split: sum.splits)
  have "ar_filename r = with_subtype (as_subtype data) (py_strip content) \<and>
        list_ex (\<lambda>t. py_lower (py_strip (entry_filename t)) = py_lower (py_strip content)) ts"
    using assms ss c
    by (auto simp: backend_start_ai_flow_def backend_start_body_def Let_def
             split: if_splits option.splits docx_file.splits sum.splits)
  then show ?thesis using keys by blast
qed

text \<open>
  The analysis has no early return for a blank document: whatever text a non-image
  upload yields, its first 10000 characters go to the model and the answer is parsed,
  a parse failure becoming a 500 with the decoder's message.
\<close>

lemma backend_analyze_document_text:
  "upload_kind (py_lower fname) \<noteq> Image_file \<Longrightarrow> (\<forall>k. extract k = Inr text) \<Longrightarrow>
   model [msg (ustr ''system'') (ustr ''You are a legal analyzer. Output JSON only.''),
          msg (ustr ''user'') (ustr ''Analyze this legal document text and return ONLY JSON:\<newline>'' @
                               take 10000 text)] = Inr c \<Longrightarrow>
   backend_analyze_document ocr extract model parse fname =
     (case parse (strip_json_fence (py_strip c)) of
        None \<Rightarrow> Inl (HTTPException 500 (ustr ''Expecting value''))
      | Some j \<Rightarrow> Inr j)"
  by (cases "upload_kind (py_lower fname)")
     (simp_all add: backend_analyze_document_def backend_analyze_body_def split: option.splits del: ustr_Cons)

theorem backend_start_filename_sound_witness:
  "\<exists>r. backend_load_metadata (ustr ''/t'')
       \<lparr>tf_metadata = [(ustr ''/t/civil/metadata.json'',
          Metadata [\<lparr>te_title = Some (ustr ''Rent''), te_summary = Some (ustr ''Lease''),
                     te_filename = Some (ustr ''rent_agreement'')\<rparr>])],
        tf_docs = [(ustr ''/t/civil/Rent_Agreement.docx'', Docx [ustr ''Landlord: ____''])]\<rparr>
       (ustr ''civil'') None =
       Inr [\<lparr>te_title = Some (ustr ''Rent''), te_summary = Some (ustr ''Lease''),
             te_filename = Some (ustr ''rent_agreement'')\<rparr>] \<and>
     backend_start_ai_flow (\<lambda>_. Inr (ustr '' Rent_Agreement'')) (ustr ''/t'')
       \<lparr>tf_metadata = [(ustr ''/t/civil/metadata.json'',
          Metadata [\<lparr>te_title = Some (ustr ''Rent''), te_summary = Some (ustr ''Lease''),
                     te_filename = Some (ustr ''rent_agreement'')\<rparr>])],
        tf_docs = [(ustr ''/t/civil/Rent_Agreement.docx'', Docx [ustr ''Landlord: ____''])]\<rparr>
       \<lparr>as_category = ustr ''civil'', as_subtype = None, as_user_input = ustr ''deposit''\<rparr> = Inr r \<and>
     (\<exists>f. ar_filename r = with_subtype None f \<and>
          list_ex (\<lambda>t. py_lower (py_strip (entry_filename t)) = py_lower f)
            [\<lparr>te_title = Some (ustr ''Rent''), te_summary = Some (ustr ''Lease''),
              te_filename = Some (ustr ''rent_agreement'')\<rparr>] \<and>
          (\<forall>t\<in>set [\<lparr>te_title = Some (ustr ''Rent''), te_summary = Some (ustr ''Lease''),
                      te_filename = Some (ustr ''rent_agreement'')\<rparr>].
             te_title t \<noteq> None \<and> te_summary t \<noteq> None \<and> te_filename t \<noteq> None))"
proof -
  let ?tfs = "\<lparr>tf_metadata = [(ustr ''/t/civil/metadata.json'',
          Metadata [\<lparr>te_title = Some (ustr ''Rent''), te_summary = Some (ustr ''Lease''),
                     te_filename = Some (ustr ''rent_agreement'')\<rparr>])],
        tf_docs = [(ustr ''/t/civil/Rent_Agreement.docx'', Docx [ustr ''Landlord: ____''])]\<rparr>"
  let ?ts = "[\<lparr>te_title = Some (ustr ''Rent''), te_summary = Some (ustr ''Lease''),
             te_filename = Some (ustr ''rent_agreement'')\<rparr>]"
  let ?data = "\<lparr>as_category = ustr ''civil'', as_subtype = None, as_user_input = ustr ''deposit''\<rparr>"
  have l1: "backend_load_metadata (ustr ''/t'') ?tfs (ustr ''civil'') None = Inr ?ts"
    by (simp add: backend_load_metadata_def metadata_path_def subdir_def path_join_def os_path_def)
  then have l: "backend_load_metadata (ustr ''/t'') ?tfs (as_category ?data) (as_subtype ?data) = Inr ?ts"
    by simp
  have r: "backend_start_ai_flow (\<lambda>_. Inr (ustr '' Rent_Agreement'')) (ustr ''/t'') ?tfs ?data =
           Inr \<lparr>ar_question = ustr ''Rent_Agreement'', ar_filename = ustr ''Rent_Agreement''\<rparr>"
    apply (simp add: backend_start_ai_flow_def backend_start_body_def l1 del: ustr_Cons)
    apply (simp add: backend_entry_summary_def entry_filename_def
          with_subtype_def subdir_def path_join_def os_path_def py_strip_def py_isspace_def
          py_lower_cp_def is_ascii_upper_def Let_def)
    done
  show ?thesis
    using l r backend_start_filename_sound[OF l r] by auto
qed

end
