(* ===== verification/Template_Files.thy ===== *)
theory Template_Files
  imports Backend_Api "HOL-Library.Word"
begin

text \<open>
  The template listing and download endpoints of \<open>src/Chatbot/backend/main.py\<close>
  (\<open>list_templates\<close>, \<open>get_template\<close>, \<open>get_template_sections\<close>,
  \<open>list_categories\<close>; the backend server has identical copies of the first two). The
  template directory is a tree of resolved paths (\<open>template_tree\<close>): its directories
  and its files with their bytes, in directory order. \<open>get_template\<close> answers with
  \<open>base64.b64encode\<close> of the file, modelled on bytes as \<open>8 word\<close> values, with the
  decoder of RFC 4648 that the client applies.
\<close>

unbundle bit_operations_syntax

subsection \<open>Base64\<close>

text \<open>
  \<open>base64.b64encode\<close>: each group of three bytes becomes four characters of the
  alphabet, indexed by six-bit slices (\<open>(x >> k) & 0x3f\<close>); a final group of one or
  two bytes is padded with \<open>=\<close>.
\<close>

type_synonym byte = "8 word"

definition b64_alphabet :: "nat list" where
  "b64_alphabet = map of_char ''ABCDEFGHIJKLMNOPQRSTUVWXYZabcdefghijklmnopqrstuvwxyz0123456789+/''"

definition b64_char :: "byte \<Rightarrow> nat" where
  "b64_char w = b64_alphabet ! unat (w AND mask 6)"

fun b64_encode :: "byte list \<Rightarrow> nat list" where
  "b64_encode (a # b # c # rest) =
     b64_char (drop_bit 2 a) # b64_char (push_bit 4 a OR drop_bit 4 b) #
     b64_char (push_bit 2 b OR drop_bit 6 c) # b64_char c # b64_encode rest"
| "b64_encode [a, b] = [b64_char (drop_bit 2 a), b64_char (push_bit 4 a OR drop_bit 4 b), b64_char (push_bit 2 b), 61]"
| "b64_encode [a] = [b64_char (drop_bit 2 a), b64_char (push_bit 4 a), 61, 61]"
| "b64_encode [] = []"

definition b64_val :: "nat \<Rightarrow> byte option" where
  "b64_val c =
     (if 65 \<le> c \<and> c \<le> 90 then Some (word_of_nat (c - 65))
      else if 97 \<le> c \<and> c \<le> 122 then Some (word_of_nat (c - 71))
      else if 48 \<le> c \<and> c \<le> 57 then Some (word_of_nat (c + 4))
      else if c = 43 then Some 62 else if c = 47 then Some 63 else None)"

fun b64_decode :: "nat list \<Rightarrow> byte list option" where
  "b64_decode [] = Some []"
| "b64_decode (c0 # c1 # c2 # c3 # rest) =
     (case (b64_val c0, b64_val c1) of
        (Some x0, Some x1) \<Rightarrow>
          if rest = [] \<and> c2 = 61 \<and> c3 = 61 then Some [push_bit 2 x0 OR drop_bit 4 x1]
          else (case b64_val c2 of
                  None \<Rightarrow> None
                | Some x2 \<Rightarrow>
                    if rest = [] \<and> c3 = 61 then Some [push_bit 2 x0 OR drop_bit 4 x1, push_bit 4 x1 OR drop_bit 2 x2]
                    else (case (b64_val c3, b64_decode rest) of
                            (Some x3, Some bs) \<Rightarrow>
                              Some ((push_bit 2 x0 OR drop_bit 4 x1) # (push_bit 4 x1 OR drop_bit 2 x2) #
                                    (push_bit 6 x2 OR x3) # bs)
                          | _ \<Rightarrow> None))
      | _ \<Rightarrow> None)"
| "b64_decode _ = None"


subsection \<open>Paths\<close>

text \<open>\<open>Path.name\<close>: the last component.\<close>

definition path_name :: "ustr \<Rightarrow> ustr" where
  "path_name p = rev (takeWhile (\<lambda>c. c \<noteq> 47) (rev p))"

text \<open>
  \<open>Path.suffix\<close>: from the last dot of the name, when that dot is neither its first
  nor its last character.
\<close>

definition path_suffix :: "ustr \<Rightarrow> ustr" where
  "path_suffix name =
     (let tl_len = length (takeWhile (\<lambda>c. c \<noteq> 46) (rev name)) in
      if tl_len = length name then []
      else (let i = length name - tl_len - 1 in
            if 0 < i \<and> i < length name - 1 then drop i name else []))"

subsection \<open>The template directory\<close>

record template_tree =
  tt_dirs :: "ustr list"
  tt_files :: "(ustr \<times> byte list) list"

definition path_exists :: "template_tree \<Rightarrow> ustr \<Rightarrow> bool" where
  "path_exists tt p \<longleftrightarrow> p \<in> set (tt_dirs tt) \<or> map_of (tt_files tt) p \<noteq> None"

definition is_dir :: "template_tree \<Rightarrow> ustr \<Rightarrow> bool" where
  "is_dir tt p \<longleftrightarrow> p \<in> set (tt_dirs tt)"

text \<open>\<open>d.glob("*.docx")\<close>: the files of \<open>d\<close> whose name ends with \<open>.docx\<close>.\<close>

definition glob_docx :: "template_tree \<Rightarrow> ustr \<Rightarrow> ustr list" where
  "glob_docx tt d =
     map fst (filter (\<lambda>(p, _). parent_dir p = d \<and> py_endswith (path_name p) (ustr ''.docx'')) (tt_files tt))"

text \<open>\<open>d.iterdir()\<close> restricted to directories (\<open>if x.is_dir()\<close>).\<close>

definition sub_dirs :: "template_tree \<Rightarrow> ustr \<Rightarrow> ustr list" where
  "sub_dirs tt d = filter (\<lambda>x. parent_dir x = d) (tt_dirs tt)"

subsection \<open>Endpoints\<close>

definition list_templates :: "ustr \<Rightarrow> template_tree \<Rightarrow> ustr \<Rightarrow> ustr list http_result" where
  "list_templates tdir tt category =
     (let category_path = os_path (path_join tdir category) in
      if \<not> path_exists tt category_path \<or> \<not> is_dir tt category_path
      then Inl (HTTPException 404 (ustr ''Category not found''))
      else Inr (map path_name (glob_docx tt category_path)))"

text \<open>
  \<open>get_template\<close>: \<open>open(file_path, "rb")\<close> on an existing directory raises
  \<open>IsADirectoryError\<close>, which no handler catches.
\<close>

definition get_template :: "ustr \<Rightarrow> template_tree \<Rightarrow> ustr \<Rightarrow> ustr \<Rightarrow> ustr http_result" where
  "get_template tdir tt category name =
     (let file_path = os_path (path_join (path_join tdir category) name) in
      if \<not> path_exists tt file_path then Inl (HTTPException 404 (ustr ''File not found''))
      else (case map_of (tt_files tt) file_path of
              None \<Rightarrow> Inl UNHANDLED
            | Some bs \<Rightarrow> Inr (b64_encode bs)))"

text \<open>The backend server's copies of the two endpoints (\<open>src/Backend/main.py\<close>).\<close>

definition backend_list_templates :: "ustr \<Rightarrow> template_tree \<Rightarrow> ustr \<Rightarrow> ustr list http_result" where
  "backend_list_templates tdir tt category =
     (let category_path = os_path (path_join tdir category) in
      if \<not> path_exists tt category_path \<or> \<not> is_dir tt category_path
      then Inl (HTTPException 404 (ustr ''Category not found''))
      else Inr (map path_name (glob_docx tt category_path)))"

definition backend_get_template :: "ustr \<Rightarrow> template_tree \<Rightarrow> ustr \<Rightarrow> ustr \<Rightarrow> ustr http_result" where
  "backend_get_template tdir tt category name =
     (let file_path = os_path (path_join (path_join tdir category) name) in
      if \<not> path_exists tt file_path then Inl (HTTPException 404 (ustr ''File not found''))
      else (case map_of (tt_files tt) file_path of
              None \<Rightarrow> Inl UNHANDLED
            | Some bs \<Rightarrow> Inr (b64_encode bs)))"

text \<open>
  \<open>get_template_sections\<close>: \<open>Document(file_path)\<close> reads the document view of the
  same path; a directory, a metadata file or a corrupt document raises, uncaught.
\<close>

definition get_template_sections ::
  "ustr \<Rightarrow> template_tree \<Rightarrow> template_fs \<Rightarrow> ustr \<Rightarrow> ustr \<Rightarrow> ustr list http_result" where
  "get_template_sections tdir tt tfs category name =
     (let file_path = os_path (path_join (path_join tdir category) name) in
      if \<not> path_exists tt file_path then Inl (HTTPException 404 (ustr ''File not found''))
      else (case map_of (tf_docs tfs) file_path of
              Some (Docx paras) \<Rightarrow>
                (let sections = map py_strip (filter (\<lambda>p. py_startswith (py_lower (py_strip p)) (ustr ''template for'')) paras)
                 in Inr (if sections = [] then [ustr ''Full Document''] else sections))
            | _ \<Rightarrow> Inl UNHANDLED))"

text \<open>
  \<open>list_categories\<close>: a subdirectory is a subtype when it holds a
  \<open>metadata.json\<close> or a file with suffix \<open>.docx\<close>; a directory of the template
  root is a category when it has a subtype, such a file or a \<open>metadata.json\<close>. The
  dictionary is an association list updated in iteration order.
\<close>

definition has_docx :: "template_tree \<Rightarrow> ustr \<Rightarrow> bool" where
  "has_docx tt d \<longleftrightarrow> list_ex (\<lambda>f. path_suffix (path_name f) = ustr ''.docx'') (glob_docx tt d)"

definition subtypes_of :: "template_tree \<Rightarrow> ustr \<Rightarrow> ustr list" where
  "subtypes_of tt cat =
     map path_name (filter (\<lambda>sub. path_exists tt (path_join sub (ustr ''metadata.json'')) \<or> has_docx tt sub)
                     (sub_dirs tt cat))"

definition list_categories :: "ustr \<Rightarrow> template_tree \<Rightarrow> (ustr \<times> ustr list) list" where
  "list_categories tdir tt =
     fold (\<lambda>cat categories.
             let subtypes = subtypes_of tt cat in
             if subtypes \<noteq> [] \<or> has_docx tt cat \<or> path_exists tt (path_join cat (ustr ''metadata.json''))
             then AList.update (path_name cat) subtypes categories else categories)
          (sub_dirs tt (os_path tdir)) []"

subsection \<open>Path normal forms\<close>

text \<open>
  The stack of components \<open>os_path\<close> builds, the components a resolved path can
  end in, and the trees whose file paths are resolved.
\<close>

definition path_stack :: "ustr \<Rightarrow> ustr list" where
  "path_stack p =
     foldl (\<lambda>st w. if w = [46, 46] then drop 1 st else w # st) []
       (filter (\<lambda>w. w \<noteq> [] \<and> w \<noteq> [46]) (py_split_char 47 p))"

definition simple_name :: "ustr \<Rightarrow> bool" where
  "simple_name w \<longleftrightarrow> w \<noteq> [] \<and> w \<noteq> [46] \<and> w \<noteq> [46, 46] \<and> 47 \<notin> set w"

definition wf_tree :: "template_tree \<Rightarrow> bool" where
  "wf_tree tt \<longleftrightarrow> list_all (\<lambda>(p, _). os_path p = p) (tt_files tt)"

subsection \<open>A sample tree\<close>

definition sample_tree :: template_tree where
  "sample_tree =
     \<lparr>tt_dirs = [ustr ''/t'', ustr ''/t/civil'', ustr ''/app/Backend''],
      tt_files = [(ustr ''/t/civil/rent.docx'', [80, 75, 3]), (ustr ''/app/Backend/.env'', [75, 61, 49])]\<rparr>"

subsection \<open>Base64 round trip\<close>

lemma b64_val_alphabet_all:
  "list_all (\<lambda>i. b64_val (b64_alphabet ! i) = Some (word_of_nat i)) [0..<64]"
  by code_simp

lemma b64_val_alphabet: "i < 64 \<Longrightarrow> b64_val (b64_alphabet ! i) = Some (word_of_nat i)"
  using b64_val_alphabet_all by (simp add: list_all_iff)

lemma unat_and_mask6: "unat ((w::byte) AND mask 6) < 64"
proof -
  have "unat (w AND mask 6) = take_bit 6 (unat w)"
    by (simp flip: take_bit_eq_mask unsigned_take_bit_eq)
  then show ?thesis using take_bit_nat_less_exp [of 6 "unat w"] by simp
qed

lemma b64_val_char: "b64_val (b64_char w) = Some (w AND mask 6)"
  by (simp add: b64_char_def b64_val_alphabet unat_and_mask6)

lemma add_diff_max: "(k::nat) + (n - k) = max n k" "Suc (Suc (n - 2)) = max n 2"
  by simp_all

lemma byte_hi: "push_bit 2 (drop_bit 2 (a::byte) AND mask 6) OR drop_bit 4 ((push_bit 4 a OR drop_bit 4 b) AND mask 6) = a"
  by (rule bit_word_eqI) (auto simp: bit_simps add_diff_max max_def)

lemma byte_mid: "push_bit 4 ((push_bit 4 (a::byte) OR drop_bit 4 b) AND mask 6) OR drop_bit 2 ((push_bit 2 b OR drop_bit 6 c) AND mask 6) = b"
  by (rule bit_word_eqI) (auto simp: bit_simps add_diff_max max_def)

lemma byte_lo: "push_bit 6 ((push_bit 2 (b::byte) OR drop_bit 6 c) AND mask 6) OR (c AND mask 6) = c"
  by (rule bit_word_eqI) (auto simp: bit_simps add_diff_max max_def)

lemma byte_mid2: "push_bit 4 ((push_bit 4 (a::byte) OR drop_bit 4 b) AND mask 6) OR drop_bit 2 (push_bit 2 b AND mask 6) = b"
  by (rule bit_word_eqI) (auto simp: bit_simps add_diff_max max_def)

lemma byte_hi1: "push_bit 2 (drop_bit 2 (a::byte) AND mask 6) OR drop_bit 4 (push_bit 4 a AND mask 6) = a"
  by (rule bit_word_eqI) (auto simp: bit_simps add_diff_max max_def)

lemma b64_char_not_pad: "b64_char w \<noteq> 61"
  using b64_val_char[of w] by (auto simp: b64_val_def)

lemma b64_decode_quad:
  "b64_decode (b64_char w0 # b64_char w1 # b64_char w2 # b64_char w3 # rest) =
   map_option (\<lambda>bs. (push_bit 2 (w0 AND mask 6) OR drop_bit 4 (w1 AND mask 6)) #
                      (push_bit 4 (w1 AND mask 6) OR drop_bit 2 (w2 AND mask 6)) #
                      (push_bit 6 (w2 AND mask 6) OR (w3 AND mask 6)) # bs) (b64_decode rest)"
  by (simp add: b64_val_char b64_char_not_pad split: option.split)

lemma b64_decode_pair:
  "b64_decode [b64_char w0, b64_char w1, b64_char w2, 61] =
   Some [push_bit 2 (w0 AND mask 6) OR drop_bit 4 (w1 AND mask 6), push_bit 4 (w1 AND mask 6) OR drop_bit 2 (w2 AND mask 6)]"
  by (simp add: b64_val_char b64_char_not_pad)

lemma b64_decode_single:
  "b64_decode [b64_char w0, b64_char w1, 61, 61] = Some [push_bit 2 (w0 AND mask 6) OR drop_bit 4 (w1 AND mask 6)]"
  by (simp add: b64_val_char)

lemma b64_roundtrip: "b64_decode (b64_encode bs) = Some bs"
  by (induction bs rule: b64_encode.induct)
     (simp_all only: b64_encode.simps b64_decode_quad b64_decode_pair b64_decode_single
        b64_decode.simps(1) option.map byte_hi byte_mid byte_lo byte_mid2 byte_hi1)





subsection \<open>Resolved paths\<close>

lemma os_path_stack: "os_path p = [47] @ py_join [47] (rev (path_stack p))"
  by (simp add: os_path_def path_stack_def)

lemma py_split_char_ne: "py_split_char c s \<noteq> []"
  by (induction s) (auto split: list.split)

lemma py_split_char_append: "py_split_char c (xs @ c # ys) = py_split_char c xs @ py_split_char c ys"
proof (induction xs)
  case (Cons x xs)
  then show ?case
    using py_split_char_ne[of c xs] by (auto simp: neq_Nil_conv)
qed simp

lemma py_split_char_nosep: "c \<notin> set s \<Longrightarrow> py_split_char c s = [s]"
  by (induction s) auto

lemma py_split_char_elems: "w \<in> set (py_split_char c s) \<Longrightarrow> c \<notin> set w"
  by (induction s arbitrary: w) (auto split: if_splits list.splits)

lemma path_stack_snoc: "simple_name n \<Longrightarrow> path_stack (d @ 47 # n) = n # path_stack d"
  by (simp add: path_stack_def py_split_char_append py_split_char_nosep simple_name_def)

lemma foldl_path_push_simple:
  "\<forall>w\<in>set st. simple_name w \<Longrightarrow> \<forall>w\<in>set cs. w \<noteq> [] \<and> w \<noteq> [46] \<and> 47 \<notin> set w \<Longrightarrow>
   w \<in> set (foldl (\<lambda>st w. if w = [46, 46] then drop 1 st else w # st) st cs) \<Longrightarrow> simple_name w"
proof (induction cs arbitrary: st)
  case (Cons c cs)
  have "\<forall>w\<in>set (if c = [46, 46] then drop 1 st else c # st). simple_name w"
    using Cons.prems(1,2) by (auto simp: simple_name_def dest: in_set_dropD)
  with Cons show ?case by simp
qed simp

lemma path_stack_simple: "w \<in> set (path_stack p) \<Longrightarrow> simple_name w"
  unfolding path_stack_def
  by (rule foldl_path_push_simple[of "[]"]) (auto dest: py_split_char_elems)

lemma py_join_snoc: "xs \<noteq> [] \<Longrightarrow> py_join s (xs @ [y]) = py_join s xs @ s @ y"
  by (induction s xs rule: py_join.induct) auto

lemma py_join_Nil_iff: "\<forall>w\<in>set xs. w \<noteq> [] \<Longrightarrow> py_join s xs = [] \<longleftrightarrow> xs = []"
  by (induction s xs rule: py_join.induct) auto

lemma os_path_snoc:
  "simple_name n \<Longrightarrow> os_path (d @ 47 # n) = (if path_stack d = [] then [47] @ n else os_path d @ 47 # n)"
  by (simp add: os_path_stack path_stack_snoc py_join_snoc)

lemma os_path_root_iff: "os_path d = [47] \<longleftrightarrow> path_stack d = []"
  using path_stack_simple[of _ d]
  by (auto simp: os_path_stack py_join_Nil_iff simple_name_def)

lemma path_name_snoc: "47 \<notin> set n \<Longrightarrow> path_name (p @ 47 # n) = n"
  by (simp add: path_name_def takeWhile_append)

lemma parent_dir_snoc: "47 \<notin> set n \<Longrightarrow> parent_dir (p @ 47 # n) = p"
  by (simp add: parent_dir_def dropWhile_append)

lemma os_path_Cons: "os_path d \<noteq> []"
  by (simp add: os_path_stack)

lemma os_path_child:
  assumes p: "os_path p = p" and d: "parent_dir p = os_path d"
  shows "os_path (d @ 47 # path_name p) = p \<and> simple_name (path_name p)"
proof (cases "path_stack p")
  case Nil
  then have "p = [47]" using p by (simp add: os_path_stack)
  then show ?thesis using d os_path_Cons[of d] by (simp add: parent_dir_def)
next
  case (Cons n st)
  have n: "simple_name n" using path_stack_simple[of n p] Cons by simp
  then have n47: "47 \<notin> set n" by (simp add: simple_name_def)
  show ?thesis
  proof (cases "st = []")
    case True
    then have "p = [] @ 47 # n" using p Cons by (simp add: os_path_stack)
    then show ?thesis using d os_path_Cons[of d] parent_dir_snoc[OF n47, of "[]"] by simp
  next
    case False
    let ?q = "[47] @ py_join [47] (rev st)"
    have pq: "p = ?q @ 47 # n" using p Cons False by (simp add: os_path_stack py_join_snoc)
    then have q: "os_path d = ?q" using d parent_dir_snoc[OF n47, of ?q] by simp
    have "\<forall>w\<in>set (rev st). w \<noteq> []"
      using path_stack_simple[of _ p] Cons by (auto simp: simple_name_def)
    then have "py_join [47] (rev st) \<noteq> []" using False py_join_Nil_iff by auto
    then have "path_stack d \<noteq> []" using q os_path_root_iff[of d] by auto
    moreover have "path_name p = n" using pq path_name_snoc[OF n47, of ?q] by simp
    ultimately show ?thesis
      using pq q n os_path_snoc[OF n, of d] by simp
  qed
qed


subsection \<open>Properties of the endpoints\<close>


text \<open>
  C22. \<open>get_template\<close> round-trips the file: whenever it answers, decoding its base64
  string gives exactly the bytes stored at the resolved path of the request.
\<close>

theorem get_template_roundtrip:
  "get_template tdir tt category name = Inr s \<Longrightarrow>
   b64_decode s = map_of (tt_files tt) (os_path (path_join (path_join tdir category) name))"
  by (auto simp: get_template_def Let_def b64_roundtrip split: if_splits option.splits)

lemma glob_docx_member:
  "p \<in> set (glob_docx tt d) \<Longrightarrow> \<exists>bs. (p, bs) \<in> set (tt_files tt) \<and> parent_dir p = d"
  by (auto simp: glob_docx_def)

lemma path_join_simple: "simple_name n \<Longrightarrow> path_join d n = d @ 47 # n"
  by (cases n) (auto simp: path_join_def simple_name_def)

text \<open>
  C21. Listing and download agree: on a tree of resolved paths, every name
  \<open>list_templates\<close> returns for a category downloads with \<open>get_template\<close>, and
  the file served is the one listed, in the category directory.
\<close>

theorem list_templates_downloadable:
  assumes wf: "wf_tree tt" and l: "list_templates tdir tt category = Inr ns" and n: "n \<in> set ns"
  shows "\<exists>bs. map_of (tt_files tt) (os_path (path_join (path_join tdir category) n)) = Some bs \<and>
              parent_dir (os_path (path_join (path_join tdir category) n)) = os_path (path_join tdir category) \<and>
              get_template tdir tt category n = Inr (b64_encode bs)"
proof -
  let ?cp = "os_path (path_join tdir category)"
  obtain p where p: "p \<in> set (glob_docx tt ?cp)" and np: "n = path_name p"
    using l n by (auto simp: list_templates_def Let_def split: if_splits)
  obtain b where pb: "(p, b) \<in> set (tt_files tt)" and pd: "parent_dir p = ?cp"
    using glob_docx_member[OF p] by blast
  have "os_path p = p" using wf pb by (auto simp: wf_tree_def list_all_iff)
  then have "os_path (path_join tdir category @ 47 # n) = p" and sn: "simple_name n"
    using os_path_child[of p "path_join tdir category"] pd np by auto
  then have path: "os_path (path_join (path_join tdir category) n) = p"
    by (simp add: path_join_simple)
  obtain bs where bs: "map_of (tt_files tt) p = Some bs"
    using pb weak_map_of_SomeI by fastforce
  then have "get_template tdir tt category n = Inr (b64_encode bs)"
    using path by (simp add: get_template_def path_exists_def)
  then show ?thesis using bs path pd by simp
qed

text \<open>
  C20. \<open>get_template\<close> confines nothing to the template directory: a \<open>name\<close>
  starting with a slash replaces the whole path (\<open>pathlib\<close> semantics), so any file
  of the server's file system is served, whatever the category.
\<close>

theorem get_template_absolute_name:
  "map_of (tt_files tt) (os_path (47 # rest)) = Some bs \<Longrightarrow>
   get_template tdir tt category (47 # rest) = Inr (b64_encode bs)"
  by (simp add: get_template_def path_join_def path_exists_def)

text \<open>Both servers serve the template directory the same way.\<close>

lemma backend_template_endpoints_same:
  "backend_list_templates = list_templates \<and> backend_get_template = get_template"
  by (simp add: fun_eq_iff backend_list_templates_def list_templates_def backend_get_template_def get_template_def)

text \<open>
  \<open>get_template_sections\<close> never answers an empty list: the stripped paragraphs
  starting with \<open>template for\<close> (any case), or \<open>["Full Document"]\<close>.
\<close>

lemma get_template_sections_shape:
  "get_template_sections tdir tt tfs category name = Inr ss \<Longrightarrow>
   ss = [ustr ''Full Document''] \<or>
   (ss \<noteq> [] \<and> (\<forall>x\<in>set ss. py_startswith (py_lower x) (ustr ''template for'')))"
  by (auto simp: get_template_sections_def Let_def split: if_splits option.splits docx_file.splits)

lemma fold_update_distinct:
  "distinct (map fst al) \<Longrightarrow>
   distinct (map fst (fold (\<lambda>x al. if P x then AList.update (k x) (v x) al else al) xs al))"
  by (induction xs arbitrary: al) (auto simp: distinct_update)

text \<open>
  \<open>list_categories\<close> answers a well-formed dictionary: whatever the tree, no
  category name occurs twice among its keys.
\<close>

theorem list_categories_distinct: "distinct (map fst (list_categories tdir tt))"
  unfolding list_categories_def Let_def by (rule fold_update_distinct) simp

subsection \<open>Concrete runs\<close>

theorem get_template_roundtrip_witness:
  "get_template (ustr ''/t'') sample_tree (ustr ''civil'') (ustr ''rent.docx'') = Inr (ustr ''UEsD'') \<and>
   b64_decode (ustr ''UEsD'') = Some [80, 75, 3]"
proof -
  have h: "get_template (ustr ''/t'') sample_tree (ustr ''civil'') (ustr ''rent.docx'') = Inr (ustr ''UEsD'')"
    by code_simp
  show ?thesis
    using h get_template_roundtrip[OF h]
    by (simp add: sample_tree_def path_join_def os_path_def)
qed

theorem list_templates_downloadable_witness:
  "wf_tree sample_tree \<and> list_templates (ustr ''/t'') sample_tree (ustr ''civil'') = Inr [ustr ''rent.docx''] \<and>
   (\<exists>bs. map_of (tt_files sample_tree) (os_path (path_join (path_join (ustr ''/t'') (ustr ''civil'')) (ustr ''rent.docx''))) = Some bs \<and>
        parent_dir (os_path (path_join (path_join (ustr ''/t'') (ustr ''civil'')) (ustr ''rent.docx''))) =
          os_path (path_join (ustr ''/t'') (ustr ''civil'')) \<and>
        get_template (ustr ''/t'') sample_tree (ustr ''civil'') (ustr ''rent.docx'') = Inr (b64_encode bs))"
proof -
  have w: "wf_tree sample_tree"
    by (simp add: wf_tree_def sample_tree_def os_path_def)
  have l: "list_templates (ustr ''/t'') sample_tree (ustr ''civil'') = Inr [ustr ''rent.docx'']"
    by (simp add: list_templates_def sample_tree_def path_exists_def is_dir_def glob_docx_def path_join_def
                  os_path_def parent_dir_def path_name_def py_endswith_def Let_def)
  show ?thesis
    using w l list_templates_downloadable[OF w l, of "ustr ''rent.docx''"] by simp
qed

theorem get_template_absolute_name_witness:
  "get_template (ustr ''/t'') sample_tree (ustr ''civil'') (ustr ''/app/Backend/.env'') =
     Inr (b64_encode [75, 61, 49])"
proof -
  have "map_of (tt_files sample_tree) (os_path (ustr ''/app/Backend/.env'')) = Some [75, 61, 49]"
    by (simp add: sample_tree_def os_path_def)
  then show ?thesis
    using get_template_absolute_name[of sample_tree "ustr ''app/Backend/.env''"] by simp
qed



end
