(* ===== verification/Manual_Test.thy ===== *)
theory Manual_Test
  imports Router_Api
begin

text \<open>
  The Flask app of \<open>src/Chatbot/Other files/app.py\<close> as a server process and the
  client \<open>src/Chatbot/Other files/manual_test.py\<close> that posts to it. Starting the
  app imports \<open>llm.py\<close>, which first imports \<open>prompts.py\<close> and then loads
  \<open>acts/overlap_rules.json\<close> (\<open>load_overlap_rules\<close>); an exception in either
  ends the process and nothing listens. The repository's \<open>prompts.py\<close> is prose,
  not Python, so its import raises \<open>SyntaxError\<close> (\<open>PROMPTS_IMPORT\<close>); the start-up
  takes the result of that import as an argument so that the rest of the chain can
  also be stated for an importable prompt module. A running server answers a POST by its route table (\<open>flask_post\<close>);
  the session cookie of a request without cookies is empty, so each request of the
  client runs \<open>chat\<close> on the empty session. The client sees either the text of
  the \<open>ConnectionError\<close> that \<open>requests\<close> raises when nothing listens, or the
  server's reply; its printed output is the list of the strings passed to
  \<open>print\<close>.
\<close>

subsection \<open>Starting the server\<close>

definition OVERLAP_RULES_PATH :: ustr where
  "OVERLAP_RULES_PATH = ustr ''acts/overlap_rules.json''"

text \<open>
  The module body of \<open>llm.py\<close>: the rules are the parsed file when it exists, the
  empty dictionary otherwise; a file that does not parse raises. A parsed file is
  kept as the router's view of a JSON file; no function of the module reads the
  value.
\<close>

definition load_overlap_rules :: "act_files \<Rightarrow> py_error + (ustr \<rightharpoonup> statute)" where
  "load_overlap_rules fs =
     (case fs OVERLAP_RULES_PATH of
        None \<Rightarrow> Inr Map.empty
      | Some (Act_json d) \<Rightarrow> Inr d
      | Some Malformed_json \<Rightarrow> Inl JSONDecodeError)"

text \<open>
  A running Flask app: the act files and models its handlers use, the environment's
  \<open>GOOGLE_API_KEY\<close>, and the HTML page Werkzeug renders for an error status (with
  \<open>debug=True\<close>, the debugger's traceback page for a 500).
\<close>

record flask_server =
  srv_files :: act_files
  srv_llm :: chat_model
  srv_gemini :: "ustr \<Rightarrow> ustr \<Rightarrow> py_error + ustr"
  srv_key :: "ustr option"
  srv_page :: "nat \<Rightarrow> ustr"

text \<open>
  \<open>import prompts\<close> at \<open>llm.py:6\<close>: the file starts with the sentence
  \<open>You are GUARDIAN ...\<close>, which does not parse as Python.
\<close>

definition PROMPTS_IMPORT :: "py_error + unit" where
  "PROMPTS_IMPORT = Inl (SyntaxError (ustr ''invalid syntax (prompts.py, line 1)''))"

text \<open>The module body of \<open>llm.py\<close>, in order: the imports, then the rules.\<close>

definition import_llm :: "py_error + unit \<Rightarrow> act_files \<Rightarrow> py_error + (ustr \<rightharpoonup> statute)" where
  "import_llm prompts fs =
     (case prompts of
        Inl e \<Rightarrow> Inl e
      | Inr _ \<Rightarrow> load_overlap_rules fs)"

definition flask_start ::
  "py_error + unit \<Rightarrow> act_files \<Rightarrow> chat_model \<Rightarrow> (ustr \<Rightarrow> ustr \<Rightarrow> py_error + ustr) \<Rightarrow> ustr option \<Rightarrow>
   (nat \<Rightarrow> ustr) \<Rightarrow> flask_server option" where
  "flask_start prompts fs llm gemini key page =
     (case import_llm prompts fs of
        Inl e \<Rightarrow> None
      | Inr rules \<Rightarrow> Some \<lparr>srv_files = fs, srv_llm = llm, srv_gemini = gemini,
                            srv_key = key, srv_page = page\<rparr>)"

subsection \<open>Routing a POST request\<close>

text \<open>
  A reply: a \<open>jsonify\<close>-ed dictionary with status 200, or an HTML page with its
  status. \<open>/\<close> serves GET only (405 for a POST); an unknown path is 404.
\<close>

datatype server_reply = Json_ok "(ustr \<times> ustr) list" | Html_page nat ustr

definition flask_post :: "flask_server \<Rightarrow> ustr \<Rightarrow> chat_form \<Rightarrow> server_reply" where
  "flask_post srv path form =
     (if path = ustr ''/chat'' then
        (case snd (chat (srv_files srv) (srv_llm srv) (srv_gemini srv) (srv_key srv)
                     \<lparr>history = None\<rparr> form) of
           Inl (HTTPException c d) \<Rightarrow> Html_page c (srv_page srv c)
         | Inr response_text \<Rightarrow> Json_ok [(ustr ''response'', response_text)])
      else if path = ustr ''/clear_history'' then Json_ok [(ustr ''status'', ustr ''success'')]
      else if path = ustr ''/'' then Html_page 405 (srv_page srv 405)
      else Html_page 404 (srv_page srv 404))"

subsection \<open>The client\<close>

definition BASE_URL :: ustr where
  "BASE_URL = ustr ''http://127.0.0.1:5000''"

text \<open>
  \<open>requests.post\<close> to a URL under \<open>BASE_URL\<close>: the connection error's text when no
  server runs, else the reply for the URL's path.
\<close>

definition requests_post :: "ustr \<Rightarrow> flask_server option \<Rightarrow> ustr \<Rightarrow> chat_form \<Rightarrow> ustr + server_reply" where
  "requests_post refused host url payload =
     (case host of
        None \<Rightarrow> Inl refused
      | Some srv \<Rightarrow> Inr (flask_post srv (drop (length BASE_URL) url) payload))"

text \<open>
  \<open>str(e)\<close> of the exceptions the client's \<open>except Exception\<close> catches after a
  reply: \<open>response.json()\<close> of an HTML page, and slicing the \<open>None\<close> of a missing
  \<open>"response"\<close> key.
\<close>

definition JSON_PAGE_ERROR :: ustr where
  "JSON_PAGE_ERROR = ustr ''Expecting value: line 1 column 1 (char 0)''"

definition NONE_SLICE_ERROR :: ustr where
  "NONE_SLICE_ERROR = [39] @ ustr ''NoneType'' @ [39] @ ustr '' object is not subscriptable''"

definition testing_banner :: "ustr \<Rightarrow> ustr" where
  "testing_banner speed = ustr ''\<newline>--- Testing Speed: '' @ speed @ ustr '' ---''"

text \<open>
  \<open>test_chat\<close>: whether the test passed and what it printed. The banner is printed
  inside the \<open>try\<close>, before the request.
\<close>

definition test_chat :: "ustr \<Rightarrow> flask_server option \<Rightarrow> ustr \<Rightarrow> ustr \<Rightarrow> ustr \<Rightarrow> bool \<times> ustr list" where
  "test_chat refused host message speed api_key =
     (let url = BASE_URL @ ustr ''/chat'';
          payload = \<lparr>cf_message = Some message, cf_speed = Some speed, cf_api_key = Some api_key\<rparr>;
          banner = testing_banner speed;
          failed = (\<lambda>e. (False, [banner, ustr ''Connection failed: '' @ e]))
      in case requests_post refused host url payload of
           Inl e \<Rightarrow> failed e
         | Inr (Json_ok data) \<Rightarrow>
             (case map_of data (ustr ''response'') of
                None \<Rightarrow> failed NONE_SLICE_ERROR
              | Some r \<Rightarrow> (True, [banner, ustr ''Response: '' @ take 100 r @ ustr ''...'']))
         | Inr (Html_page c text) \<Rightarrow>
             (if c = 200 then failed JSON_PAGE_ERROR
              else (False, [banner, ustr ''Error: '' @ py_str_nat c @ ustr '' - '' @ text])))"

definition MANUAL_TEST_WARNING :: ustr where
  "MANUAL_TEST_WARNING =
     ustr ''WARNING: This script requires app.py to be running on port 5000 separately.''"

definition IPC_302_QUESTION :: ustr where
  "IPC_302_QUESTION = ustr ''Tell me about IPC 302''"

text \<open>The script's main block: the two results (discarded by the script) and the output.\<close>

definition manual_test_main :: "ustr \<Rightarrow> flask_server option \<Rightarrow> bool list \<times> ustr list" where
  "manual_test_main refused host =
     (let detailed = test_chat refused host IPC_302_QUESTION (ustr ''Detailed'') [];
          fast = test_chat refused host IPC_302_QUESTION (ustr ''Fast'') []
      in ([fst detailed, fst fast], MANUAL_TEST_WARNING # snd detailed @ snd fast))"

subsection \<open>Lemmas\<close>

lemma chat_error_500:
  "snd (chat fs llm gemini k s form) = Inl e \<Longrightarrow>
   e = HTTPException 500 (ustr ''Internal Server Error'')"
  by (auto simp: chat_def Let_def split: if_splits option.splits sum.splits)

lemma flask_start_None_iff:
  "(flask_start prompts fs llm gemini key page = None) =
   ((\<exists>e. prompts = Inl e) \<or> fs OVERLAP_RULES_PATH = Some Malformed_json)"
  by (auto simp: flask_start_def import_llm_def load_overlap_rules_def
           split: option.splits act_file.splits sum.splits)

lemma py_str_nat_500: "py_str_nat 500 = ustr ''500''"
  by code_simp

text \<open>What the client makes of the \<open>/chat\<close> handler's result on the empty session.\<close>

lemma test_chat_served:
  "test_chat refused (Some srv) m sp k =
     (case snd (chat (srv_files srv) (srv_llm srv) (srv_gemini srv) (srv_key srv) \<lparr>history = None\<rparr>
                \<lparr>cf_message = Some m, cf_speed = Some sp, cf_api_key = Some k\<rparr>) of
        Inl e \<Rightarrow> (False, [testing_banner sp, ustr ''Error: 500 - '' @ srv_page srv 500])
      | Inr r \<Rightarrow> (True, [testing_banner sp, ustr ''Response: '' @ take 100 r @ ustr ''...'']))"
proof (cases "snd (chat (srv_files srv) (srv_llm srv) (srv_gemini srv) (srv_key srv) \<lparr>history = None\<rparr>
                \<lparr>cf_message = Some m, cf_speed = Some sp, cf_api_key = Some k\<rparr>)")
  case (Inl e)
  then show ?thesis
    using chat_error_500[OF Inl]
    by (simp add: test_chat_def requests_post_def flask_post_def BASE_URL_def py_str_nat_500)
next
  case (Inr r)
  then show ?thesis by (simp add: test_chat_def requests_post_def flask_post_def BASE_URL_def)
qed

lemma test_chat_refused:
  "test_chat refused None m sp k = (False, [testing_banner sp, ustr ''Connection failed: '' @ refused])"
  by (simp add: test_chat_def requests_post_def)

lemma manual_test_main_refused:
  "manual_test_main refused None =
     ([False, False],
      [MANUAL_TEST_WARNING, testing_banner (ustr ''Detailed''), ustr ''Connection failed: '' @ refused,
       testing_banner (ustr ''Fast''), ustr ''Connection failed: '' @ refused])"
  by (simp add: manual_test_main_def test_chat_refused)

text \<open>
  With an importable prompt module the detailed-mode test would run the whole chain:
  it passes and prints the first 100 characters of the router's answer (called with
  the path \<open>acts/ipc.json\<close> as document context) exactly when the router answers,
  and prints the 500 page when it raises.
\<close>

lemma test_chat_detailed_importable:
  "q \<noteq> [] \<Longrightarrow> load_overlap_rules fs = Inr rules \<Longrightarrow>
   test_chat refused (flask_start (Inr ()) fs llm gemini key page) q (ustr ''Detailed'') k =
     (case guardian_llm fs llm q (ustr ''acts/ipc.json'') of
        Inl e \<Rightarrow> (False, [testing_banner (ustr ''Detailed''), ustr ''Error: 500 - '' @ page 500])
      | Inr r \<Rightarrow> (True, [testing_banner (ustr ''Detailed''), ustr ''Response: '' @ take 100 r @ ustr ''...'']))"
  by (auto simp: flask_start_def import_llm_def test_chat_served chat_def Let_def split: sum.splits)

text \<open>
  C30. The manual test cannot pass against the repository: \<open>app.py\<close> imports
  \<open>llm\<close>, whose import of \<open>prompts.py\<close> raises, so no server listens on port
  5000; whatever the act files, models and keys, the script prints its warning and,
  for both speeds, the banner and \<open>Connection failed\<close>, and both tests fail.
\<close>

theorem manual_test_never_connects:
  "manual_test_main refused (flask_start PROMPTS_IMPORT fs llm gemini key page) =
     ([False, False],
      [MANUAL_TEST_WARNING, testing_banner (ustr ''Detailed''), ustr ''Connection failed: '' @ refused,
       testing_banner (ustr ''Fast''), ustr ''Connection failed: '' @ refused])"
  by (simp add: flask_start_def import_llm_def PROMPTS_IMPORT_def manual_test_main_refused)

end
