(* ===== verification/Request_Models.thy ===== *)
theory Request_Models
  imports Backend_Api Router_Api
begin

text \<open>
  The request bodies of the chatbot API (\<open>src/Chatbot/backend/main.py\<close>) as FastAPI
  receives them: a JSON value, validated against the pydantic models
  \<open>AIStartRequest\<close>, \<open>ChatRequest\<close>, \<open>AINextRequest\<close> and \<open>AICompleteRequest\<close>
  before the handler runs. Validation goes through the fields in declaration order
  and collects every error; a body with an error is answered 422 with the list, and
  the handler is not called. A field \<open>str\<close> accepts a JSON string only, \<open>str | None\<close>
  also \<open>null\<close>, \<open>List[dict]\<close> an array of objects; a field with a default may be
  absent. A history or message dict is seen, as in the handlers' model, through its
  string-valued \<open>role\<close> and \<open>content\<close> keys.
\<close>

subsection \<open>JSON values\<close>

datatype json =
    JObject "(ustr \<times> json) list"
  | JArray "json list"
  | JNumber int
  | JString ustr
  | JBool bool
  | JNull

text \<open>\<open>json.loads\<close> keeps the last value of a repeated key.\<close>

definition json_get :: "(ustr \<times> json) list \<Rightarrow> ustr \<Rightarrow> json option" where
  "json_get kvs k = map_of (rev kvs) k"

subsection \<open>Validation errors\<close>

datatype loc_item = Loc_key ustr | Loc_index nat

text \<open>An entry of the 422 \<open>detail\<close> list: error type, location, message.\<close>

datatype verr = Verr ustr "loc_item list" ustr

type_synonym 'a validated = "verr list + 'a"

definition missing_err :: "ustr \<Rightarrow> verr" where
  "missing_err f = Verr (ustr ''missing'') [Loc_key (ustr ''body''), Loc_key f] (ustr ''Field required'')"

definition string_type_err :: "ustr \<Rightarrow> verr" where
  "string_type_err f =
     Verr (ustr ''string_type'') [Loc_key (ustr ''body''), Loc_key f] (ustr ''Input should be a valid string'')"

definition list_type_err :: "ustr \<Rightarrow> verr" where
  "list_type_err f =
     Verr (ustr ''list_type'') [Loc_key (ustr ''body''), Loc_key f] (ustr ''Input should be a valid list'')"

definition dict_type_err :: "ustr \<Rightarrow> nat \<Rightarrow> verr" where
  "dict_type_err f i =
     Verr (ustr ''dict_type'') [Loc_key (ustr ''body''), Loc_key f, Loc_index i]
       (ustr ''Input should be a valid dictionary'')"

definition model_type_err :: verr where
  "model_type_err =
     Verr (ustr ''model_attributes_type'') [Loc_key (ustr ''body'')]
       (ustr ''Input should be a valid dictionary or object to extract fields from'')"

definition errs :: "'a validated \<Rightarrow> verr list" where
  "errs v = (case v of Inl es \<Rightarrow> es | Inr _ \<Rightarrow> [])"

text \<open>Two fields validated one after the other; the errors of both are reported.\<close>

definition both :: "'a validated \<Rightarrow> 'b validated \<Rightarrow> ('a \<times> 'b) validated" where
  "both a b = (case (a, b) of (Inr x, Inr y) \<Rightarrow> Inr (x, y) | _ \<Rightarrow> Inl (errs a @ errs b))"

subsection \<open>Field validators\<close>

definition v_str :: "(ustr \<times> json) list \<Rightarrow> ustr \<Rightarrow> ustr validated" where
  "v_str kvs f =
     (case json_get kvs f of
        None \<Rightarrow> Inl [missing_err f]
      | Some (JString s) \<Rightarrow> Inr s
      | Some _ \<Rightarrow> Inl [string_type_err f])"

text \<open>\<open>str | None = None\<close>.\<close>

definition v_opt_str :: "(ustr \<times> json) list \<Rightarrow> ustr \<Rightarrow> ustr option validated" where
  "v_opt_str kvs f =
     (case json_get kvs f of
        None \<Rightarrow> Inr None
      | Some JNull \<Rightarrow> Inr None
      | Some (JString s) \<Rightarrow> Inr (Some s)
      | Some _ \<Rightarrow> Inl [string_type_err f])"

text \<open>The elements of a \<open>List[dict]\<close>, from index \<open>i\<close>.\<close>

fun v_dicts :: "ustr \<Rightarrow> nat \<Rightarrow> json list \<Rightarrow> (ustr \<times> json) list list validated" where
  "v_dicts f i [] = Inr []"
| "v_dicts f i (JObject kvs # xs) =
     (case v_dicts f (Suc i) xs of Inr ds \<Rightarrow> Inr (kvs # ds) | Inl es \<Rightarrow> Inl es)"
| "v_dicts f i (x # xs) = Inl (dict_type_err f i # errs (v_dicts f (Suc i) xs))"

text \<open>\<open>List[dict]\<close>, required, or with the default \<open>[]\<close> when \<open>dflt\<close>.\<close>

definition v_dict_list :: "bool \<Rightarrow> (ustr \<times> json) list \<Rightarrow> ustr \<Rightarrow> (ustr \<times> json) list list validated" where
  "v_dict_list dflt kvs f =
     (case json_get kvs f of
        None \<Rightarrow> (if dflt then Inr [] else Inl [missing_err f])
      | Some (JArray xs) \<Rightarrow> v_dicts f 0 xs
      | Some _ \<Rightarrow> Inl [list_type_err f])"

text \<open>A history or message dict as the handlers see it.\<close>

definition json_str :: "json option \<Rightarrow> ustr option" where
  "json_str v = (case v of Some (JString s) \<Rightarrow> Some s | _ \<Rightarrow> None)"

definition dict_msg :: "(ustr \<times> json) list \<Rightarrow> chat_msg" where
  "dict_msg kvs = \<lparr>cm_role = json_str (json_get kvs (ustr ''role'')),
                   cm_content = json_str (json_get kvs (ustr ''content''))\<rparr>"

subsection \<open>The request models\<close>

definition validate_ai_start :: "json \<Rightarrow> ai_start_request validated" where
  "validate_ai_start body =
     (case body of
        JObject kvs \<Rightarrow>
          (case both (v_str kvs (ustr ''category''))
                  (both (v_opt_str kvs (ustr ''subtype'')) (v_str kvs (ustr ''user_input''))) of
             Inl es \<Rightarrow> Inl es
           | Inr (c, (s, u)) \<Rightarrow> Inr \<lparr>as_category = c, as_subtype = s, as_user_input = u\<rparr>)
      | _ \<Rightarrow> Inl [model_type_err])"

definition validate_chat_request :: "json \<Rightarrow> chat_request validated" where
  "validate_chat_request body =
     (case body of
        JObject kvs \<Rightarrow>
          (case both (v_str kvs (ustr ''message''))
                  (both (v_dict_list True kvs (ustr ''history'')) (v_opt_str kvs (ustr ''session_id''))) of
             Inl es \<Rightarrow> Inl es
           | Inr (m, (h, s)) \<Rightarrow> Inr \<lparr>rq_message = m, rq_history = map dict_msg h, rq_session_id = s\<rparr>)
      | _ \<Rightarrow> Inl [model_type_err])"

definition validate_ai_next :: "json \<Rightarrow> ai_next_request validated" where
  "validate_ai_next body =
     (case body of
        JObject kvs \<Rightarrow>
          (case both (v_str kvs (ustr ''category''))
                  (both (v_str kvs (ustr ''filename'')) (v_dict_list False kvs (ustr ''messages''))) of
             Inl es \<Rightarrow> Inl es
           | Inr (c, (f, ms)) \<Rightarrow> Inr \<lparr>an_category = c, an_filename = f, an_messages = map dict_msg ms\<rparr>)
      | _ \<Rightarrow> Inl [model_type_err])"

definition validate_ai_complete :: "json \<Rightarrow> ai_complete_request validated" where
  "validate_ai_complete body =
     (case body of
        JObject kvs \<Rightarrow>
          (case both (v_str kvs (ustr ''category''))
                  (both (v_str kvs (ustr ''filename'')) (v_dict_list False kvs (ustr ''messages''))) of
             Inl es \<Rightarrow> Inl es
           | Inr (c, (f, ms)) \<Rightarrow> Inr \<lparr>ac_category = c, ac_filename = f, ac_messages = map dict_msg ms\<rparr>)
      | _ \<Rightarrow> Inl [model_type_err])"

subsection \<open>Endpoints with their validation\<close>

text \<open>
  \<open>POST /api/chat\<close> as a client reaches it: the body is validated, then
  \<open>legal_chat\<close> runs on the request.
\<close>

definition chat_api ::
  "groq_model \<Rightarrow> ustr \<Rightarrow> ustr \<Rightarrow> ustr \<Rightarrow> ustr \<Rightarrow> chat_fs \<Rightarrow> json \<Rightarrow>
   chat_fs \<times> (verr list + chat_reply http_result)" where
  "chat_api model fresh now1 now2 hist_dir fs body =
     (case validate_chat_request body of
        Inl es \<Rightarrow> (fs, Inl es)
      | Inr req \<Rightarrow> (let (fs', r) = legal_chat model fresh now1 now2 hist_dir fs req in (fs', Inr r)))"

definition start_api ::
  "groq_model \<Rightarrow> ustr \<Rightarrow> template_fs \<Rightarrow> json \<Rightarrow> verr list + ai_start_reply http_result" where
  "start_api model tdir tfs body =
     (case validate_ai_start body of
        Inl es \<Rightarrow> Inl es
      | Inr req \<Rightarrow> Inr (start_ai_flow model tdir tfs req))"

definition next_api :: "groq_model \<Rightarrow> ustr \<Rightarrow> template_fs \<Rightarrow> json \<Rightarrow> verr list + ustr" where
  "next_api model tdir tfs body =
     (case validate_ai_next body of
        Inl es \<Rightarrow> Inl es
      | Inr req \<Rightarrow> Inr (ai_next_question model tdir tfs req))"

definition complete_api ::
  "(ustr \<Rightarrow> completion option) \<Rightarrow> groq_model \<Rightarrow> ustr \<Rightarrow> template_fs \<Rightarrow> json \<Rightarrow>
   verr list + complete_reply http_result" where
  "complete_api parse model tdir tfs body =
     (case validate_ai_complete body of
        Inl es \<Rightarrow> Inl es
      | Inr req \<Rightarrow> Inr (complete_template parse model tdir tfs req))"

text \<open>
  The backend server (\<open>src/Backend/main.py\<close>) declares the same four models with the
  same fields and validates its bodies with them.
\<close>

definition backend_chat_api ::
  "groq_model \<Rightarrow> ustr \<Rightarrow> ustr \<Rightarrow> ustr \<Rightarrow> chat_fs \<Rightarrow> json \<Rightarrow>
   chat_fs \<times> (verr list + chat_reply http_result)" where
  "backend_chat_api model fresh now hist_dir fs body =
     (case validate_chat_request body of
        Inl es \<Rightarrow> (fs, Inl es)
      | Inr req \<Rightarrow> (let (fs', r) = backend_legal_chat model fresh now hist_dir fs req in (fs', Inr r)))"

definition backend_start_api ::
  "groq_model \<Rightarrow> ustr \<Rightarrow> template_fs \<Rightarrow> json \<Rightarrow> verr list + ai_start_reply http_result" where
  "backend_start_api model tdir tfs body =
     (case validate_ai_start body of
        Inl es \<Rightarrow> Inl es
      | Inr req \<Rightarrow> Inr (backend_start_ai_flow model tdir tfs req))"

definition backend_next_api :: "groq_model \<Rightarrow> ustr \<Rightarrow> template_fs \<Rightarrow> json \<Rightarrow> verr list + ustr" where
  "backend_next_api model tdir tfs body =
     (case validate_ai_next body of
        Inl es \<Rightarrow> Inl es
      | Inr req \<Rightarrow> Inr (backend_ai_next_question model tdir tfs req))"

text \<open>
  The router's FastAPI app (\<open>src/Chatbot/Other files/main.py\<close>): \<open>ChatRequest\<close>
  there has the single field \<open>message: str\<close>.
\<close>

definition validate_router_chat :: "json \<Rightarrow> ustr validated" where
  "validate_router_chat body =
     (case body of JObject kvs \<Rightarrow> v_str kvs (ustr ''message'') | _ \<Rightarrow> Inl [model_type_err])"

definition router_chat_api :: "act_files \<Rightarrow> chat_model \<Rightarrow> json \<Rightarrow> verr list + endpoint_reply" where
  "router_chat_api fs llm body =
     (case validate_router_chat body of
        Inl es \<Rightarrow> Inl es
      | Inr message \<Rightarrow> Inr (chat_endpoint fs llm message))"

subsection \<open>Well-typed bodies\<close>

text \<open>
  The typing the models declare, stated on its own: an object whose required
  string fields are strings, whose optional fields are absent, \<open>null\<close> or strings,
  and whose dict lists are absent (where defaulted) or arrays of objects.
\<close>

definition is_jstring :: "json \<Rightarrow> bool" where
  "is_jstring v = (case v of JString _ \<Rightarrow> True | _ \<Rightarrow> False)"

definition is_jobject :: "json \<Rightarrow> bool" where
  "is_jobject v = (case v of JObject _ \<Rightarrow> True | _ \<Rightarrow> False)"

definition str_field_ok :: "(ustr \<times> json) list \<Rightarrow> ustr \<Rightarrow> bool" where
  "str_field_ok kvs f = (case json_get kvs f of Some v \<Rightarrow> is_jstring v | None \<Rightarrow> False)"

definition opt_str_field_ok :: "(ustr \<times> json) list \<Rightarrow> ustr \<Rightarrow> bool" where
  "opt_str_field_ok kvs f = (case json_get kvs f of Some v \<Rightarrow> v = JNull \<or> is_jstring v | None \<Rightarrow> True)"

definition dict_list_field_ok :: "bool \<Rightarrow> (ustr \<times> json) list \<Rightarrow> ustr \<Rightarrow> bool" where
  "dict_list_field_ok dflt kvs f =
     (case json_get kvs f of
        Some (JArray xs) \<Rightarrow> list_all is_jobject xs
      | Some _ \<Rightarrow> False
      | None \<Rightarrow> dflt)"

definition chat_body_typed :: "json \<Rightarrow> bool" where
  "chat_body_typed body =
     (case body of
        JObject kvs \<Rightarrow> str_field_ok kvs (ustr ''message'') \<and> dict_list_field_ok True kvs (ustr ''history'') \<and>
                       opt_str_field_ok kvs (ustr ''session_id'')
      | _ \<Rightarrow> False)"

text \<open>The body a client sends for a request: the inverse direction of validation.\<close>

definition msg_kvs :: "chat_msg \<Rightarrow> (ustr \<times> json) list" where
  "msg_kvs m =
     (case cm_role m of None \<Rightarrow> [] | Some r \<Rightarrow> [(ustr ''role'', JString r)]) @
     (case cm_content m of None \<Rightarrow> [] | Some c \<Rightarrow> [(ustr ''content'', JString c)])"

definition chat_request_json :: "chat_request \<Rightarrow> json" where
  "chat_request_json r =
     JObject [(ustr ''message'', JString (rq_message r)),
              (ustr ''history'', JArray (map (JObject \<circ> msg_kvs) (rq_history r))),
              (ustr ''session_id'', case rq_session_id r of None \<Rightarrow> JNull | Some s \<Rightarrow> JString s)]"

subsection \<open>Lemmas\<close>

lemma both_Inr_iff:
  "(both a b = Inr p) = (\<exists>x y. a = Inr x \<and> b = Inr y \<and> p = (x, y))"
  by (auto simp: both_def split: sum.splits)

lemma ex_both3_Inr:
  "(\<exists>x y z. both a (both b c) = Inr (x, y, z)) = ((\<exists>x. a = Inr x) \<and> (\<exists>y. b = Inr y) \<and> (\<exists>z. c = Inr z))"
  by (auto simp: both_Inr_iff)

lemma v_dicts_ok: "(\<exists>ds. v_dicts f i xs = Inr ds) = list_all is_jobject xs"
  by (induction f i xs rule: v_dicts.induct) (auto simp: is_jobject_def split: sum.splits)

lemma v_dicts_objects: "v_dicts f i (map (\<lambda>x. JObject (g x)) ys) = Inr (map g ys)"
  by (induction ys arbitrary: i) simp_all

lemma v_str_ok: "(\<exists>s. v_str kvs f = Inr s) = str_field_ok kvs f"
  by (auto simp: v_str_def str_field_ok_def is_jstring_def split: option.splits json.splits)

lemma v_opt_str_ok: "(\<exists>s. v_opt_str kvs f = Inr s) = opt_str_field_ok kvs f"
  by (auto simp: v_opt_str_def opt_str_field_ok_def is_jstring_def split: option.splits json.splits)

lemma v_dict_list_ok: "(\<exists>ds. v_dict_list dflt kvs f = Inr ds) = dict_list_field_ok dflt kvs f"
  by (auto simp: v_dict_list_def dict_list_field_ok_def v_dicts_ok split: option.splits json.splits)

lemma dict_msg_kvs: "dict_msg (msg_kvs m) = m"
  by (cases "cm_role m"; cases "cm_content m")
     (simp_all add: dict_msg_def msg_kvs_def json_get_def json_str_def)

text \<open>A body that fails validation never reaches the handler: the files are unchanged.\<close>

lemma chat_api_rejects:
  "validate_chat_request body = Inl es \<Longrightarrow> chat_api model fresh now1 now2 hist_dir fs body = (fs, Inl es)"
  by (simp add: chat_api_def)

lemma chat_api_accepts:
  "validate_chat_request body = Inr req \<Longrightarrow>
   chat_api model fresh now1 now2 hist_dir fs body =
     (fst (legal_chat model fresh now1 now2 hist_dir fs req), Inr (snd (legal_chat model fresh now1 now2 hist_dir fs req)))"
  by (simp add: chat_api_def split: prod.split)

lemma validate_ai_start_empty:
  "validate_ai_start (JObject []) =
     Inl [missing_err (ustr ''category''), missing_err (ustr ''user_input'')]"
  by (simp add: validate_ai_start_def both_def errs_def v_str_def v_opt_str_def json_get_def)

text \<open>Both servers reject the same chat bodies with the same errors, and neither touches the files then.\<close>

lemma chat_api_servers_reject_alike:
  "validate_chat_request body = Inl es \<Longrightarrow>
   chat_api model fresh now1 now2 hist_dir fs body = (fs, Inl es) \<and>
   backend_chat_api model' fresh' now hist_dir fs body = (fs, Inl es)"
  by (simp add: chat_api_def backend_chat_api_def)

text \<open>
  Validation of the chat body is exactly its typing: \<open>validate_chat_request\<close>
  accepts a JSON body if and only if it is an object with a string \<open>message\<close>, a
  \<open>history\<close> that is absent or an array of objects, and a \<open>session_id\<close> that is
  absent, \<open>null\<close> or a string; every other body is answered 422.
\<close>

theorem chat_request_typing:
  "(\<exists>r. validate_chat_request body = Inr r) = chat_body_typed body"
proof (cases body)
  case (JObject kvs)
  have "(\<exists>r. validate_chat_request body = Inr r) =
        (\<exists>x y z. both (v_str kvs (ustr ''message''))
                 (both (v_dict_list True kvs (ustr ''history'')) (v_opt_str kvs (ustr ''session_id''))) =
                 Inr (x, y, z))"
    by (auto simp: JObject validate_chat_request_def split: sum.splits prod.splits)
  then show ?thesis
    by (simp only: JObject chat_body_typed_def ex_both3_Inr v_str_ok v_dict_list_ok v_opt_str_ok json.case)
qed (simp_all add: validate_chat_request_def chat_body_typed_def)

text \<open>
  Every request the chat handler can take is reached by a JSON body: the body
  a client builds from a request (its message, its history dicts with their role
  and content, its session id or \<open>null\<close>) validates back to that request.
\<close>

theorem chat_request_roundtrip:
  "validate_chat_request (chat_request_json r) = Inr r"
  by (cases "rq_session_id r")
     (simp_all add: validate_chat_request_def chat_request_json_def both_def v_str_def v_opt_str_def
                    v_dict_list_def json_get_def v_dicts_objects dict_msg_kvs comp_def)

end
