(* ===== verification/Spec2Isabelle.thy ===== *)
theory Spec2Isabelle
  imports Act_Scripts Accounts_Spec Server_Startup Chat_Store Template_Files Manual_Test Request_Models
begin

text \<open>
  \<^bold>\<open>Guardian: a verification development of the legal-assistant repository.\<close>

  \<^medskip>\<^bold>\<open>The program.\<close> The repository has three Python programs. The router
  under \<open>src/Chatbot/Other files/\<close> answers a legal question: \<open>guardian_llm\<close>
  (\<open>llm.py\<close>) classifies it by law type (\<open>law_classifier.py\<close>), detects its
  language (\<open>language_utils.py\<close>), extracts the IPC sections it cites, looks each
  one up in the JSON act files (\<open>law_retriever.py\<close>), assembles a context, sends
  the system prompt (\<open>prompts.py\<close>) and the question to a local model, and filters
  the reply. The chatbot API \<open>src/Chatbot/backend/main.py\<close> and the backend API
  \<open>src/Backend/main.py\<close> forward chats to a hosted model and store each session as a
  JSON file in one shared directory; the backend also serves user accounts
  (\<open>src/Backend/Schema\<close>, \<open>db\<close>, \<open>Service\<close>, \<open>routes\<close>) over a PostgreSQL table.

  \<^medskip>\<^bold>\<open>Theories and what they model.\<close>
  \<^item> \<open>Prelude\<close>: Python strings as lists of code points (\<open>ustr\<close>), the exceptions
    the code raises (\<open>py_error\<close>), FastAPI's \<open>HTTPException\<close> and handler results
    (\<open>http_error + 'a\<close>), Python's \<open>x or y\<close>, \<open>str(n)\<close> and \<open>str(e)\<close>, and the
    list lemmas the scanners share (collection \<open>guardian_simps\<close>).
  \<^item> \<open>Python_Str\<close>: the string runtime the code calls (\<open>re\<close> character classes,
    \<open>lower\<close>, \<open>strip\<close>, \<open>in\<close>, \<open>startswith\<close>, \<open>endswith\<close>, \<open>split\<close>,
    \<open>join\<close>) and two drivers, \<open>re_search\<close> and \<open>re_findall\<close>, over a matcher that
    sees the previous character, so that \<open>\b\<close> is exact; the scan terminates on
    every input (its domain predicate holds everywhere) and returns at most one match
    per character plus one.
  \<^item> \<open>Classifier\<close>: \<open>detect_law_type\<close> as its if-chain; \<open>Language\<close>:
    \<open>detect_language\<close> with its eleven range checks, the \<open>\b\w+\b\<close> tokenizer and
    Python's \<open>max\<close>; \<open>Extractor\<close>: the three regular expressions of \<open>llm.py\<close>
    and \<open>section_extractor.py\<close> as matchers; \<open>Statute\<close>: the act files as a map
    from path to parsed act or malformed file, \<open>load_section\<close> and the verified-data
    renderer \<open>format_ipc_context\<close>; \<open>Guardian\<close>: \<open>guardian_llm\<close> with the model
    as a parameter \<open>chat\<close> that may fail.
  \<^item> \<open>Router_Api\<close>: the entry points around the router: the FastAPI
    \<open>chat_endpoint\<close>, the Gemini \<open>fast_response\<close>, the Flask handlers
    \<open>home\<close>, \<open>chat\<close> and \<open>clear_history\<close> over the session history with
    the sessions one browser can reach as the inductive \<open>session_reachable\<close>,
    \<open>read_document\<close>, the act merge of \<open>merge_ipc.py\<close> (\<open>merge_parts\<close>)
    and the unused SQLite log of \<open>db.py\<close>.
  \<^item> \<open>Manual_Test\<close>: the Flask app of \<open>app.py\<close> as a process
    (\<open>flask_start\<close>: importing \<open>llm.py\<close> first imports \<open>prompts.py\<close>, which is
    prose and raises \<open>SyntaxError\<close> (\<open>PROMPTS_IMPORT\<close>), then loads
    \<open>acts/overlap_rules.json\<close>; either failure stops the start), its route table
    for a POST (\<open>flask_post\<close>, the chat handler on the empty session of a request
    without cookies), and the client \<open>manual_test.py\<close>: \<open>test_chat\<close> with its
    status check, its \<open>except\<close> branch and its printed lines, and the main block
    \<open>manual_test_main\<close>.
  \<^item> \<open>Act_Scripts\<close>: \<open>merge_ipc.py\<close> as a program over the \<open>acts\<close> directory
    (\<open>act_store\<close>, JSON objects as association lists): \<open>merge_loop\<close>,
    \<open>verify_loop\<close> and \<open>merge_ipc_script\<close>, which returns the directory after the
    write-back and the printed lines; \<open>verify_ipc_format.py\<close> as the lines it prints
    and the exception that ends it.
  \<^item> \<open>Accounts\<close>: the users table as a list of rows with the id sequence
    (\<open>user_db\<close>), the DAO, service and route functions each returning the new table
    beside its result, the operations as \<open>account_op\<close> with the step function
    \<open>account_step\<close>, and the reachable tables as inductive predicates, by all
    operations (\<open>reachable_db\<close>) and by the routes alone (\<open>route_reachable\<close>).
  \<^item> \<open>Db_Bootstrap\<close>: \<open>db/db.py\<close> outside the DAO: the \<open>DATABASE_URL\<close> check,
    the request-scoped session of \<open>get_db\<close> over a pool of open sessions, and
    \<open>create_tables\<close> on a catalog of tables with the \<open>ADD COLUMN IF NOT EXISTS\<close>
    migration, which the dialect accepts or rejects.
  \<^item> \<open>Server_Startup\<close>: the module bodies of both FastAPI servers as functions
    of the environment and the \<open>.env\<close> file (\<open>load_dotenv\<close>): the chatbot
    server's Groq client (\<open>chatbot_startup\<close>), and the backend's import chain
    (\<open>db_module_init\<close>), client and \<open>create_tables\<close> inside a \<open>try\<close> that
    logs a warning (\<open>backend_startup\<close>).
  \<^item> \<open>Accounts_Spec\<close>: the abstract specification of the accounts component, a map
    from e-mail to account with the allowed transitions \<open>spec_step\<close>, the abstract
    login \<open>spec_login\<close>, and the abstraction \<open>accounts_of\<close> of the table.
  \<^item> \<open>Chat_Store\<close>: the chat handlers of both APIs over a file system of resolved
    paths in directory order (\<open>chat_fs\<close>); \<open>legal_chat\<close>,
    \<open>get_chat_history\<close>, \<open>list_chat_sessions\<close> and \<open>backend_legal_chat\<close>.
  \<^item> \<open>Template_Flow\<close>: the template endpoints of the chatbot API over a directory of
    metadata files and documents (\<open>template_fs\<close>): \<open>load_metadata\<close>,
    \<open>start_ai_flow\<close> (its \<open>try\<close> body \<open>start_ai_body\<close> and the wrapper that
    turns every exception into a 500), \<open>ai_next_question\<close>, \<open>extract_answers\<close>,
    \<open>complete_template\<close> and the JSON fence stripper; \<open>Doc_Analysis\<close>:
    \<open>analyze_image\<close> with the extraction and the parser as parameters.
  \<^item> \<open>Request_Models\<close>: the request bodies of the chatbot API as JSON values
    (\<open>json\<close>) and the pydantic models \<open>AIStartRequest\<close>, \<open>ChatRequest\<close>,
    \<open>AINextRequest\<close>, \<open>AICompleteRequest\<close> as validators
    (\<open>validate_chat_request\<close> and siblings) that collect FastAPI's 422 error list;
    the endpoints \<open>chat_api\<close>, \<open>start_api\<close>, \<open>next_api\<close> and
    \<open>complete_api\<close> validate before they call their handler, as do the backend's
    \<open>backend_chat_api\<close>, \<open>backend_start_api\<close>, \<open>backend_next_api\<close> (same
    models) and the router app's \<open>router_chat_api\<close> (a one-field \<open>ChatRequest\<close>).
  \<^item> \<open>Backend_Api\<close>: the template and analysis endpoints of \<open>src/Backend/main.py\<close>
    over the same directory and model parameters: \<open>backend_load_metadata\<close>,
    \<open>backend_start_ai_flow\<close> (body \<open>backend_start_body\<close>),
    \<open>backend_ai_next_question\<close> and \<open>backend_analyze_document\<close>.
  \<^item> \<open>Template_Files\<close>: \<open>list_templates\<close>, \<open>get_template\<close>,
    \<open>get_template_sections\<close> and \<open>list_categories\<close> over a tree of resolved
    paths with the files' bytes (\<open>template_tree\<close>), \<open>base64.b64encode\<close> on
    \<open>8 word\<close> bytes (\<open>b64_encode\<close>) and the RFC 4648 decoder the client applies.

  \<^medskip>\<^bold>\<open>What the lemmas show.\<close> \<open>Guardian\<close>: in case-study mode no reply
  cites a section number, a citing reply is replaced verbatim, other replies pass
  unchanged, store and model errors propagate, and the assembled context round-trips
  through the extractor. \<open>Extractor\<close>: the extractor never fabricates an id, and
  the filter fires exactly when the extractor finds a reference; examples expose the
  \<open>section_extractor.py\<close> bug. \<open>Classifier\<close> and \<open>Language\<close>: first-match
  semantics, the ordered table, and the dead Marathi and Assamese branches.
  \<open>Router_Api\<close>: every reachable Flask session stores well-formed entries, the
  sidebar shows the last five, detailed mode hands the router the path
  \<open>acts/ipc.json\<close> as document, and a merged act answers each section from the
  last part defining it. \<open>Manual_Test\<close>: against the repository the Flask app cannot start, so
  the script prints \<open>Connection failed\<close> for both speeds and both tests fail; with
  an importable prompt module the detailed test would pass exactly when the router
  answers. \<open>Act_Scripts\<close>: on a directory that parses, the file the
  script writes is exactly what \<open>load_section\<close> then reads as that merge; a
  malformed file leaves the directory unchanged with an error line; the report counts
  distinct sections. \<open>Accounts\<close>: every operation keeps the table invariant \<open>wf_db\<close> (a helper
  of the simulation below);
  register-then-login round-trips; login succeeds exactly on a verifying password and
  only for a stored account; duplicate and failing registrations; no route creates an
  advocate; \<open>update_user\<close> can produce a verified client. \<open>Accounts_Spec\<close>:
  every operation, on each of its branches, is simulated by the abstract rule for
  that branch (failures change nothing; a registration adds a fitting unverified client
  with a fresh id; an update moves the account to a free e-mail), so every reachable
  table abstracts to a reachable abstract state, whose accounts are stored under their
  e-mail and fit their columns, and login is the abstract login on it; and
  registration stays live: from every route-reachable table a fresh e-mail can be
  registered and then logs in. \<open>Db_Bootstrap\<close>: \<open>get_db\<close> closes its session
  on every outcome; \<open>create_tables\<close> is idempotent and, where the migration is
  accepted, leaves every model column in place; on SQLite an old table keeps its
  columns; a database that does not answer makes \<open>create_tables\<close> print and
  raise. \<open>Server_Startup\<close>: the backend stops at start-up only for a missing
  \<open>DATABASE_URL\<close> or Groq key; a database that does not answer leaves it running
  on the catalog as it was; a PostgreSQL database that answers gets every model
  column. \<open>Chat_Store\<close>: every
  reply carries the disclaimer; a written history reads back, and since each chat rewrites the file whole,
  two chats of one session from the same loaded history keep only the second
  exchange; the listing is the
  parseable sessions sorted most recent first, stably; a backend chat breaks the
  chatbot's listing; a session id with \<open>../\<close> writes outside the directory.
  \<open>Template_Flow\<close> and \<open>Doc_Analysis\<close>: fence stripping inverts the fence, the
  completed document's paragraphs join back to the model's text (\<open>join\<close> inverts
  \<open>split\<close>),
  the selected file name always names a metadata template, a missing metadata file
  surfaces as a 500 carrying the printed 404, and both a blank document and a model
  answer that does not parse make the analysis fail with \<open>UnboundLocalError\<close>
  (the fallback report is never returned). \<open>Backend_Api\<close>: the backend's selected file
  name also names a metadata template, and then every entry has its three keys; an
  entry without a title, or a failing selection call, fails the request with a 500
  (the chatbot server prints \<open>None\<close> and falls back instead); the backend analysis
  sends any extracted text, blank or not, to the model. \<open>Request_Models\<close>: a chat body is
  accepted exactly when it is typed as \<open>ChatRequest\<close> declares, and a rejected body
  is answered 422 by both servers with the files unchanged. \<open>Template_Files\<close>: base64
  decoding inverts \<open>b64_encode\<close> (proved bitwise on the six-bit slices), so the
  download round-trips the stored bytes; every listed template downloads, by the
  algebra of \<open>os_path\<close> on resolved paths; an absolute \<open>name\<close> serves any file;
  a download of \<open>n\<close> bytes has exactly \<open>4 * ceil(n / 3)\<close> characters of the
  alphabet and \<open>=\<close>; the category listing is a dictionary without repeated keys.

  \<^medskip>\<^bold>\<open>Bounds, fuel and approximations.\<close> Every function of the development is
  total and computes: loops over lists are structural recursion, \<open>re_findall\<close>
  terminates by the length of the remaining text, and no definition needs fuel.
  Unicode tables are exact on ASCII, Latin-1 and whitespace; above U+00FF the word
  characters are the Indic script blocks except the dandas, the digits add the
  Indic and Arabic-Indic digits, and case folding adds the partners \<open>re\<close> uses
  (long s, dotless and dotted i, Kelvin sign). Password hashing is symbolic
  (\<open>Pbkdf2 salt password\<close>); JSON files are their parsed values, so
  \<open>json.dump\<close> followed by \<open>json.load\<close> is the identity, and the message of a
  \<open>JSONDecodeError\<close> is shortened to \<open>Expecting value\<close> (the real one carries the
  position, which depends on the malformed text); a history entry whose
  \<open>content\<close> or \<open>conversation\<close> is \<open>null\<close> is treated like an absent key by the
  session listing, where the code raises and skips that file; the model calls are
  parameters; clocks, uuids and salts are arguments of the handlers.

  Metadata files are modelled as JSON lists of objects with string values, documents
  as their paragraph texts; \<open>json.loads\<close> of a model answer is a parameter. Paths
  are resolved lexically (\<open>os_path\<close>: no symbolic links); a glob lists files only,
  not directories whose name matches.

  \<^medskip>\<^bold>\<open>Not modelled.\<close> The static file mounts of both servers, the
  HTTP transport itself (a request reaches the route table directly; the session
  cookie's signing key \<open>os.urandom(24)\<close> plays no part), the key
  order of \<open>json.dumps\<close> in \<open>verify_ipc_format.py\<close>, the SQL engine behind
  SQLAlchemy (the catalog records tables and columns only), and the library
  configuration of the servers' module bodies (logging, the CORS middleware, the
  path constants and the mounting of the authentication router under \<open>/auth\<close>).
\<close>

end
